theory Spec2Isabelle
  imports Complex_Main "HOL-Library.Word"
begin

unbundle bit_operations_syntax

section \<open>Color management of image buffers (imbuf/intern/colormanagement.c)\<close>

text \<open>
  A shallow embedding of the catalog lookups, the transform-processor construction, the
  display-buffer cache and the partial display-buffer update of colormanagement.c.

  Conventions of the embedding:
  \<^item> C \<open>int\<close> values are \<open>int\<close>; the one place where a conversion to \<open>size_t\<close> decides the
    outcome (the threading threshold) uses \<open>64 word\<close>.
  \<^item> A finite C \<open>float\<close> value is the \<open>real\<close> number it denotes, and a comparison of two
    floats is the comparison of those numbers; infinite and NaN inputs are not represented.
    Float arithmetic that rounds or overflows (\<open>powf\<close>, the division) is not computed in
    \<open>real\<close>: it is a parameter, and its result is a \<open>cfloat\<close>, which may be infinite or NaN.
  \<^item> A pointer that may be \<open>NULL\<close> is an \<open>option\<close>; dereferencing \<open>NULL\<close>, indexing outside an
    array and an undefined shift are results \<open>Inl e\<close> of the sum type \<open>error + 'a\<close>.
  \<^item> Functions of other modules (the OCIO C-API, the movie cache, the pixel conversion
    helpers of BLI and IMB) are parameters collected in records, or are modelled where the
    text says so.
\<close>

datatype error = NullDeref | OutOfBounds | UndefinedShift | IntOverflow

subsection \<open>Catalog entries and named lookups\<close>

record ColorManagedView =
  view_index :: int
  view_name :: string

record ColorManagedDisplay =
  display_index :: int
  display_name :: string
  display_views :: "ColorManagedView list"

record ColorManagedLook =
  look_index :: int
  look_name :: string
  look_ui_name :: string
  look_view :: string
  look_process_space :: string
  look_is_noop :: bool

record ColorSpace =
  colorspace_name :: string
  colorspace_is_data :: bool

text \<open>The global lists and counters of the file (\<open>global_displays\<close>, \<open>global_tot_display\<close>, ...).\<close>

record globals =
  global_colorspaces :: "ColorSpace list"
  global_displays :: "ColorManagedDisplay list"
  global_views :: "ColorManagedView list"
  global_looks :: "ColorManagedLook list"
  global_tot_display :: int
  global_tot_view :: int
  global_tot_looks :: int
  global_role_scene_linear :: string

text \<open>Each \<open>*_get_named\<close> walks its list and returns the first entry whose name is \<open>STREQ\<close> to
  the argument, or \<open>NULL\<close>.\<close>

definition colormanage_display_get_named :: "globals \<Rightarrow> string \<Rightarrow> ColorManagedDisplay option" where
  "colormanage_display_get_named g name = find (\<lambda>d. display_name d = name) (global_displays g)"

definition colormanage_view_get_named :: "globals \<Rightarrow> string \<Rightarrow> ColorManagedView option" where
  "colormanage_view_get_named g name = find (\<lambda>v. view_name v = name) (global_views g)"

definition colormanage_look_get_named :: "globals \<Rightarrow> string \<Rightarrow> ColorManagedLook option" where
  "colormanage_look_get_named g name = find (\<lambda>l. look_name l = name) (global_looks g)"

definition colormanage_colorspace_get_named :: "globals \<Rightarrow> string \<Rightarrow> ColorSpace option" where
  "colormanage_colorspace_get_named g name =
     find (\<lambda>c. colorspace_name c = name) (global_colorspaces g)"

definition IMB_colormanagement_display_get_named_index :: "globals \<Rightarrow> string \<Rightarrow> int" where
  "IMB_colormanagement_display_get_named_index g name =
     (case colormanage_display_get_named g name of
        Some display \<Rightarrow> display_index display
      | None \<Rightarrow> 0)"

definition IMB_colormanagement_view_get_named_index :: "globals \<Rightarrow> string \<Rightarrow> int" where
  "IMB_colormanagement_view_get_named_index g name =
     (case colormanage_view_get_named g name of
        Some view \<Rightarrow> view_index view
      | None \<Rightarrow> 0)"

definition IMB_colormanagement_look_get_named_index :: "globals \<Rightarrow> string \<Rightarrow> int" where
  "IMB_colormanagement_look_get_named_index g name =
     (case colormanage_look_get_named g name of
        Some look \<Rightarrow> look_index look
      | None \<Rightarrow> 0)"

text \<open>\<open>colormanage_compatible_look\<close>: \<open>view_name\<close> is a \<open>const char *\<close> that the function tests
  against \<open>NULL\<close>.\<close>

definition colormanage_compatible_look :: "ColorManagedLook \<Rightarrow> string option \<Rightarrow> bool" where
  "colormanage_compatible_look look viewname =
     (if look_is_noop look then True
      else (look_view look = [] \<or>
            (case viewname of None \<Rightarrow> False | Some v \<Rightarrow> look_view look = v)))"

text \<open>\<open>colormanage_use_look\<close> reads \<open>look_descr->is_noop\<close> with no test of \<open>look_descr\<close>.\<close>

definition colormanage_use_look :: "globals \<Rightarrow> string \<Rightarrow> string option \<Rightarrow> error + bool" where
  "colormanage_use_look g look viewname =
     (case colormanage_look_get_named g look of
        None \<Rightarrow> Inl NullDeref
      | Some look_descr \<Rightarrow>
          Inr (look_is_noop look_descr = False \<and> colormanage_compatible_look look_descr viewname))"

subsection \<open>The transform engine (OCIO C-API)\<close>

text \<open>The argument list of \<open>OCIO_createDisplayProcessor\<close>, and the two kinds of processor the
  engine is asked for. Whether the engine compiles a processor (returns non-\<open>NULL\<close>) and what a
  compiled processor does to pixels is the engine's business: both are fields of \<open>engine\<close>.
  The last two fields of \<open>engine\<close> are the 32-bit float arithmetic that
  \<open>create_display_buffer_processor\<close> uses, \<open>powf\<close> of the C library and the division \<open>a / b\<close>
  of two floats: both round and both may overflow, and what they return is the platform's
  business as well.\<close>

text \<open>What float arithmetic hands back: a finite float (the number it denotes), an infinity
  or NaN.\<close>

datatype cfloat = Finite real | PlusInfinity | MinusInfinity | NaN

record OCIO_display_request =
  req_from_colorspace :: string
  req_view :: string
  req_display :: string
  req_look :: string
  req_scale :: cfloat
  req_exponent :: cfloat

datatype OCIO_processor =
    DisplayProcessor OCIO_display_request
  | ColorspaceProcessor string string

text \<open>A \<open>float pixel[4]\<close>.\<close>

type_synonym pixel = "real \<times> real \<times> real \<times> real"

record engine =
  OCIO_compiles :: "OCIO_processor \<Rightarrow> bool"
  OCIO_cpuProcessorApplyRGBA_predivide :: "OCIO_processor \<Rightarrow> pixel \<Rightarrow> pixel"
  OCIO_cpuProcessorApplyRGBA :: "OCIO_processor \<Rightarrow> pixel \<Rightarrow> pixel"
  OCIO_cpuProcessorApplyRGB :: "OCIO_processor \<Rightarrow> pixel \<Rightarrow> pixel"
  OCIO_configGetDisplayColorSpaceName :: "string \<Rightarrow> string \<Rightarrow> string option"
  powf :: "real \<Rightarrow> real \<Rightarrow> cfloat"
  float_div :: "real \<Rightarrow> real \<Rightarrow> cfloat"

text \<open>\<open>max_ff\<close> of BLI_math (\<open>(a > b) ? a : b\<close>, a comparison and no arithmetic) and
  \<open>FLT_EPSILON\<close> of float.h (\<open>2\<^sup>-\<^sup>2\<^sup>3\<close>, a float).\<close>

definition max_ff :: "real \<Rightarrow> real \<Rightarrow> real" where
  "max_ff a b = (if a > b then a else b)"

definition FLT_EPSILON :: real where
  "FLT_EPSILON = 1 / 2 ^ 23"

text \<open>\<open>create_display_buffer_processor\<close>. The result pairs the argument list handed to
  \<open>OCIO_createDisplayProcessor\<close> with the CPU processor returned (\<open>NULL\<close> when the engine
  does not compile the request).\<close>

definition create_display_buffer_processor ::
  "engine \<Rightarrow> globals \<Rightarrow> string \<Rightarrow> string \<Rightarrow> string \<Rightarrow> real \<Rightarrow> real \<Rightarrow> string
     \<Rightarrow> error + (OCIO_display_request \<times> OCIO_processor option)" where
  "create_display_buffer_processor E g look view_transform display exposure gamma from_colorspace =
     (case colormanage_use_look g look (Some view_transform) of
        Inl e \<Rightarrow> Inl e
      | Inr use_look \<Rightarrow>
          (let scale = (if exposure = 0 then Finite 1 else powf E 2 exposure);
               exponent = (if gamma = 1 then Finite 1
                           else float_div E 1 (max_ff FLT_EPSILON gamma));
               req = \<lparr>req_from_colorspace = from_colorspace, req_view = view_transform,
                      req_display = display, req_look = (if use_look then look else []),
                      req_scale = scale, req_exponent = exponent\<rparr>
           in Inr (req, if OCIO_compiles E (DisplayProcessor req)
                        then Some (DisplayProcessor req) else None)))"

subsection \<open>Color space transformation of whole buffers\<close>

record 'curve ColormanageProcessor =
  cm_cpu_processor :: "OCIO_processor option"
  cm_curve_mapping :: "'curve option"
  cm_is_data_result :: bool

text \<open>\<open>IMB_colormanagement_colorspace_processor_new\<close> reads \<open>color_space->is_data\<close> of the
  destination space with no test for \<open>NULL\<close>.\<close>

definition IMB_colormanagement_colorspace_processor_new ::
  "engine \<Rightarrow> globals \<Rightarrow> string \<Rightarrow> string \<Rightarrow> error + 'curve ColormanageProcessor" where
  "IMB_colormanagement_colorspace_processor_new E g from_colorspace to_colorspace =
     (case colormanage_colorspace_get_named g to_colorspace of
        None \<Rightarrow> Inl NullDeref
      | Some color_space \<Rightarrow>
          (let processor = ColorspaceProcessor from_colorspace to_colorspace
           in Inr \<lparr>cm_cpu_processor = (if OCIO_compiles E processor then Some processor else None),
                   cm_curve_mapping = None,
                   cm_is_data_result = colorspace_is_data color_space\<rparr>))"

text \<open>The application of a processor to a whole byte or float buffer
  (\<open>IMB_colormanagement_processor_apply_byte\<close>, \<open>IMB_colormanagement_processor_apply\<close>,
  \<open>processor_transform_apply_threaded\<close>) is a loop of engine calls over the pixels. Nothing
  below depends on what the three functions compute: they are parameters, functions from
  the buffer given to the buffer left behind.\<close>

record 'curve buffer_ops =
  IMB_colormanagement_processor_apply_byte ::
    "'curve ColormanageProcessor \<Rightarrow> 8 word list \<Rightarrow> int \<Rightarrow> int \<Rightarrow> int \<Rightarrow> 8 word list"
  IMB_colormanagement_processor_apply ::
    "'curve ColormanageProcessor \<Rightarrow> real list \<Rightarrow> int \<Rightarrow> int \<Rightarrow> int \<Rightarrow> bool \<Rightarrow> real list"
  processor_transform_apply_threaded ::
    "8 word list option \<Rightarrow> real list option \<Rightarrow> int \<Rightarrow> int \<Rightarrow> int
       \<Rightarrow> 'curve ColormanageProcessor \<Rightarrow> bool \<Rightarrow> bool \<Rightarrow> 8 word list option \<times> real list option"

text \<open>\<open>colormanagement_transform_ex\<close>: the buffers are passed in and returned. The two color
  space names are \<open>const char *\<close>; the function reads \<open>from_colorspace[0]\<close> first and hands both
  to \<open>STREQ\<close> next.\<close>

definition colormanagement_transform_ex ::
  "engine \<Rightarrow> 'curve buffer_ops \<Rightarrow> globals \<Rightarrow> 8 word list option \<Rightarrow> real list option
     \<Rightarrow> int \<Rightarrow> int \<Rightarrow> int \<Rightarrow> string option \<Rightarrow> string option \<Rightarrow> bool \<Rightarrow> bool
     \<Rightarrow> error + (8 word list option \<times> real list option)" where
  "colormanagement_transform_ex E B g byte_buffer float_buffer width height channels
       from_colorspace to_colorspace predivide do_threaded =
     (case from_colorspace of
        None \<Rightarrow> Inl NullDeref
      | Some from_cs \<Rightarrow>
          if from_cs = [] then Inr (byte_buffer, float_buffer)
          else (case to_colorspace of
                  None \<Rightarrow> Inl NullDeref
                | Some to_cs \<Rightarrow>
                    if from_cs = to_cs then Inr (byte_buffer, float_buffer)
                    else (case IMB_colormanagement_colorspace_processor_new E g from_cs to_cs of
                            Inl e \<Rightarrow> Inl e
                          | Inr cm_processor \<Rightarrow>
                              if do_threaded
                              then Inr (processor_transform_apply_threaded B byte_buffer float_buffer
                                          width height channels cm_processor predivide False)
                              else Inr (map_option (\<lambda>b. IMB_colormanagement_processor_apply_byte B
                                                     cm_processor b width height channels) byte_buffer,
                                        map_option (\<lambda>f. IMB_colormanagement_processor_apply B
                                                     cm_processor f width height channels predivide)
                                          float_buffer))))"

definition IMB_colormanagement_transform ::
  "engine \<Rightarrow> 'curve buffer_ops \<Rightarrow> globals \<Rightarrow> real list \<Rightarrow> int \<Rightarrow> int \<Rightarrow> int
     \<Rightarrow> string option \<Rightarrow> string option \<Rightarrow> bool \<Rightarrow> error + real list" where
  "IMB_colormanagement_transform E B g buffer width height channels from_colorspace
       to_colorspace predivide =
     (case colormanagement_transform_ex E B g None (Some buffer) width height channels
             from_colorspace to_colorspace predivide False of
        Inl e \<Rightarrow> Inl e
      | Inr (_, float_buffer) \<Rightarrow> Inr (case float_buffer of Some f \<Rightarrow> f | None \<Rightarrow> buffer))"

text \<open>\<open>IMB_colormanagement_processor_apply_v4\<close> and \<open>IMB_colormanagement_transform_v4\<close>. The
  curve evaluation \<open>BKE_curvemapping_evaluate_premulRGBF\<close> is a parameter.\<close>

definition IMB_colormanagement_processor_apply_v4 ::
  "engine \<Rightarrow> ('curve \<Rightarrow> pixel \<Rightarrow> pixel) \<Rightarrow> 'curve ColormanageProcessor
     \<Rightarrow> pixel \<Rightarrow> pixel" where
  "IMB_colormanagement_processor_apply_v4 E BKE_curvemapping_evaluate_premulRGBF cm_processor pixel =
     (let pixel1 = (case cm_curve_mapping cm_processor of
                      Some cumap \<Rightarrow> BKE_curvemapping_evaluate_premulRGBF cumap pixel
                    | None \<Rightarrow> pixel)
      in (case cm_cpu_processor cm_processor of
            Some p \<Rightarrow> OCIO_cpuProcessorApplyRGBA E p pixel1
          | None \<Rightarrow> pixel1))"

definition IMB_colormanagement_transform_v4 ::
  "engine \<Rightarrow> ('curve \<Rightarrow> pixel \<Rightarrow> pixel) \<Rightarrow> globals \<Rightarrow> pixel
     \<Rightarrow> string option \<Rightarrow> string option \<Rightarrow> error + pixel" where
  "IMB_colormanagement_transform_v4 E evalF g pixel from_colorspace to_colorspace =
     (case from_colorspace of
        None \<Rightarrow> Inl NullDeref
      | Some from_cs \<Rightarrow>
          if from_cs = [] then Inr pixel
          else (case to_colorspace of
                  None \<Rightarrow> Inl NullDeref
                | Some to_cs \<Rightarrow>
                    if from_cs = to_cs then Inr pixel
                    else (case IMB_colormanagement_colorspace_processor_new E g from_cs to_cs of
                            Inl e \<Rightarrow> Inl e
                          | Inr cm_processor \<Rightarrow>
                              Inr (IMB_colormanagement_processor_apply_v4 E evalF cm_processor pixel))))"

subsection \<open>Loading the configuration (\<open>colormanage_load_config\<close>, \<open>colormanagement_init\<close>)\<close>

text \<open>What the file reads from an \<open>OCIO_ConstConfigRcPtr\<close>: the color space of the scene-linear
  role (\<open>NULL\<close> when the role is not found), the color spaces (name, invertible, data), the
  displays with their view names, and the looks (name, process space). The other six roles,
  the descriptions and the luminance coefficients are read by \<open>colormanage_load_config\<close> in
  the same way and are left out: nothing below reads them.\<close>

record OCIO_config =
  cfg_role_scene_linear :: "string option"
  cfg_colorspaces :: "(string \<times> bool \<times> bool) list"
  cfg_displays :: "(string \<times> string list) list"
  cfg_looks :: "(string \<times> string) list"

text \<open>\<open>BLI_strncpy dst src maxncpy\<close> copies at most \<open>maxncpy - 1\<close> characters. Every name field
  of the catalog entries is a \<open>char[MAX_COLORSPACE_NAME]\<close>; the constant is declared in
  DNA_color_types.h as 64.\<close>

definition BLI_strncpy :: "string \<Rightarrow> nat \<Rightarrow> string" where
  "BLI_strncpy src maxncpy = take (maxncpy - 1) src"

definition MAX_COLORSPACE_NAME :: nat where
  "MAX_COLORSPACE_NAME = 64"

text \<open>\<open>strstr\<close> of the C library, as the offset of the first occurrence.\<close>

fun strstr :: "string \<Rightarrow> string \<Rightarrow> nat option" where
  "strstr [] needle = (if needle = [] then Some 0 else None)"
| "strstr (c # cs) needle =
     (if take (length needle) (c # cs) = needle then Some 0
      else map_option Suc (strstr cs needle))"

definition colormanage_role_color_space_name_get :: "string option \<Rightarrow> string \<Rightarrow> string" where
  "colormanage_role_color_space_name_get ociocs role_name =
     (case ociocs of
        Some name \<Rightarrow> BLI_strncpy name MAX_COLORSPACE_NAME
      | None \<Rightarrow> role_name)"

text \<open>\<open>colormanage_colorspace_add\<close> keeps the list ordered by \<open>BLI_strcasecmp\<close> (a parameter):
  the new color space goes before the first entry that compares greater. The indices it
  renumbers are positions in the list and are not stored in the model.\<close>

fun colorspace_insert ::
  "(string \<Rightarrow> string \<Rightarrow> int) \<Rightarrow> ColorSpace \<Rightarrow> ColorSpace list \<Rightarrow> ColorSpace list" where
  "colorspace_insert BLI_strcasecmp colorspace [] = [colorspace]"
| "colorspace_insert BLI_strcasecmp colorspace (prev_space # rest) =
     (if BLI_strcasecmp (colorspace_name prev_space) (colorspace_name colorspace) > 0
      then colorspace # prev_space # rest
      else prev_space # colorspace_insert BLI_strcasecmp colorspace rest)"

definition colormanage_colorspace_add ::
  "(string \<Rightarrow> string \<Rightarrow> int) \<Rightarrow> globals \<Rightarrow> string \<Rightarrow> bool \<Rightarrow> bool \<Rightarrow> globals" where
  "colormanage_colorspace_add BLI_strcasecmp g name is_invertible is_data =
     g\<lparr>global_colorspaces :=
          colorspace_insert BLI_strcasecmp
            \<lparr>colorspace_name = BLI_strncpy name MAX_COLORSPACE_NAME, colorspace_is_data = is_data\<rparr>
            (global_colorspaces g)\<rparr>"

text \<open>\<open>colormanage_display_add\<close> appends a display numbered one above the last display of the
  list; it does not touch \<open>global_tot_display\<close>.\<close>

definition colormanage_display_add :: "globals \<Rightarrow> string \<Rightarrow> globals" where
  "colormanage_display_add g name =
     (let index = (case global_displays g of [] \<Rightarrow> 0 | _ \<Rightarrow> display_index (last (global_displays g)))
      in g\<lparr>global_displays := global_displays g @
              [\<lparr>display_index = index + 1, display_name = BLI_strncpy name MAX_COLORSPACE_NAME,
                display_views = []\<rparr>]\<rparr>)"

definition colormanage_view_add :: "globals \<Rightarrow> string \<Rightarrow> ColorManagedView \<times> globals" where
  "colormanage_view_add g name =
     (let index = global_tot_view g;
          view = \<lparr>view_index = index + 1, view_name = BLI_strncpy name MAX_COLORSPACE_NAME\<rparr>
      in (view, g\<lparr>global_views := global_views g @ [view],
                    global_tot_view := global_tot_view g + 1\<rparr>))"

definition colormanage_look_add :: "globals \<Rightarrow> string \<Rightarrow> string \<Rightarrow> bool \<Rightarrow> globals" where
  "colormanage_look_add g name process_space is_noop =
     (let index = global_tot_looks g;
          lname = BLI_strncpy name MAX_COLORSPACE_NAME;
          look = \<lparr>look_index = index + 1, look_name = lname, look_ui_name = lname,
                   look_view = [],
                   look_process_space = BLI_strncpy process_space MAX_COLORSPACE_NAME,
                   look_is_noop = is_noop\<rparr>;
          look' = (case strstr lname '' - '' of
                     Some separator_offset \<Rightarrow>
                       look\<lparr>look_view := BLI_strncpy lname (separator_offset + 1),
                            look_ui_name := BLI_strncpy (drop (separator_offset + 3) lname)
                                              MAX_COLORSPACE_NAME\<rparr>
                   | None \<Rightarrow> look)
      in g\<lparr>global_looks := global_looks g @ [look'],
            global_tot_looks := global_tot_looks g + 1\<rparr>)"

text \<open>The loops of \<open>colormanage_load_config\<close>. The inner loop appends each view of the
  display just added (the last of \<open>global_displays\<close>) to that display's list, adding the view
  to \<open>global_views\<close> when no view of that name is loaded yet.\<close>

fun load_colorspaces ::
  "(string \<Rightarrow> string \<Rightarrow> int) \<Rightarrow> globals \<Rightarrow> (string \<times> bool \<times> bool) list \<Rightarrow> globals" where
  "load_colorspaces cmp g [] = g"
| "load_colorspaces cmp g ((name, is_invertible, is_data) # rest) =
     load_colorspaces cmp (colormanage_colorspace_add cmp g name is_invertible is_data) rest"

fun load_views :: "globals \<Rightarrow> string list \<Rightarrow> globals" where
  "load_views g [] = g"
| "load_views g (viewname # rest) =
     (let (view, g1) = (case colormanage_view_get_named g viewname of
                          Some v \<Rightarrow> (v, g)
                        | None \<Rightarrow> colormanage_view_add g viewname);
          ds = global_displays g1;
          g2 = g1\<lparr>global_displays :=
                   butlast ds @ map (\<lambda>display. display\<lparr>display_views := display_views display @ [view]\<rparr>)
                                  (drop (length ds - 1) ds)\<rparr>
      in load_views g2 rest)"

fun load_displays :: "globals \<Rightarrow> (string \<times> string list) list \<Rightarrow> globals" where
  "load_displays g [] = g"
| "load_displays g ((displayname, viewnames) # rest) =
     load_displays (load_views (colormanage_display_add g displayname) viewnames) rest"

fun load_looks :: "globals \<Rightarrow> (string \<times> string) list \<Rightarrow> globals" where
  "load_looks g [] = g"
| "load_looks g ((name, process_space) # rest) =
     load_looks (colormanage_look_add g name process_space False) rest"

definition colormanage_load_config ::
  "(string \<Rightarrow> string \<Rightarrow> int) \<Rightarrow> globals \<Rightarrow> OCIO_config \<Rightarrow> globals" where
  "colormanage_load_config cmp g config =
     (let g1 = g\<lparr>global_role_scene_linear :=
                   colormanage_role_color_space_name_get (cfg_role_scene_linear config)
                     (global_role_scene_linear g)\<rparr>;
          g2 = load_colorspaces cmp g1 (cfg_colorspaces config);
          g3 = load_displays g2 (cfg_displays config);
          g4 = g3\<lparr>global_tot_display := int (length (cfg_displays config))\<rparr>;
          g5 = colormanage_look_add g4 ''None'' [] True
      in load_looks g5 (cfg_looks config))"

definition colormanage_free_config :: "globals \<Rightarrow> globals" where
  "colormanage_free_config g =
     g\<lparr>global_colorspaces := [], global_displays := [], global_tot_display := 0,
       global_views := [], global_tot_view := 0, global_looks := [], global_tot_looks := 0\<rparr>"

text \<open>What \<open>colormanagement_init\<close> finds at startup: the \<open>OCIO\<close> environment variable, the
  configuration \<open>OCIO_configCreateFromEnv\<close> would return, the data directory, the configuration
  \<open>OCIO_configCreateFromFile\<close> would return for the file in it, and the configuration
  \<open>OCIO_configCreateFallback\<close> returns.\<close>

record startup =
  st_ocio_env :: "string option"
  st_config_from_env :: "OCIO_config option"
  st_configdir :: "string option"
  st_config_from_file :: "OCIO_config option"
  st_config_fallback :: "OCIO_config option"

text \<open>The first half of \<open>colormanagement_init\<close>: the configuration that is loaded first.\<close>

definition colormanagement_init_config :: "startup \<Rightarrow> OCIO_config option" where
  "colormanagement_init_config st =
     (let config = (case st_ocio_env st of
                      Some ocio_env \<Rightarrow> if ocio_env \<noteq> [] then st_config_from_env st else None
                    | None \<Rightarrow> None);
          config1 = (if config = None
                     then (case st_configdir st of
                             Some configdir \<Rightarrow> st_config_from_file st
                           | None \<Rightarrow> None)
                     else config);
          config2 = (if config1 = None then st_config_fallback st else config1)
      in config2)"

definition colormanagement_init_loaded ::
  "(string \<Rightarrow> string \<Rightarrow> int) \<Rightarrow> globals \<Rightarrow> startup \<Rightarrow> globals" where
  "colormanagement_init_loaded cmp g st =
     (case colormanagement_init_config st of
        Some config \<Rightarrow> colormanage_load_config cmp g config
      | None \<Rightarrow> g)"

text \<open>\<open>colormanagement_init\<close>. In the fallback branch the configuration is handed to
  \<open>colormanage_load_config\<close> with no test for \<open>NULL\<close>.\<close>

definition colormanagement_init ::
  "(string \<Rightarrow> string \<Rightarrow> int) \<Rightarrow> globals \<Rightarrow> startup \<Rightarrow> error + globals" where
  "colormanagement_init cmp g st =
     (let g1 = colormanagement_init_loaded cmp g st
      in if global_tot_display g1 = 0 \<or> global_tot_view g1 = 0
         then (case st_config_fallback st of
                 None \<Rightarrow> Inl NullDeref
               | Some config \<Rightarrow>
                   Inr (colormanage_load_config cmp (colormanage_free_config g1) config))
         else Inr g1)"

subsection \<open>The display-buffer cache\<close>

text \<open>A \<open>CurveMapping *\<close> is compared as a pointer and read for its \<open>changed_timestamp\<close>: the
  model keeps the address and the timestamp found there.\<close>

record CurveMapping =
  cumap_address :: nat
  changed_timestamp :: int

record ColormanageCacheViewSettings =
  cvs_flag :: int
  cvs_look :: int
  cvs_view :: int
  cvs_exposure :: real
  cvs_gamma :: real
  cvs_dither :: real
  cvs_curve_mapping :: "CurveMapping option"

record ColormanageCacheDisplaySettings =
  cds_display :: int

record ColormanageCacheKey =
  key_view :: int
  key_display :: int

record ColormanageCacheData =
  cd_flag :: int
  cd_look :: int
  cd_exposure :: real
  cd_gamma :: real
  cd_dither :: real
  cd_curve_mapping :: "nat option"
  cd_curve_mapping_timestamp :: int

text \<open>An element of the cache is an \<open>ImBuf\<close> of its own: the display buffer is its \<open>rect\<close>,
  the snapshot is the \<open>data\<close> of its \<open>colormanage_cache\<close>.\<close>

record cache_ImBuf =
  cache_x :: int
  cache_y :: int
  cache_rect :: "8 word list"
  cache_data :: "ColormanageCacheData option"

type_synonym MovieCache = "ColormanageCacheKey \<rightharpoonup> cache_ImBuf"

record ColormanageCache =
  moviecache :: "MovieCache option"

record ImBuf =
  ibuf_x :: int
  ibuf_y :: int
  ibuf_channels :: int
  ibuf_dither :: real
  ibuf_userflags :: int
  ibuf_colormanage_flag :: int
  ibuf_rect_colorspace :: "ColorSpace option"
  display_buffer_flags :: "32 word list option"
  colormanage_cache :: "ColormanageCache option"

text \<open>Calls into other modules that a function makes, in order. They are returned next to
  the result, so that a statement can say which calls were made.\<close>

datatype call =
    Call_IMB_moviecache_get ColormanageCacheKey
  | Call_IMB_moviecache_put ColormanageCacheKey
  | Call_IMB_freeImBuf cache_ImBuf
  | Call_IMB_processor_apply_threaded_scanlines int

text \<open>Modelled from the spec: \<open>IMB_moviecache_get\<close> and \<open>IMB_moviecache_put\<close> of the block cache
  (IMB_moviecache.h, not part of the file), a key to object store: \<open>put\<close> stores the object
  under the key, \<open>get\<close> returns the object stored under the key or \<open>NULL\<close>. Eviction under the
  memory budget is not represented.\<close>

definition IMB_moviecache_get :: "MovieCache \<Rightarrow> ColormanageCacheKey \<Rightarrow> cache_ImBuf option" where
  "IMB_moviecache_get cache key = cache key"

definition IMB_moviecache_put :: "MovieCache \<Rightarrow> ColormanageCacheKey \<Rightarrow> cache_ImBuf \<Rightarrow> MovieCache" where
  "IMB_moviecache_put cache key ibuf = cache(key \<mapsto> ibuf)"

definition colormanage_moviecache_get :: "ImBuf \<Rightarrow> MovieCache option" where
  "colormanage_moviecache_get ibuf =
     (case colormanage_cache ibuf of
        None \<Rightarrow> None
      | Some cache \<Rightarrow> moviecache cache)"

definition colormanage_moviecache_ensure :: "ImBuf \<Rightarrow> ImBuf \<times> MovieCache" where
  "colormanage_moviecache_ensure ibuf =
     (let cache = (case colormanage_cache ibuf of
                     None \<Rightarrow> \<lparr>moviecache = None\<rparr>
                   | Some c \<Rightarrow> c);
          mc = (case moviecache cache of None \<Rightarrow> Map.empty | Some m \<Rightarrow> m)
      in (ibuf\<lparr>colormanage_cache := Some (cache\<lparr>moviecache := Some mc\<rparr>)\<rparr>, mc))"

definition colormanage_settings_to_key ::
  "ColormanageCacheViewSettings \<Rightarrow> ColormanageCacheDisplaySettings \<Rightarrow> ColormanageCacheKey" where
  "colormanage_settings_to_key view_settings display_settings =
     \<lparr>key_view = cvs_view view_settings, key_display = cds_display display_settings\<rparr>"

text \<open>\<open>1 << (view - 1)\<close> on \<open>int\<close>: defined for shift counts 0 to 30.\<close>

definition view_flag_of :: "int \<Rightarrow> error + 32 word" where
  "view_flag_of view =
     (if 0 \<le> view - 1 \<and> view - 1 < 31 then Inr (push_bit (nat (view - 1)) 1)
      else Inl UndefinedShift)"

text \<open>The snapshot that belongs to a request, as one value: the seven fields that
  \<open>colormanage_cache_get\<close> compares one by one.\<close>

definition cache_data_of :: "ColormanageCacheViewSettings \<Rightarrow> ColormanageCacheData" where
  "cache_data_of view_settings =
     \<lparr>cd_flag = cvs_flag view_settings,
      cd_look = cvs_look view_settings,
      cd_exposure = cvs_exposure view_settings,
      cd_gamma = cvs_gamma view_settings,
      cd_dither = cvs_dither view_settings,
      cd_curve_mapping = map_option cumap_address (cvs_curve_mapping view_settings),
      cd_curve_mapping_timestamp =
        (case cvs_curve_mapping view_settings of
           Some curve_mapping \<Rightarrow> changed_timestamp curve_mapping
         | None \<Rightarrow> 0)\<rparr>"

text \<open>\<open>colormanage_cache_get\<close> (with \<open>colormanage_cache_get_ibuf\<close> inlined). The arguments
  are the image buffer, the two settings and the value \<open>*cache_handle\<close> holds on entry; the
  result is the returned display buffer (\<open>NULL\<close> on a miss), the value of \<open>*cache_handle\<close> on
  exit and the calls made. The \<open>BLI_assert\<close> on the dimensions is a debug check and is left
  out.\<close>

definition colormanage_cache_get ::
  "ImBuf \<Rightarrow> ColormanageCacheViewSettings \<Rightarrow> ColormanageCacheDisplaySettings
     \<Rightarrow> cache_ImBuf option \<Rightarrow> error + (8 word list option \<times> cache_ImBuf option \<times> call list)" where
  "colormanage_cache_get ibuf view_settings display_settings cache_handle =
     (case view_flag_of (cvs_view view_settings) of
        Inl e \<Rightarrow> Inl e
      | Inr view_flag \<Rightarrow>
     (let curve_mapping = cvs_curve_mapping view_settings;
          curve_mapping_timestamp = (case curve_mapping of
                                       Some c \<Rightarrow> changed_timestamp c
                                     | None \<Rightarrow> 0);
          key = colormanage_settings_to_key view_settings display_settings
      in case display_buffer_flags ibuf of
           None \<Rightarrow> Inl NullDeref
         | Some flags \<Rightarrow>
             if \<not> (0 \<le> cds_display display_settings - 1
                   \<and> cds_display display_settings - 1 < int (length flags))
             then Inl OutOfBounds
             else if (flags ! nat (cds_display display_settings - 1)) AND view_flag = 0
             then Inr (None, cache_handle, [])
             else (case colormanage_moviecache_get ibuf of
                     None \<Rightarrow> Inr (None, cache_handle, [])
                   | Some mc \<Rightarrow>
                       (case IMB_moviecache_get mc key of
                          None \<Rightarrow> Inr (None, None, [Call_IMB_moviecache_get key])
                        | Some cache_ibuf \<Rightarrow>
                            (case cache_data cache_ibuf of
                               None \<Rightarrow> Inl NullDeref
                             | Some cd \<Rightarrow>
                                 if cd_look cd \<noteq> cvs_look view_settings \<or>
                                    cd_exposure cd \<noteq> cvs_exposure view_settings \<or>
                                    cd_gamma cd \<noteq> cvs_gamma view_settings \<or>
                                    cd_dither cd \<noteq> cvs_dither view_settings \<or>
                                    cd_flag cd \<noteq> cvs_flag view_settings \<or>
                                    cd_curve_mapping cd \<noteq> map_option cumap_address curve_mapping \<or>
                                    cd_curve_mapping_timestamp cd \<noteq> curve_mapping_timestamp
                                 then Inr (None, None,
                                           [Call_IMB_moviecache_get key, Call_IMB_freeImBuf cache_ibuf])
                                 else Inr (Some (cache_rect cache_ibuf), Some cache_ibuf,
                                           [Call_IMB_moviecache_get key]))))))"

text \<open>\<open>colormanage_cache_put\<close>: the result is the image buffer after the call, the value of
  \<open>*cache_handle\<close> (the new cache element) and the calls made.\<close>

definition colormanage_cache_put ::
  "ImBuf \<Rightarrow> ColormanageCacheViewSettings \<Rightarrow> ColormanageCacheDisplaySettings \<Rightarrow> 8 word list
     \<Rightarrow> error + (ImBuf \<times> cache_ImBuf \<times> call list)" where
  "colormanage_cache_put ibuf view_settings display_settings display_buffer =
     (case view_flag_of (cvs_view view_settings) of
        Inl e \<Rightarrow> Inl e
      | Inr view_flag \<Rightarrow>
     (let (ibuf1, mc) = colormanage_moviecache_ensure ibuf;
          key = colormanage_settings_to_key view_settings display_settings
      in case display_buffer_flags ibuf1 of
           None \<Rightarrow> Inl NullDeref
         | Some flags \<Rightarrow>
             if \<not> (0 \<le> cds_display display_settings - 1
                   \<and> cds_display display_settings - 1 < int (length flags))
             then Inl OutOfBounds
             else
               (let i = nat (cds_display display_settings - 1);
                    curve_mapping = cvs_curve_mapping view_settings;
                    curve_mapping_timestamp = (case curve_mapping of
                                                 Some c \<Rightarrow> changed_timestamp c
                                               | None \<Rightarrow> 0);
                    data = \<lparr>cd_flag = cvs_flag view_settings,
                             cd_look = cvs_look view_settings,
                             cd_exposure = cvs_exposure view_settings,
                             cd_gamma = cvs_gamma view_settings,
                             cd_dither = cvs_dither view_settings,
                             cd_curve_mapping = map_option cumap_address curve_mapping,
                             cd_curve_mapping_timestamp = curve_mapping_timestamp\<rparr>;
                    cache_ibuf = \<lparr>cache_x = ibuf_x ibuf, cache_y = ibuf_y ibuf,
                                   cache_rect = display_buffer,
                                   cache_data = Some data\<rparr>
                in Inr (ibuf1\<lparr>display_buffer_flags := Some (flags[i := (flags ! i) OR view_flag]),
                               colormanage_cache :=
                                 Some \<lparr>moviecache = Some (IMB_moviecache_put mc key cache_ibuf)\<rparr>\<rparr>,
                        cache_ibuf, [Call_IMB_moviecache_put key]))))"

subsection \<open>Partial display buffer update\<close>

record ColorManagedViewSettings =
  vs_flag :: int
  vs_look :: string
  vs_view_transform :: string
  vs_exposure :: real
  vs_gamma :: real
  vs_curve_mapping :: "CurveMapping option"

record ColorManagedDisplaySettings =
  ds_display_device :: string

text \<open>Flag bits declared in DNA_color_types.h and IMB_imbuf_types.h.\<close>

definition COLORMANAGE_VIEW_USE_CURVES :: int where
  "COLORMANAGE_VIEW_USE_CURVES = 1"

definition IB_DISPLAY_BUFFER_INVALID :: int where
  "IB_DISPLAY_BUFFER_INVALID = 16"

definition IMB_COLORMANAGE_IS_DATA :: int where
  "IMB_COLORMANAGE_IS_DATA = 1"

definition colormanage_view_settings_to_cache ::
  "globals \<Rightarrow> ImBuf \<Rightarrow> ColorManagedViewSettings \<Rightarrow> ColormanageCacheViewSettings" where
  "colormanage_view_settings_to_cache g ibuf view_settings =
     \<lparr>cvs_flag = vs_flag view_settings,
      cvs_look = IMB_colormanagement_look_get_named_index g (vs_look view_settings),
      cvs_view = IMB_colormanagement_view_get_named_index g (vs_view_transform view_settings),
      cvs_exposure = vs_exposure view_settings,
      cvs_gamma = vs_gamma view_settings,
      cvs_dither = ibuf_dither ibuf,
      cvs_curve_mapping = vs_curve_mapping view_settings\<rparr>"

definition colormanage_display_settings_to_cache ::
  "globals \<Rightarrow> ColorManagedDisplaySettings \<Rightarrow> ColormanageCacheDisplaySettings" where
  "colormanage_display_settings_to_cache g display_settings =
     \<lparr>cds_display = IMB_colormanagement_display_get_named_index g
                      (ds_display_device display_settings)\<rparr>"

text \<open>\<open>is_ibuf_rect_in_display_space\<close> reads \<open>ibuf->rect_colorspace->name\<close>.\<close>

definition is_ibuf_rect_in_display_space ::
  "engine \<Rightarrow> globals \<Rightarrow> ImBuf \<Rightarrow> ColorManagedViewSettings \<Rightarrow> ColorManagedDisplaySettings
     \<Rightarrow> error + bool" where
  "is_ibuf_rect_in_display_space E g ibuf view_settings display_settings =
     (if (vs_flag view_settings) AND COLORMANAGE_VIEW_USE_CURVES = 0
         \<and> vs_exposure view_settings = 0 \<and> vs_gamma view_settings = 1
      then (case ibuf_rect_colorspace ibuf of
              None \<Rightarrow> Inl NullDeref
            | Some rect_colorspace \<Rightarrow>
                (let from_colorspace = colorspace_name rect_colorspace;
                     to_colorspace = OCIO_configGetDisplayColorSpaceName E
                                       (ds_display_device display_settings)
                                       (vs_view_transform view_settings);
                     look_descr = colormanage_look_get_named g (vs_look view_settings)
                 in if (case look_descr of
                          Some l \<Rightarrow> look_process_space l \<noteq> []
                        | None \<Rightarrow> False)
                    then Inr False
                    else if (case to_colorspace of
                               Some t \<Rightarrow> from_colorspace = t
                             | None \<Rightarrow> False)
                    then Inr True
                    else Inr False))
      else Inr False)"

text \<open>\<open>IMB_colormanagement_display_processor_new\<close> for view settings that are given (the
  partial update has read them before it gets here). \<open>BKE_curvemapping_copy\<close> hands back a
  copy of the curve; \<open>BKE_curvemapping_premultiply\<close> reads through it.\<close>

definition IMB_colormanagement_display_processor_new ::
  "engine \<Rightarrow> globals \<Rightarrow> ColorManagedViewSettings \<Rightarrow> ColorManagedDisplaySettings
     \<Rightarrow> error + CurveMapping ColormanageProcessor" where
  "IMB_colormanagement_display_processor_new E g view_settings display_settings =
     (let display_space =
            (case OCIO_configGetDisplayColorSpaceName E (ds_display_device display_settings)
                    (vs_view_transform view_settings) of
               Some cs_name \<Rightarrow> colormanage_colorspace_get_named g cs_name
             | None \<Rightarrow> None);
          is_data = (case display_space of
                       Some cs \<Rightarrow> colorspace_is_data cs
                     | None \<Rightarrow> False)
      in case create_display_buffer_processor E g (vs_look view_settings)
                (vs_view_transform view_settings) (ds_display_device display_settings)
                (vs_exposure view_settings) (vs_gamma view_settings)
                (global_role_scene_linear g) of
           Inl e \<Rightarrow> Inl e
         | Inr (req, cpu) \<Rightarrow>
             if (vs_flag view_settings) AND COLORMANAGE_VIEW_USE_CURVES \<noteq> 0
             then (case vs_curve_mapping view_settings of
                     None \<Rightarrow> Inl NullDeref
                   | Some cumap \<Rightarrow>
                       Inr \<lparr>cm_cpu_processor = cpu, cm_curve_mapping = Some cumap,
                            cm_is_data_result = is_data\<rparr>)
             else Inr \<lparr>cm_cpu_processor = cpu, cm_curve_mapping = None,
                       cm_is_data_result = is_data\<rparr>)"

text \<open>Pixel arithmetic of BLI_math_color, BKE_colortools and IMB (parameters): conversions
  between bytes and floats, alpha association, curve evaluation, and the per-pixel
  conversions inside \<open>IMB_buffer_float_from_byte\<close> and \<open>IMB_buffer_byte_from_float\<close> (the latter
  with the channel count of the source, the dither amount and the pixel position).\<close>

record pixel_ops =
  rgba_uchar_to_float :: "8 word \<times> 8 word \<times> 8 word \<times> 8 word \<Rightarrow> pixel"
  IMB_colormanagement_colorspace_to_scene_linear_v3 :: "ColorSpace option \<Rightarrow> pixel \<Rightarrow> pixel"
  straight_to_premul_v4 :: "pixel \<Rightarrow> pixel"
  premul_to_straight_v4_v4 :: "pixel \<Rightarrow> pixel"
  rgba_float_to_uchar :: "pixel \<Rightarrow> 8 word \<times> 8 word \<times> 8 word \<times> 8 word"
  rgb_float_to_uchar :: "pixel \<Rightarrow> 8 word \<times> 8 word \<times> 8 word"
  unit_float_to_uchar_clamp :: "real \<Rightarrow> 8 word"
  BKE_curvemapping_evaluate_premulRGBF :: "CurveMapping \<Rightarrow> pixel \<Rightarrow> pixel"
  curve_mapping_apply_pixel :: "CurveMapping \<Rightarrow> pixel \<Rightarrow> int \<Rightarrow> pixel"
  float_from_byte_pixel :: "8 word \<times> 8 word \<times> 8 word \<times> 8 word \<Rightarrow> pixel"
  byte_from_float_pixel ::
    "int \<Rightarrow> real \<Rightarrow> int \<Rightarrow> int \<Rightarrow> real list \<Rightarrow> 8 word \<times> 8 word \<times> 8 word \<times> 8 word"

definition IMB_colormanagement_processor_apply_pixel ::
  "pixel_ops \<Rightarrow> engine \<Rightarrow> CurveMapping ColormanageProcessor \<Rightarrow> pixel \<Rightarrow> int \<Rightarrow> pixel" where
  "IMB_colormanagement_processor_apply_pixel P E cm_processor px channels =
     (if channels = 4
      then (let px1 = (case cm_curve_mapping cm_processor of
                         Some cumap \<Rightarrow> BKE_curvemapping_evaluate_premulRGBF P cumap px
                       | None \<Rightarrow> px)
            in case cm_cpu_processor cm_processor of
                 Some p \<Rightarrow> OCIO_cpuProcessorApplyRGBA_predivide E p px1
               | None \<Rightarrow> px1)
      else if channels = 3
      then (let px1 = (case cm_curve_mapping cm_processor of
                         Some cumap \<Rightarrow> BKE_curvemapping_evaluate_premulRGBF P cumap px
                       | None \<Rightarrow> px)
            in case cm_cpu_processor cm_processor of
                 Some p \<Rightarrow> OCIO_cpuProcessorApplyRGB E p px1
               | None \<Rightarrow> px1)
      else if channels = 1
      then (case cm_curve_mapping cm_processor of
              Some cumap \<Rightarrow> curve_mapping_apply_pixel P cumap px 1
            | None \<Rightarrow> px)
      else px)"

text \<open>Reads and writes of a buffer at an offset computed in \<open>int\<close>; outside the buffer they
  are errors. Sequencing of fallible steps, and a loop over a list of indices.\<close>

definition seq :: "error + 'a \<Rightarrow> ('a \<Rightarrow> error + 'b) \<Rightarrow> error + 'b" where
  "seq r f = (case r of Inl e \<Rightarrow> Inl e | Inr v \<Rightarrow> f v)"

definition peek :: "'a list \<Rightarrow> int \<Rightarrow> nat \<Rightarrow> error + 'a list" where
  "peek buf i n =
     (if 0 \<le> i \<and> nat i + n \<le> length buf then Inr (take n (drop (nat i) buf))
      else Inl OutOfBounds)"

definition poke :: "'a list \<Rightarrow> int \<Rightarrow> 'a list \<Rightarrow> error + 'a list" where
  "poke buf i vs =
     (if 0 \<le> i \<and> nat i + length vs \<le> length buf
      then Inr (take (nat i) buf @ vs @ drop (nat i + length vs) buf)
      else Inl OutOfBounds)"

definition read4 :: "'a list \<Rightarrow> int \<Rightarrow> error + ('a \<times> 'a \<times> 'a \<times> 'a)" where
  "read4 buf i =
     (if 0 \<le> i \<and> nat i + 4 \<le> length buf
      then Inr (buf ! nat i, buf ! (nat i + 1), buf ! (nat i + 2), buf ! (nat i + 3))
      else Inl OutOfBounds)"

fun for_each :: "'i list \<Rightarrow> ('i \<Rightarrow> 's \<Rightarrow> error + 's) \<Rightarrow> 's \<Rightarrow> error + 's" where
  "for_each [] body s = Inr s"
| "for_each (i # rest) body s =
     (case body i s of
        Inl e \<Rightarrow> Inl e
      | Inr s' \<Rightarrow> for_each rest body s')"

definition bytes4 :: "8 word \<times> 8 word \<times> 8 word \<times> 8 word \<Rightarrow> 8 word list" where
  "bytes4 q = (case q of (a, b, c, d) \<Rightarrow> [a, b, c, d])"

definition floats4 :: "pixel \<Rightarrow> real list" where
  "floats4 q = (case q of (a, b, c, d) \<Rightarrow> [a, b, c, d])"

text \<open>Modelled from the spec: \<open>IMB_buffer_float_from_byte\<close> and \<open>IMB_buffer_byte_from_float\<close>
  (imbuf/intern/divers.c, not part of the file). The first converts a \<open>width\<close> by \<open>height\<close>
  region of 4-byte pixels to 4-float pixels; the second quantises a region of float pixels
  with \<open>channels_from\<close> floats each back to 4-byte pixels, with dither. Rows are \<open>stride_from\<close>
  and \<open>stride_to\<close> pixels apart. The destination of the second is given as a buffer and the
  offset \<open>rect_to\<close> into it.\<close>

definition IMB_buffer_float_from_byte ::
  "pixel_ops \<Rightarrow> real list \<Rightarrow> 8 word list \<Rightarrow> int \<Rightarrow> int \<Rightarrow> int \<Rightarrow> int \<Rightarrow> error + real list" where
  "IMB_buffer_float_from_byte P rect_to rect_from width height stride_to stride_from =
     for_each [0..height - 1]
       (\<lambda>y. for_each [0..width - 1]
          (\<lambda>x to. seq (read4 rect_from ((stride_from * y + x) * 4))
                     (\<lambda>from. poke to ((stride_to * y + x) * 4)
                                (floats4 (float_from_byte_pixel P from)))))
       rect_to"

definition IMB_buffer_byte_from_float ::
  "pixel_ops \<Rightarrow> 8 word list \<Rightarrow> int \<Rightarrow> real list \<Rightarrow> int \<Rightarrow> real \<Rightarrow> int \<Rightarrow> int \<Rightarrow> int \<Rightarrow> int
     \<Rightarrow> error + 8 word list" where
  "IMB_buffer_byte_from_float P buffer rect_to rect_from channels_from dither_amount width height
       stride_to stride_from =
     for_each [0..height - 1]
       (\<lambda>y. for_each [0..width - 1]
          (\<lambda>x to. seq (peek rect_from ((stride_from * y + x) * channels_from) (nat channels_from))
                     (\<lambda>from. poke to (rect_to + (stride_to * y + x) * 4)
                                (bytes4 (byte_from_float_pixel P channels_from dither_amount
                                           x y from)))))
       buffer"

text \<open>The body of the pixel loop of \<open>partial_buffer_update_rect\<close> (the branch with a
  processor). The state is the display buffer and the float buffer allocated for dither.
  \<open>pixel\<close> is an uninitialised local in the source; components that no branch assigns are 0
  here.\<close>

definition partial_buffer_update_pixel ::
  "pixel_ops \<Rightarrow> engine \<Rightarrow> ImBuf \<Rightarrow> real list option \<Rightarrow> 8 word list option \<Rightarrow> int \<Rightarrow> int \<Rightarrow> int
     \<Rightarrow> int \<Rightarrow> CurveMapping ColormanageProcessor \<Rightarrow> int \<Rightarrow> bool \<Rightarrow> int \<Rightarrow> int \<Rightarrow> int \<Rightarrow> int \<Rightarrow> int
     \<Rightarrow> 8 word list \<times> real list option \<Rightarrow> error + (8 word list \<times> real list option)" where
  "partial_buffer_update_pixel P E ibuf linear_buffer byte_buffer display_stride linear_stride
       linear_offset_x linear_offset_y cm_processor channels is_data xmin ymin width y x st =
     (let display_buffer = fst st;
          display_buffer_float = snd st;
          display_index = (y * display_stride + x) * 4;
          linear_index = ((y - linear_offset_y) * linear_stride + (x - linear_offset_x)) * channels;
          fetched =
            (case linear_buffer of
               Some lb \<Rightarrow>
                 if channels = 4 then read4 lb linear_index
                 else if channels = 3
                 then seq (peek lb linear_index 3) (\<lambda>v. Inr (v ! 0, v ! 1, v ! 2, 1))
                 else if channels = 1
                 then seq (peek lb linear_index 1) (\<lambda>v. Inr (v ! 0, 0, 0, 0))
                 else Inr (0, 0, 0, 0)
             | None \<Rightarrow>
                 (case byte_buffer of
                    Some bb \<Rightarrow>
                      seq (read4 bb linear_index)
                        (\<lambda>b. Inr (straight_to_premul_v4 P
                                    (IMB_colormanagement_colorspace_to_scene_linear_v3 P
                                       (ibuf_rect_colorspace ibuf) (rgba_uchar_to_float P b))))
                  | None \<Rightarrow> Inr (0, 0, 0, 0)))
      in seq fetched
           (\<lambda>px0.
              let px = (if \<not> is_data
                        then IMB_colormanagement_processor_apply_pixel P E cm_processor px0 channels
                        else px0)
              in case display_buffer_float of
                   Some dbf \<Rightarrow>
                     (let index = ((y - ymin) * width + (x - xmin)) * channels
                      in seq (poke dbf index
                                (if channels = 4 then floats4 px
                                 else if channels = 3 then take 3 (floats4 px)
                                 else take 1 (floats4 px)))
                           (\<lambda>dbf'. Inr (display_buffer, Some dbf')))
                 | None \<Rightarrow>
                     seq (poke display_buffer display_index
                            (if channels = 4
                             then bytes4 (rgba_float_to_uchar P (premul_to_straight_v4_v4 P px))
                             else if channels = 3
                             then (case rgb_float_to_uchar P px of (r, g, b) \<Rightarrow> [r, g, b, 255])
                             else replicate 4 (unit_float_to_uchar_clamp P (fst px))))
                       (\<lambda>db'. Inr (db', None))))"

text \<open>\<open>partial_buffer_update_rect\<close>: the display buffer is passed in and returned.\<close>

definition partial_buffer_update_rect ::
  "pixel_ops \<Rightarrow> engine \<Rightarrow> ImBuf \<Rightarrow> 8 word list \<Rightarrow> real list option \<Rightarrow> 8 word list option \<Rightarrow> int
     \<Rightarrow> int \<Rightarrow> int \<Rightarrow> int \<Rightarrow> CurveMapping ColormanageProcessor option \<Rightarrow> int \<Rightarrow> int \<Rightarrow> int \<Rightarrow> int
     \<Rightarrow> error + 8 word list" where
  "partial_buffer_update_rect P E ibuf display_buffer linear_buffer byte_buffer display_stride
       linear_stride linear_offset_x linear_offset_y cm_processor xmin ymin xmax ymax =
     (let dither_amount = ibuf_dither ibuf;
          width = xmax - xmin;
          height = ymax - ymin;
          is_data = ((ibuf_colormanage_flag ibuf) AND IMB_COLORMANAGE_IS_DATA \<noteq> 0);
          channels = (if dither_amount \<noteq> 0 \<and> cm_processor = None then 4 else ibuf_channels ibuf);
          display_buffer_float =
            (if dither_amount \<noteq> 0 then Some (replicate (nat (channels * width * height)) 0)
             else None);
          filled =
            (case cm_processor of
               Some cm \<Rightarrow>
                 for_each [ymin..ymax - 1]
                   (\<lambda>y. for_each [xmin..xmax - 1]
                      (partial_buffer_update_pixel P E ibuf linear_buffer byte_buffer
                         display_stride linear_stride linear_offset_x linear_offset_y cm
                         channels is_data xmin ymin width y))
                   (display_buffer, display_buffer_float)
             | None \<Rightarrow>
                 (case display_buffer_float of
                    Some dbf \<Rightarrow>
                      (case byte_buffer of
                         None \<Rightarrow> Inl NullDeref
                       | Some bb \<Rightarrow>
                           seq (IMB_buffer_float_from_byte P dbf bb width height width
                                  display_stride)
                             (\<lambda>dbf'. Inr (display_buffer, Some dbf')))
                  | None \<Rightarrow>
                      for_each [ymin..ymax - 1]
                        (\<lambda>i st.
                           case byte_buffer of
                             None \<Rightarrow> Inl NullDeref
                           | Some bb \<Rightarrow>
                               if width < 0 then Inl OutOfBounds
                               else seq (peek bb ((linear_stride * i + xmin) * 4) (nat (4 * width)))
                                      (\<lambda>row. seq (poke (fst st)
                                                     ((display_stride * i + xmin) * 4) row)
                                                (\<lambda>db'. Inr (db', snd st))))
                        (display_buffer, display_buffer_float)))
      in seq filled
           (\<lambda>st. case snd st of
                    Some dbf \<Rightarrow>
                      IMB_buffer_byte_from_float P (fst st)
                        ((ymin * display_stride + xmin) * channels)
                        dbf channels dither_amount width height display_stride width
                  | None \<Rightarrow> Inr (fst st)))"

text \<open>The first block of \<open>imb_partial_display_buffer_update_ex\<close>, entered when
  \<open>display_buffer_flags\<close> exists: the cache lookup, then the \<open>memset\<close> of the bit field over
  \<open>global_tot_display\<close> elements and the setting of the requested bit. The result is the
  image buffer, the display buffer found (\<open>NULL\<close> if none), the cache handle and the calls.\<close>

definition partial_display_buffer_lookup ::
  "globals \<Rightarrow> ImBuf \<Rightarrow> ColorManagedViewSettings \<Rightarrow> ColorManagedDisplaySettings
     \<Rightarrow> error + (ImBuf \<times> 8 word list option \<times> cache_ImBuf option \<times> call list)" where
  "partial_display_buffer_lookup g ibuf view_settings display_settings =
     (case display_buffer_flags ibuf of
        None \<Rightarrow> Inr (ibuf, None, None, [])
      | Some flags \<Rightarrow>
          (let cache_view_settings = colormanage_view_settings_to_cache g ibuf view_settings;
               cache_display_settings = colormanage_display_settings_to_cache g display_settings;
               display_index = cds_display cache_display_settings - 1
           in seq (view_flag_of (cvs_view cache_view_settings))
                (\<lambda>view_flag.
                   seq (if (ibuf_userflags ibuf) AND IB_DISPLAY_BUFFER_INVALID = 0
                        then colormanage_cache_get ibuf cache_view_settings
                               cache_display_settings None
                        else Inr (None, None, []))
                     (\<lambda>found.
                        if \<not> (0 \<le> global_tot_display g
                              \<and> nat (global_tot_display g) \<le> length flags)
                        then Inl OutOfBounds
                        else if \<not> (0 \<le> display_index \<and> display_index < int (length flags))
                        then Inl OutOfBounds
                        else
                          (let cleared = replicate (nat (global_tot_display g)) 0
                                           @ drop (nat (global_tot_display g)) flags;
                               i = nat display_index
                           in Inr (ibuf\<lparr>display_buffer_flags :=
                                          Some (cleared[i := (cleared ! i) OR view_flag])\<rparr>,
                                   fst found, fst (snd found), snd (snd found)))))))"

text \<open>The display buffer returned by the lookup is the \<open>rect\<close> of the cache element: what the
  update writes through that pointer is stored in the element.\<close>

definition store_display_buffer :: "ImBuf \<Rightarrow> ColormanageCacheKey \<Rightarrow> 8 word list \<Rightarrow> ImBuf" where
  "store_display_buffer ibuf key display_buffer =
     (case colormanage_moviecache_get ibuf of
        None \<Rightarrow> ibuf
      | Some mc \<Rightarrow>
          (case mc key of
             None \<Rightarrow> ibuf
           | Some cache_ibuf \<Rightarrow>
               ibuf\<lparr>colormanage_cache :=
                      Some \<lparr>moviecache =
                              Some (mc(key \<mapsto> cache_ibuf\<lparr>cache_rect := display_buffer\<rparr>))\<rparr>\<rparr>))"

text \<open>Modelled from the spec: \<open>IMB_processor_apply_threaded_scanlines\<close>
  (imbuf/intern/imageprocess.c, not part of the file) runs the worker once for every scanline
  \<open>0 \<le> scanline < total_scanlines\<close> on the thread pool and joins. The workers of the partial
  update write different rows of the display buffer; the model runs them in order.\<close>

definition IMB_processor_apply_threaded_scanlines ::
  "int \<Rightarrow> (int \<Rightarrow> 's \<Rightarrow> error + 's) \<Rightarrow> 's \<Rightarrow> error + 's" where
  "IMB_processor_apply_threaded_scanlines total_scanlines do_thread custom_data =
     for_each [0..total_scanlines - 1] do_thread custom_data"

text \<open>\<open>partial_buffer_update_rect_thread_do\<close>: the fields of \<open>PartialThreadData\<close> are the
  arguments, the display buffer is passed in and returned.\<close>

definition partial_buffer_update_rect_thread_do ::
  "pixel_ops \<Rightarrow> engine \<Rightarrow> ImBuf \<Rightarrow> real list option \<Rightarrow> 8 word list option \<Rightarrow> int \<Rightarrow> int
     \<Rightarrow> int \<Rightarrow> int \<Rightarrow> CurveMapping ColormanageProcessor option \<Rightarrow> int \<Rightarrow> int \<Rightarrow> int
     \<Rightarrow> int \<Rightarrow> 8 word list \<Rightarrow> error + 8 word list" where
  "partial_buffer_update_rect_thread_do P E ibuf linear_buffer byte_buffer display_stride
       linear_stride linear_offset_x linear_offset_y cm_processor xmin data_ymin xmax scanline
       display_buffer =
     (let ymin = data_ymin + scanline;
          num_scanlines = 1
      in partial_buffer_update_rect P E ibuf display_buffer linear_buffer byte_buffer
           display_stride linear_stride linear_offset_x linear_offset_y cm_processor
           xmin ymin xmax (ymin + num_scanlines))"

text \<open>\<open>imb_partial_display_buffer_update_ex\<close>: the result is the image buffer after the call
  and the calls made.\<close>

definition imb_partial_display_buffer_update_ex ::
  "pixel_ops \<Rightarrow> engine \<Rightarrow> globals \<Rightarrow> ImBuf \<Rightarrow> real list option \<Rightarrow> 8 word list option \<Rightarrow> int \<Rightarrow> int
     \<Rightarrow> int \<Rightarrow> ColorManagedViewSettings \<Rightarrow> ColorManagedDisplaySettings \<Rightarrow> int \<Rightarrow> int \<Rightarrow> int \<Rightarrow> int
     \<Rightarrow> bool \<Rightarrow> error + (ImBuf \<times> call list)" where
  "imb_partial_display_buffer_update_ex P E g ibuf linear_buffer byte_buffer stride offset_x
       offset_y view_settings display_settings xmin ymin xmax ymax do_threads =
     seq (partial_display_buffer_lookup g ibuf view_settings display_settings)
       (\<lambda>(ibuf1, display_buffer, cache_handle, calls).
          case display_buffer of
            None \<Rightarrow> Inr (ibuf1, calls)
          | Some db \<Rightarrow>
              (let buffer_width = ibuf_x ibuf1
               in seq (if linear_buffer = None \<and> byte_buffer \<noteq> None
                       then is_ibuf_rect_in_display_space E g ibuf1 view_settings display_settings
                       else Inr False)
                    (\<lambda>skip_transform.
                       seq (if \<not> skip_transform
                            then seq (IMB_colormanagement_display_processor_new E g view_settings
                                        display_settings)
                                   (\<lambda>cm. Inr (Some cm))
                            else Inr None)
                         (\<lambda>cm_processor.
                            seq (if do_threads
                                 then IMB_processor_apply_threaded_scanlines (ymax - ymin)
                                        (partial_buffer_update_rect_thread_do P E ibuf1
                                           linear_buffer byte_buffer buffer_width stride offset_x
                                           offset_y cm_processor xmin ymin xmax)
                                        db
                                 else partial_buffer_update_rect P E ibuf1 db linear_buffer
                                        byte_buffer buffer_width stride offset_x offset_y
                                        cm_processor xmin ymin xmax ymax)
                              (\<lambda>db'.
                                 let key = colormanage_settings_to_key
                                             (colormanage_view_settings_to_cache g ibuf
                                                view_settings)
                                             (colormanage_display_settings_to_cache g
                                                display_settings)
                                 in Inr (store_display_buffer ibuf1 key db',
                                         calls
                                         @ (if do_threads
                                            then [Call_IMB_processor_apply_threaded_scanlines
                                                    (ymax - ymin)]
                                            else [])
                                         @ (case cache_handle of
                                              Some h \<Rightarrow>
                                                [Call_IMB_freeImBuf (h\<lparr>cache_rect := db'\<rparr>)]
                                            | None \<Rightarrow> [])))))))"

definition IMB_partial_display_buffer_update ::
  "pixel_ops \<Rightarrow> engine \<Rightarrow> globals \<Rightarrow> ImBuf \<Rightarrow> real list option \<Rightarrow> 8 word list option \<Rightarrow> int \<Rightarrow> int
     \<Rightarrow> int \<Rightarrow> ColorManagedViewSettings \<Rightarrow> ColorManagedDisplaySettings \<Rightarrow> int \<Rightarrow> int \<Rightarrow> int \<Rightarrow> int
     \<Rightarrow> error + (ImBuf \<times> call list)" where
  "IMB_partial_display_buffer_update P E g ibuf linear_buffer byte_buffer stride offset_x offset_y
       view_settings display_settings xmin ymin xmax ymax =
     imb_partial_display_buffer_update_ex P E g ibuf linear_buffer byte_buffer stride offset_x
       offset_y view_settings display_settings xmin ymin xmax ymax False"

text \<open>\<open>IMB_partial_display_buffer_update_threaded\<close>. \<open>width\<close> and \<open>height\<close> are \<open>int\<close> (a
  difference outside the 32-bit range is an overflow); the product is taken in \<open>size_t\<close>,
  64 bits wide, after converting both factors.\<close>

definition IMB_partial_display_buffer_update_threaded ::
  "pixel_ops \<Rightarrow> engine \<Rightarrow> globals \<Rightarrow> ImBuf \<Rightarrow> real list option \<Rightarrow> 8 word list option \<Rightarrow> int \<Rightarrow> int
     \<Rightarrow> int \<Rightarrow> ColorManagedViewSettings \<Rightarrow> ColorManagedDisplaySettings \<Rightarrow> int \<Rightarrow> int \<Rightarrow> int \<Rightarrow> int
     \<Rightarrow> error + (ImBuf \<times> call list)" where
  "IMB_partial_display_buffer_update_threaded P E g ibuf linear_buffer byte_buffer stride offset_x
       offset_y view_settings display_settings xmin ymin xmax ymax =
     (let width = xmax - xmin;
          height = ymax - ymin
      in if \<not> (- (2 ^ 31) \<le> width \<and> width < 2 ^ 31 \<and> - (2 ^ 31) \<le> height \<and> height < 2 ^ 31)
         then Inl IntOverflow
         else
           (let do_threads = ((word_of_int width :: 64 word) * word_of_int height \<ge> 64 * 64)
            in imb_partial_display_buffer_update_ex P E g ibuf linear_buffer byte_buffer stride
                 offset_x offset_y view_settings display_settings xmin ymin xmax ymax
                 do_threads))"

text \<open>The four bytes of the pixel \<open>(x, y)\<close> of a display buffer whose rows are
  \<open>display_stride\<close> pixels apart.\<close>

definition display_pixel :: "8 word list \<Rightarrow> int \<Rightarrow> int \<Rightarrow> int \<Rightarrow> 8 word list" where
  "display_pixel display_buffer display_stride x y =
     take 4 (drop (nat ((y * display_stride + x) * 4)) display_buffer)"

text \<open>The byte \<open>j\<close> of a display buffer belongs to a pixel \<open>(x, y)\<close> of the rectangle
  \<open>[xmin, xmax) \<times> [ymin, ymax)\<close>.\<close>

definition in_rect_byte :: "int \<Rightarrow> int \<Rightarrow> int \<Rightarrow> int \<Rightarrow> int \<Rightarrow> nat \<Rightarrow> bool" where
  "in_rect_byte display_stride xmin ymin xmax ymax j =
     (\<exists>x \<in> {xmin..<xmax}. \<exists>y \<in> {ymin..<ymax}. int j div 4 = y * display_stride + x)"

subsection \<open>Example data\<close>

text \<open>A small catalog (two displays, three views, the synthetic look \<open>None\<close>, two color
  spaces) and an engine that compiles every request and leaves pixels as they are; its float
  arithmetic is exact below \<open>2\<^sup>1\<^sup>2\<^sup>8\<close> and overflows to infinity from there. They serve as
  concrete inputs.\<close>

definition example_view :: ColorManagedView where
  "example_view = \<lparr>view_index = 1, view_name = ''Standard''\<rparr>"

definition example_view_filmic :: ColorManagedView where
  "example_view_filmic = \<lparr>view_index = 2, view_name = ''Filmic''\<rparr>"

definition example_view_raw :: ColorManagedView where
  "example_view_raw = \<lparr>view_index = 3, view_name = ''Raw''\<rparr>"

definition example_look :: ColorManagedLook where
  "example_look = \<lparr>look_index = 1, look_name = ''None'', look_ui_name = ''None'',
     look_view = [], look_process_space = [], look_is_noop = True\<rparr>"

definition example_globals :: globals where
  "example_globals =
     \<lparr>global_colorspaces = [\<lparr>colorspace_name = ''Linear'', colorspace_is_data = False\<rparr>,
                            \<lparr>colorspace_name = ''sRGB'', colorspace_is_data = False\<rparr>],
      global_displays = [\<lparr>display_index = 1, display_name = ''sRGB'',
                           display_views = [example_view, example_view_filmic]\<rparr>,
                         \<lparr>display_index = 2, display_name = ''Rec709'',
                           display_views = [example_view, example_view_raw]\<rparr>],
      global_views = [example_view, example_view_filmic, example_view_raw],
      global_looks = [example_look],
      global_tot_display = 2, global_tot_view = 3, global_tot_looks = 1,
      global_role_scene_linear = ''Linear''\<rparr>"

definition example_engine :: engine where
  "example_engine =
     \<lparr>OCIO_compiles = (\<lambda>_. True),
      OCIO_cpuProcessorApplyRGBA_predivide = (\<lambda>_ pixel. pixel),
      OCIO_cpuProcessorApplyRGBA = (\<lambda>_ pixel. pixel),
      OCIO_cpuProcessorApplyRGB = (\<lambda>_ pixel. pixel),
      OCIO_configGetDisplayColorSpaceName = (\<lambda>_ _. Some ''sRGB''),
      powf = (\<lambda>b e. if 2 ^ 128 \<le> b powr e then PlusInfinity else Finite (b powr e)),
      float_div = (\<lambda>a b. if 2 ^ 128 \<le> a / b then PlusInfinity else Finite (a / b))\<rparr>"

definition example_buffer_ops :: "unit buffer_ops" where
  "example_buffer_ops =
     \<lparr>IMB_colormanagement_processor_apply_byte = (\<lambda>_ buffer _ _ _. buffer),
      IMB_colormanagement_processor_apply = (\<lambda>_ buffer _ _ _ _. buffer),
      processor_transform_apply_threaded = (\<lambda>byte_buffer float_buffer _ _ _ _ _ _.
                                              (byte_buffer, float_buffer))\<rparr>"

text \<open>A startup where the \<open>OCIO\<close> variable names a configuration with a color space, a look and
  one display that has no view, and the built-in fallback configuration has one display with
  two views and one look.\<close>

definition example_fallback :: OCIO_config where
  "example_fallback =
     \<lparr>cfg_role_scene_linear = Some ''Linear'',
      cfg_colorspaces = [(''Linear'', True, False)],
      cfg_displays = [(''sRGB'', [''Standard'', ''Raw''])],
      cfg_looks = [(''Standard - Contrast'', ''Linear'')]\<rparr>"

definition example_startup :: startup where
  "example_startup =
     \<lparr>st_ocio_env = Some ''/tmp/config.ocio'',
      st_config_from_env = Some \<lparr>cfg_role_scene_linear = None,
                                  cfg_colorspaces = [(''Broken space'', True, False)],
                                  cfg_displays = [(''Broken display'', [])],
                                  cfg_looks = [(''Broken look'', ''Broken space'')]\<rparr>,
      st_configdir = None,
      st_config_from_file = None,
      st_config_fallback = Some example_fallback\<rparr>"

definition initial_globals :: globals where
  "initial_globals =
     \<lparr>global_colorspaces = [], global_displays = [], global_views = [], global_looks = [],
      global_tot_display = 0, global_tot_view = 0, global_tot_looks = 0,
      global_role_scene_linear = []\<rparr>"

text \<open>Pixel operations that ignore their input and produce white, and the settings that ask
  for view 1 (\<open>Standard\<close>) on display 1 (\<open>sRGB\<close>).\<close>

definition example_pixel_ops :: pixel_ops where
  "example_pixel_ops =
     \<lparr>rgba_uchar_to_float = (\<lambda>_. (1, 1, 1, 1)),
      IMB_colormanagement_colorspace_to_scene_linear_v3 = (\<lambda>_ px. px),
      straight_to_premul_v4 = (\<lambda>px. px),
      premul_to_straight_v4_v4 = (\<lambda>px. px),
      rgba_float_to_uchar = (\<lambda>_. (255, 255, 255, 255)),
      rgb_float_to_uchar = (\<lambda>_. (255, 255, 255)),
      unit_float_to_uchar_clamp = (\<lambda>_. 255),
      BKE_curvemapping_evaluate_premulRGBF = (\<lambda>_ px. px),
      curve_mapping_apply_pixel = (\<lambda>_ px _. px),
      float_from_byte_pixel = (\<lambda>_. (1, 1, 1, 1)),
      byte_from_float_pixel = (\<lambda>_ _ _ _ _. (255, 255, 255, 255))\<rparr>"

definition example_processor :: "CurveMapping ColormanageProcessor" where
  "example_processor =
     \<lparr>cm_cpu_processor = None, cm_curve_mapping = None, cm_is_data_result = False\<rparr>"

definition example_view_settings :: ColorManagedViewSettings where
  "example_view_settings =
     \<lparr>vs_flag = 0, vs_look = ''None'', vs_view_transform = ''Standard'', vs_exposure = 0,
      vs_gamma = 1, vs_curve_mapping = None\<rparr>"

definition example_display_settings :: ColorManagedDisplaySettings where
  "example_display_settings = \<lparr>ds_display_device = ''sRGB''\<rparr>"

definition example_cache_view_settings :: ColormanageCacheViewSettings where
  "example_cache_view_settings =
     \<lparr>cvs_flag = 0, cvs_look = 1, cvs_view = 1, cvs_exposure = 0, cvs_gamma = 1, cvs_dither = 0,
      cvs_curve_mapping = None\<rparr>"

definition example_cache_display_settings :: ColormanageCacheDisplaySettings where
  "example_cache_display_settings = \<lparr>cds_display = 1\<rparr>"

definition example_key :: ColormanageCacheKey where
  "example_key = \<lparr>key_view = 1, key_display = 1\<rparr>"

text \<open>An image buffer of 4 by 2 pixels whose bit field records display buffers for the views
  2 and 3 on display 1 and for the views 1 and 2 on display 2 (the words 6 and 3), none for
  view 1 on display 1, and whose block cache holds nothing; and the same buffer after the
  display buffer for view 1 on display 1 was cached (the words 7 and 3).\<close>

definition example_ImBuf :: ImBuf where
  "example_ImBuf =
     \<lparr>ibuf_x = 4, ibuf_y = 2, ibuf_channels = 4, ibuf_dither = 0, ibuf_userflags = 0,
      ibuf_colormanage_flag = 0,
      ibuf_rect_colorspace = Some \<lparr>colorspace_name = ''Linear'', colorspace_is_data = False\<rparr>,
      display_buffer_flags = Some [6, 3],
      colormanage_cache = Some \<lparr>moviecache = Some Map.empty\<rparr>\<rparr>"

definition example_cache_ImBuf :: cache_ImBuf where
  "example_cache_ImBuf =
     \<lparr>cache_x = 4, cache_y = 2, cache_rect = replicate 32 0,
      cache_data = Some \<lparr>cd_flag = 0, cd_look = 1, cd_exposure = 0, cd_gamma = 1, cd_dither = 0,
                          cd_curve_mapping = None, cd_curve_mapping_timestamp = 0\<rparr>\<rparr>"

definition example_cached_ImBuf :: ImBuf where
  "example_cached_ImBuf =
     example_ImBuf\<lparr>display_buffer_flags := Some [7, 3],
                   colormanage_cache :=
                     Some \<lparr>moviecache = Some [example_key \<mapsto> example_cache_ImBuf]\<rparr>\<rparr>"

text \<open>A request with a curve mapping and no default value: view 3 on display 2, as
  \<open>colormanage_cache_put\<close> and \<open>colormanage_cache_get\<close> receive it.\<close>

definition example_graded_view_settings :: ColormanageCacheViewSettings where
  "example_graded_view_settings =
     \<lparr>cvs_flag = 1, cvs_look = 1, cvs_view = 3, cvs_exposure = 3 / 2, cvs_gamma = 11 / 5,
      cvs_dither = 1 / 2,
      cvs_curve_mapping = Some \<lparr>cumap_address = 7, changed_timestamp = 5\<rparr>\<rparr>"

definition example_graded_display_settings :: ColormanageCacheDisplaySettings where
  "example_graded_display_settings = \<lparr>cds_display = 2\<rparr>"

text \<open>An image buffer of one row of 4096 pixels whose byte buffer is in the color space of
  the display, with the display buffer for view 1 on display 1 cached and display buffers
  recorded for other pairs (the words 7 and 3).\<close>

definition example_wide_cache_ImBuf :: cache_ImBuf where
  "example_wide_cache_ImBuf =
     \<lparr>cache_x = 4096, cache_y = 1, cache_rect = replicate 16384 0,
      cache_data = Some \<lparr>cd_flag = 0, cd_look = 1, cd_exposure = 0, cd_gamma = 1, cd_dither = 0,
                          cd_curve_mapping = None, cd_curve_mapping_timestamp = 0\<rparr>\<rparr>"

definition example_wide_ImBuf :: ImBuf where
  "example_wide_ImBuf =
     \<lparr>ibuf_x = 4096, ibuf_y = 1, ibuf_channels = 4, ibuf_dither = 0, ibuf_userflags = 0,
      ibuf_colormanage_flag = 0,
      ibuf_rect_colorspace = Some \<lparr>colorspace_name = ''sRGB'', colorspace_is_data = False\<rparr>,
      display_buffer_flags = Some [7, 3],
      colormanage_cache =
        Some \<lparr>moviecache = Some [example_key \<mapsto> example_wide_cache_ImBuf]\<rparr>\<rparr>"

section \<open>Properties\<close>

subsection \<open>Initialisation never ends without displays\<close>

lemma load_views_displays:
  "length (global_displays (load_views g vs)) = length (global_displays g)"
proof (induction vs arbitrary: g)
  case Nil
  then show ?case by simp
next
  case (Cons v vs)
  show ?case
    by (simp add: Cons.IH Let_def colormanage_view_add_def split: option.splits prod.splits)
qed

lemma load_displays_displays:
  "length (global_displays (load_displays g ds)) = length (global_displays g) + length ds"
  by (induction g ds rule: load_displays.induct)
     (auto simp: load_views_displays colormanage_display_add_def Let_def)

lemma load_colorspaces_displays:
  "global_displays (load_colorspaces cmp g cs) = global_displays g"
  by (induction cmp g cs rule: load_colorspaces.induct)
     (auto simp: colormanage_colorspace_add_def)

lemma look_add_displays:
  "global_displays (colormanage_look_add g n p b) = global_displays g"
  "global_tot_display (colormanage_look_add g n p b) = global_tot_display g"
  by (auto simp: colormanage_look_add_def Let_def)

lemma load_looks_displays:
  "global_displays (load_looks g ls) = global_displays g"
  "global_tot_display (load_looks g ls) = global_tot_display g"
  by (induction g ls rule: load_looks.induct) (auto simp: look_add_displays)

lemma load_config_tot_display:
  "global_tot_display (colormanage_load_config cmp g config) = int (length (cfg_displays config))"
  by (simp add: colormanage_load_config_def Let_def load_looks_displays look_add_displays)

lemma load_config_displays:
  "length (global_displays (colormanage_load_config cmp g config)) =
     length (global_displays g) + length (cfg_displays config)"
  by (simp add: colormanage_load_config_def Let_def load_looks_displays look_add_displays
        load_displays_displays load_colorspaces_displays)

text \<open>What a load adds to the catalog: the displays of the configuration in order, numbered
  from one above the last display; the views its displays name; the looks in order.\<close>

lemma last_display_kept:
  assumes "\<And>d x. h (d\<lparr>display_views := x\<rparr>) = h d"
  shows "map h (butlast ds) @ map (h \<circ> (\<lambda>d. d\<lparr>display_views := F d\<rparr>)) (drop (length ds - Suc 0) ds)
         = map h ds"
proof -
  have "map h (butlast ds) @ map (h \<circ> (\<lambda>d. d\<lparr>display_views := F d\<rparr>)) (drop (length ds - Suc 0) ds)
        = map h (take (length ds - 1) ds) @ map h (drop (length ds - 1) ds)"
    by (simp add: butlast_conv_take assms o_def)
  also have "\<dots> = map h (take (length ds - 1) ds @ drop (length ds - 1) ds)"
    by (simp only: map_append)
  finally show ?thesis by simp
qed

lemma load_views_display_names:
  "map display_name (global_displays (load_views g vs)) = map display_name (global_displays g)"
  "map display_index (global_displays (load_views g vs)) = map display_index (global_displays g)"
proof (induction vs arbitrary: g)
  case Nil
  { case 1 show ?case by simp }
  { case 2 show ?case by simp }
next
  case (Cons v vs)
  { case 1 show ?case
      by (simp add: Cons.IH(1) Let_def colormanage_view_add_def last_display_kept
            split: option.splits prod.splits) }
  { case 2 show ?case
      by (simp add: Cons.IH(2) Let_def colormanage_view_add_def last_display_kept
            split: option.splits prod.splits) }
qed

lemma load_displays_names:
  "map display_name (global_displays (load_displays g ds))
   = map display_name (global_displays g) @ map (\<lambda>d. BLI_strncpy (fst d) MAX_COLORSPACE_NAME) ds"
  by (induction g ds rule: load_displays.induct)
     (simp_all add: load_views_display_names colormanage_display_add_def Let_def)

lemma load_displays_indices:
  assumes "map display_index (global_displays g) = map int [1..<Suc (length (global_displays g))]"
  shows "map display_index (global_displays (load_displays g ds))
         = map int [1..<Suc (length (global_displays g) + length ds)]"
  using assms
proof (induction g ds rule: load_displays.induct)
  case (1 g)
  then show ?case by simp
next
  case (2 g displayname viewnames rest)
  let ?n = "length (global_displays g)"
  let ?g1 = "load_views (colormanage_display_add g displayname) viewnames"
  have idx: "(case global_displays g of [] \<Rightarrow> 0 | _ \<Rightarrow> display_index (last (global_displays g)))
             = int ?n"
  proof (cases "global_displays g = []")
    case True
    then show ?thesis by simp
  next
    case False
    then have "display_index (last (global_displays g))
               = last (map display_index (global_displays g))"
      by (simp add: last_map)
    also have "\<dots> = last (map int [1..<Suc ?n])" by (simp only: "2.prems")
    also have "\<dots> = int ?n"
    proof -
      have "[1..<Suc ?n] = [1..<?n] @ [?n]" using False by (simp add: Suc_leI)
      then show ?thesis by (simp only: map_append last_snoc list.map)
    qed
    finally have e: "display_index (last (global_displays g)) = int ?n" .
    obtain a l where c: "global_displays g = a # l"
      using False by (cases "global_displays g") auto
    from e show ?thesis by (simp only: c list.case)
  qed
  have len: "length (global_displays ?g1) = Suc ?n"
    by (simp add: load_views_displays colormanage_display_add_def Let_def)
  have a: "global_displays (colormanage_display_add g displayname) =
        global_displays g @ [\<lparr>display_index = int ?n + 1, display_name = BLI_strncpy displayname MAX_COLORSPACE_NAME,
                display_views = []\<rparr>]"
    unfolding colormanage_display_add_def Let_def idx by simp
  have "map display_index (global_displays ?g1) = map display_index (global_displays g) @ [int ?n + 1]"
    unfolding load_views_display_names a by simp
  then have "map display_index (global_displays ?g1) = map int [1..<Suc ?n] @ [int ?n + 1]"
    by (simp only: "2.prems")
  then have "map display_index (global_displays ?g1) = map int [1..<Suc (Suc ?n)]"
    by simp
  then have pre: "map display_index (global_displays ?g1)
                  = map int [1..<Suc (length (global_displays ?g1))]"
    by (simp only: len)
  have "map display_index (global_displays (load_displays ?g1 rest))
             = map int [1..<Suc (length (global_displays ?g1) + length rest)]"
    using pre by (rule "2.IH")
  then show ?case by (simp only: len load_displays.simps add_Suc add_Suc_right length_Cons)
qed

lemma find_view_found:
  "find P xs = Some x \<Longrightarrow> x \<in> set xs \<and> P x"
  by (induction xs) (auto split: if_splits)

lemma load_views_views:
  assumes "\<forall>v\<in>set (global_views g). view_name v = BLI_strncpy (view_name v) MAX_COLORSPACE_NAME"
    and "global_tot_view g = int (length (global_views g))"
  shows "view_name ` set (global_views (load_views g vs))
           = view_name ` set (global_views g) \<union> (\<lambda>n. BLI_strncpy n MAX_COLORSPACE_NAME) ` set vs
         \<and> (\<forall>v\<in>set (global_views (load_views g vs)).
               view_name v = BLI_strncpy (view_name v) MAX_COLORSPACE_NAME)
         \<and> global_tot_view (load_views g vs) = int (length (global_views (load_views g vs)))"
  using assms
proof (induction vs arbitrary: g)
  case Nil
  then show ?case by simp
next
  case (Cons viewname vs)
  show ?case
  proof (cases "colormanage_view_get_named g viewname")
    case None
    let ?view = "\<lparr>view_index = global_tot_view g + 1,
                   view_name = BLI_strncpy viewname MAX_COLORSPACE_NAME\<rparr>"
    let ?ds = "global_displays g"
    let ?g2 = "g\<lparr>global_views := global_views g @ [?view],
                 global_tot_view := global_tot_view g + 1,
                 global_displays :=
                   butlast ?ds @ map (\<lambda>display. display\<lparr>display_views := display_views display @ [?view]\<rparr>)
                                   (drop (length ?ds - 1) ?ds)\<rparr>"
    have step: "load_views g (viewname # vs) = load_views ?g2 vs"
      using None by (simp add: Let_def colormanage_view_add_def)
    have inv: "\<forall>v\<in>set (global_views ?g2). view_name v = BLI_strncpy (view_name v) MAX_COLORSPACE_NAME"
      using Cons.prems(1) by (auto simp: BLI_strncpy_def)
    have tot: "global_tot_view ?g2 = int (length (global_views ?g2))"
      using Cons.prems(2) by simp
    from Cons.IH [OF inv tot] show ?thesis
      unfolding step by auto
  next
    case (Some v)
    let ?ds = "global_displays g"
    let ?g2 = "g\<lparr>global_displays :=
                   butlast ?ds @ map (\<lambda>display. display\<lparr>display_views := display_views display @ [v]\<rparr>)
                                   (drop (length ?ds - 1) ?ds)\<rparr>"
    have step: "load_views g (viewname # vs) = load_views ?g2 vs"
      using Some by (simp add: Let_def)
    have v: "v \<in> set (global_views g)" "view_name v = viewname"
      using Some find_view_found [of "\<lambda>v. view_name v = viewname" "global_views g" v]
      by (simp_all add: colormanage_view_get_named_def)
    have inv: "\<forall>v\<in>set (global_views ?g2). view_name v = BLI_strncpy (view_name v) MAX_COLORSPACE_NAME"
      using Cons.prems(1) by simp
    have tot: "global_tot_view ?g2 = int (length (global_views ?g2))"
      using Cons.prems(2) by simp
    have "BLI_strncpy viewname MAX_COLORSPACE_NAME \<in> view_name ` set (global_views g)"
      using v Cons.prems(1) by force
    with Cons.IH [OF inv tot] show ?thesis
      unfolding step by auto
  qed
qed

lemma display_add_views:
  "global_views (colormanage_display_add g n) = global_views g"
  "global_tot_view (colormanage_display_add g n) = global_tot_view g"
  by (simp_all add: colormanage_display_add_def Let_def)

lemma load_displays_views:
  assumes "\<forall>v\<in>set (global_views g). view_name v = BLI_strncpy (view_name v) MAX_COLORSPACE_NAME"
    and "global_tot_view g = int (length (global_views g))"
  shows "view_name ` set (global_views (load_displays g ds))
           = view_name ` set (global_views g)
             \<union> (\<lambda>n. BLI_strncpy n MAX_COLORSPACE_NAME) ` (\<Union>d\<in>set ds. set (snd d))
         \<and> global_tot_view (load_displays g ds) = int (length (global_views (load_displays g ds)))"
  using assms
proof (induction g ds rule: load_displays.induct)
  case (1 g)
  then show ?case by simp
next
  case (2 g displayname viewnames rest)
  let ?g0 = "colormanage_display_add g displayname"
  let ?g1 = "load_views ?g0 viewnames"
  have inv0: "\<forall>v\<in>set (global_views ?g0). view_name v = BLI_strncpy (view_name v) MAX_COLORSPACE_NAME"
    using "2.prems"(1) by (simp add: display_add_views)
  have tot0: "global_tot_view ?g0 = int (length (global_views ?g0))"
    using "2.prems"(2) by (simp add: display_add_views)
  note lv = load_views_views [OF inv0 tot0, of viewnames]
  from lv have inv1: "\<forall>v\<in>set (global_views ?g1).
                         view_name v = BLI_strncpy (view_name v) MAX_COLORSPACE_NAME"
    by blast
  from lv have tot1: "global_tot_view ?g1 = int (length (global_views ?g1))" by blast
  from lv have names1: "view_name ` set (global_views ?g1)
                        = view_name ` set (global_views g)
                          \<union> (\<lambda>n. BLI_strncpy n MAX_COLORSPACE_NAME) ` set viewnames"
    by (simp add: display_add_views)
  from "2.IH" [OF inv1 tot1] names1 show ?case
    by (auto simp: image_Un)
qed

lemma colorspace_insert_set:
  "set (colorspace_insert cmp c cs) = insert c (set cs)"
  by (induction cmp c cs rule: colorspace_insert.induct) auto

lemma load_colorspaces_names:
  "colorspace_name ` set (global_colorspaces (load_colorspaces cmp g cs))
   = colorspace_name ` set (global_colorspaces g)
     \<union> (\<lambda>c. BLI_strncpy (fst c) MAX_COLORSPACE_NAME) ` set cs"
  by (induction cmp g cs rule: load_colorspaces.induct)
     (auto simp: colormanage_colorspace_add_def colorspace_insert_set)

lemma load_colorspaces_other:
  "global_views (load_colorspaces cmp g cs) = global_views g"
  "global_tot_view (load_colorspaces cmp g cs) = global_tot_view g"
  "global_looks (load_colorspaces cmp g cs) = global_looks g"
  "global_tot_looks (load_colorspaces cmp g cs) = global_tot_looks g"
  by (induction cmp g cs rule: load_colorspaces.induct)
     (simp_all add: colormanage_colorspace_add_def)

lemma load_views_other:
  "global_colorspaces (load_views g vs) = global_colorspaces g"
  "global_looks (load_views g vs) = global_looks g"
  "global_tot_looks (load_views g vs) = global_tot_looks g"
  by (induction vs arbitrary: g)
     (simp_all add: Let_def colormanage_view_add_def split: option.splits prod.splits)

lemma load_displays_other:
  "global_colorspaces (load_displays g ds) = global_colorspaces g"
  "global_looks (load_displays g ds) = global_looks g"
  "global_tot_looks (load_displays g ds) = global_tot_looks g"
  by (induction g ds rule: load_displays.induct)
     (simp_all add: load_views_other colormanage_display_add_def Let_def)

lemma look_add_looks:
  "map look_name (global_looks (colormanage_look_add g n p b))
   = map look_name (global_looks g) @ [BLI_strncpy n MAX_COLORSPACE_NAME]"
  "global_tot_looks (colormanage_look_add g n p b) = global_tot_looks g + 1"
  "global_colorspaces (colormanage_look_add g n p b) = global_colorspaces g"
  "global_views (colormanage_look_add g n p b) = global_views g"
  "global_tot_view (colormanage_look_add g n p b) = global_tot_view g"
  by (simp_all add: colormanage_look_add_def Let_def split: option.splits)

lemma load_looks_looks:
  "map look_name (global_looks (load_looks g ls))
   = map look_name (global_looks g) @ map (\<lambda>l. BLI_strncpy (fst l) MAX_COLORSPACE_NAME) ls"
  "global_tot_looks (load_looks g ls) = global_tot_looks g + int (length ls)"
  "global_colorspaces (load_looks g ls) = global_colorspaces g"
  "global_views (load_looks g ls) = global_views g"
  "global_tot_view (load_looks g ls) = global_tot_view g"
  by (induction g ls rule: load_looks.induct) (simp_all add: look_add_looks)

text \<open>The catalog after a load into emptied lists and zeroed counters holds what the
  configuration names and nothing else.\<close>

lemma load_config_into_empty:
  assumes "global_colorspaces g = []" "global_displays g = []" "global_views g = []"
    "global_looks g = []" "global_tot_view g = 0" "global_tot_looks g = 0"
  shows "map display_name (global_displays (colormanage_load_config cmp g config))
           = map (\<lambda>d. BLI_strncpy (fst d) MAX_COLORSPACE_NAME) (cfg_displays config)"
    and "map display_index (global_displays (colormanage_load_config cmp g config))
           = map int [1..<Suc (length (cfg_displays config))]"
    and "view_name ` set (global_views (colormanage_load_config cmp g config))
           = (\<lambda>n. BLI_strncpy n MAX_COLORSPACE_NAME) ` (\<Union>d\<in>set (cfg_displays config). set (snd d))"
    and "global_tot_view (colormanage_load_config cmp g config)
           = int (length (global_views (colormanage_load_config cmp g config)))"
    and "map look_name (global_looks (colormanage_load_config cmp g config))
           = ''None'' # map (\<lambda>l. BLI_strncpy (fst l) MAX_COLORSPACE_NAME) (cfg_looks config)"
    and "global_tot_looks (colormanage_load_config cmp g config)
           = 1 + int (length (cfg_looks config))"
    and "colorspace_name ` set (global_colorspaces (colormanage_load_config cmp g config))
           = (\<lambda>c. BLI_strncpy (fst c) MAX_COLORSPACE_NAME) ` set (cfg_colorspaces config)"
proof -
  let ?g1 = "g\<lparr>global_role_scene_linear :=
                 colormanage_role_color_space_name_get (cfg_role_scene_linear config)
                   (global_role_scene_linear g)\<rparr>"
  let ?g2 = "load_colorspaces cmp ?g1 (cfg_colorspaces config)"
  let ?g3 = "load_displays ?g2 (cfg_displays config)"
  have d2: "global_displays ?g2 = []"
    using assms(2) by (simp add: load_colorspaces_displays)
  have v2: "global_views ?g2 = []" "global_tot_view ?g2 = 0"
    using assms(3,5) by (simp_all add: load_colorspaces_other)
  show "map display_name (global_displays (colormanage_load_config cmp g config))
           = map (\<lambda>d. BLI_strncpy (fst d) MAX_COLORSPACE_NAME) (cfg_displays config)"
    by (simp add: colormanage_load_config_def Let_def load_looks_displays look_add_displays
          load_displays_names d2)
  have "map display_index (global_displays ?g3)
        = map int [1..<Suc (length (global_displays ?g2) + length (cfg_displays config))]"
    by (rule load_displays_indices) (simp add: d2)
  then show "map display_index (global_displays (colormanage_load_config cmp g config))
           = map int [1..<Suc (length (cfg_displays config))]"
    by (simp add: colormanage_load_config_def Let_def load_looks_displays look_add_displays d2)
  have lv: "view_name ` set (global_views ?g3)
              = view_name ` set (global_views ?g2)
                \<union> (\<lambda>n. BLI_strncpy n MAX_COLORSPACE_NAME) ` (\<Union>d\<in>set (cfg_displays config). set (snd d))
            \<and> global_tot_view ?g3 = int (length (global_views ?g3))"
    by (rule load_displays_views) (simp_all add: v2)
  from lv show "view_name ` set (global_views (colormanage_load_config cmp g config))
           = (\<lambda>n. BLI_strncpy n MAX_COLORSPACE_NAME) ` (\<Union>d\<in>set (cfg_displays config). set (snd d))"
    by (simp add: colormanage_load_config_def Let_def load_looks_looks look_add_looks v2)
  from lv show "global_tot_view (colormanage_load_config cmp g config)
           = int (length (global_views (colormanage_load_config cmp g config)))"
    by (simp add: colormanage_load_config_def Let_def load_looks_looks look_add_looks)
  show "map look_name (global_looks (colormanage_load_config cmp g config))
           = ''None'' # map (\<lambda>l. BLI_strncpy (fst l) MAX_COLORSPACE_NAME) (cfg_looks config)"
    using assms(4)
    by (simp add: colormanage_load_config_def Let_def load_looks_looks look_add_looks
          load_displays_other load_colorspaces_other BLI_strncpy_def MAX_COLORSPACE_NAME_def)
  show "global_tot_looks (colormanage_load_config cmp g config)
           = 1 + int (length (cfg_looks config))"
    using assms(6)
    by (simp add: colormanage_load_config_def Let_def load_looks_looks look_add_looks
          load_displays_other load_colorspaces_other)
  show "colorspace_name ` set (global_colorspaces (colormanage_load_config cmp g config))
           = (\<lambda>c. BLI_strncpy (fst c) MAX_COLORSPACE_NAME) ` set (cfg_colorspaces config)"
    using assms(1)
    by (simp add: colormanage_load_config_def Let_def load_looks_looks look_add_looks
          load_displays_other load_colorspaces_names)
qed

text \<open>
  C6. Whenever \<open>OCIO_configCreateFallback\<close> returns a configuration with at least one display,
  \<open>colormanagement_init\<close> returns with \<open>global_tot_display\<close> non-zero and a non-empty display
  list, from any state of the globals and for any configuration found through the environment
  or the data directory. When the first load leaves \<open>global_tot_display\<close> or \<open>global_tot_view\<close>
  at zero, nothing of what was loaded stays in the catalog: the displays are those of the
  fallback configuration, in its order and numbered from 1, \<open>global_tot_display\<close> is their
  number, the views are the views its displays name and \<open>global_tot_view\<close> is their number,
  the looks are \<open>None\<close> followed by the looks of the fallback configuration and
  \<open>global_tot_looks\<close> is their number, and the color spaces are those of the fallback
  configuration (every name cut to 63 characters).
\<close>

theorem colormanagement_init_has_displays:
  assumes "st_config_fallback st = Some fb" and "cfg_displays fb \<noteq> []"
  shows "\<exists>g'. colormanagement_init cmp g st = Inr g'
           \<and> global_tot_display g' \<noteq> 0 \<and> global_displays g' \<noteq> []
           \<and> (global_tot_display (colormanagement_init_loaded cmp g st) = 0
                \<or> global_tot_view (colormanagement_init_loaded cmp g st) = 0
              \<longrightarrow> map display_name (global_displays g')
                    = map (\<lambda>d. BLI_strncpy (fst d) MAX_COLORSPACE_NAME) (cfg_displays fb)
                  \<and> map display_index (global_displays g')
                    = map int [1..<Suc (length (cfg_displays fb))]
                  \<and> global_tot_display g' = int (length (cfg_displays fb))
                  \<and> view_name ` set (global_views g')
                    = (\<lambda>n. BLI_strncpy n MAX_COLORSPACE_NAME)
                        ` (\<Union>d\<in>set (cfg_displays fb). set (snd d))
                  \<and> global_tot_view g' = int (length (global_views g'))
                  \<and> map look_name (global_looks g')
                    = ''None'' # map (\<lambda>l. BLI_strncpy (fst l) MAX_COLORSPACE_NAME) (cfg_looks fb)
                  \<and> global_tot_looks g' = 1 + int (length (cfg_looks fb))
                  \<and> colorspace_name ` set (global_colorspaces g')
                    = (\<lambda>c. BLI_strncpy (fst c) MAX_COLORSPACE_NAME) ` set (cfg_colorspaces fb))"
proof (cases "global_tot_display (colormanagement_init_loaded cmp g st) = 0
                \<or> global_tot_view (colormanagement_init_loaded cmp g st) = 0")
  case True
  let ?g0 = "colormanage_free_config (colormanagement_init_loaded cmp g st)"
  let ?g' = "colormanage_load_config cmp ?g0 fb"
  have r: "colormanagement_init cmp g st = Inr ?g'"
    using True assms(1) by (auto simp: colormanagement_init_def Let_def)
  have nz: "global_tot_display ?g' \<noteq> 0"
    using assms(2) by (simp add: load_config_tot_display)
  have ne: "global_displays ?g' \<noteq> []"
    using assms(2) load_config_displays [of cmp ?g0 fb] by auto
  have e: "global_colorspaces ?g0 = []" "global_displays ?g0 = []" "global_views ?g0 = []"
    "global_looks ?g0 = []" "global_tot_view ?g0 = 0" "global_tot_looks ?g0 = 0"
    by (simp_all add: colormanage_free_config_def)
  note c = load_config_into_empty [OF e, of cmp fb]
  have t: "global_tot_display ?g' = int (length (cfg_displays fb))"
    by (simp add: load_config_tot_display)
  show ?thesis
    apply (rule exI [of _ ?g'])
    using assms(2) r ne c t
    apply simp
    done
next
  case False
  let ?g1 = "colormanagement_init_loaded cmp g st"
  have r: "colormanagement_init cmp g st = Inr ?g1"
    using False by (auto simp: colormanagement_init_def Let_def)
  have nz: "global_tot_display ?g1 \<noteq> 0" using False by simp
  have "global_displays ?g1 \<noteq> []"
  proof (cases "colormanagement_init_config st")
    case None
    with assms(1) show ?thesis
      by (auto simp: colormanagement_init_config_def Let_def split: option.splits if_splits)
  next
    case (Some c)
    then have "?g1 = colormanage_load_config cmp g c"
      by (simp add: colormanagement_init_loaded_def)
    with nz have "cfg_displays c \<noteq> []" by (auto simp: load_config_tot_display)
    then have "length (global_displays (colormanage_load_config cmp g c)) \<noteq> 0"
      by (simp add: load_config_displays)
    with \<open>?g1 = _\<close> show ?thesis by auto
  qed
  with r nz False show ?thesis by auto
qed

theorem colormanagement_init_has_displays_witness:
  "st_config_fallback example_startup = Some example_fallback
   \<and> cfg_displays example_fallback \<noteq> []
   \<and> global_tot_view (colormanagement_init_loaded (\<lambda>a b. 0) initial_globals example_startup) = 0
   \<and> map display_name
       (global_displays (colormanagement_init_loaded (\<lambda>a b. 0) initial_globals example_startup))
     = [''Broken display'']
   \<and> colormanagement_init (\<lambda>a b. 0) initial_globals example_startup =
       Inr \<lparr>global_colorspaces = [\<lparr>colorspace_name = ''Linear'', colorspace_is_data = False\<rparr>],
            global_displays =
              [\<lparr>display_index = 1, display_name = ''sRGB'',
                display_views = [\<lparr>view_index = 1, view_name = ''Standard''\<rparr>,
                                 \<lparr>view_index = 2, view_name = ''Raw''\<rparr>]\<rparr>],
            global_views = [\<lparr>view_index = 1, view_name = ''Standard''\<rparr>,
                            \<lparr>view_index = 2, view_name = ''Raw''\<rparr>],
            global_looks =
              [\<lparr>look_index = 1, look_name = ''None'', look_ui_name = ''None'', look_view = [],
                look_process_space = [], look_is_noop = True\<rparr>,
               \<lparr>look_index = 2, look_name = ''Standard - Contrast'', look_ui_name = ''Contrast'',
                look_view = ''Standard'', look_process_space = ''Linear'',
                look_is_noop = False\<rparr>],
            global_tot_display = 1, global_tot_view = 2, global_tot_looks = 2,
            global_role_scene_linear = ''Linear''\<rparr>
   \<and> (\<exists>g'. colormanagement_init (\<lambda>a b. 0) initial_globals example_startup = Inr g'
           \<and> map display_name (global_displays g') = [''sRGB'']
           \<and> map display_index (global_displays g') = [1]
           \<and> global_tot_display g' = 1
           \<and> view_name ` set (global_views g') = {''Standard'', ''Raw''}
           \<and> global_tot_view g' = int (length (global_views g'))
           \<and> map look_name (global_looks g') = [''None'', ''Standard - Contrast'']
           \<and> global_tot_looks g' = 2
           \<and> colorspace_name ` set (global_colorspaces g') = {''Linear''})"
proof -
  have h1: "st_config_fallback example_startup = Some example_fallback"
    by (simp add: example_startup_def)
  have h2: "cfg_displays example_fallback \<noteq> []"
    by (simp add: example_fallback_def)
  have l: "colormanagement_init_loaded (\<lambda>a b. 0) initial_globals example_startup =
             \<lparr>global_colorspaces = [\<lparr>colorspace_name = ''Broken space'', colorspace_is_data = False\<rparr>],
              global_displays = [\<lparr>display_index = 1, display_name = ''Broken display'',
                                   display_views = []\<rparr>],
              global_views = [],
              global_looks =
                [\<lparr>look_index = 1, look_name = ''None'', look_ui_name = ''None'', look_view = [],
                  look_process_space = [], look_is_noop = True\<rparr>,
                 \<lparr>look_index = 2, look_name = ''Broken look'', look_ui_name = ''Broken look'',
                  look_view = [], look_process_space = ''Broken space'', look_is_noop = False\<rparr>],
              global_tot_display = 1, global_tot_view = 0, global_tot_looks = 2,
              global_role_scene_linear = []\<rparr>"
    by (simp add: colormanagement_init_loaded_def colormanagement_init_config_def
          example_startup_def initial_globals_def colormanage_load_config_def Let_def
          colormanage_role_color_space_name_get_def colormanage_colorspace_add_def
          colormanage_display_add_def colormanage_look_add_def BLI_strncpy_def
          MAX_COLORSPACE_NAME_def)
  have h3: "global_tot_view
              (colormanagement_init_loaded (\<lambda>a b. 0) initial_globals example_startup) = 0"
    by (simp add: l)
  have r: "colormanagement_init (\<lambda>a b. 0) initial_globals example_startup =
       Inr \<lparr>global_colorspaces = [\<lparr>colorspace_name = ''Linear'', colorspace_is_data = False\<rparr>],
            global_displays =
              [\<lparr>display_index = 1, display_name = ''sRGB'',
                display_views = [\<lparr>view_index = 1, view_name = ''Standard''\<rparr>,
                                 \<lparr>view_index = 2, view_name = ''Raw''\<rparr>]\<rparr>],
            global_views = [\<lparr>view_index = 1, view_name = ''Standard''\<rparr>,
                            \<lparr>view_index = 2, view_name = ''Raw''\<rparr>],
            global_looks =
              [\<lparr>look_index = 1, look_name = ''None'', look_ui_name = ''None'', look_view = [],
                look_process_space = [], look_is_noop = True\<rparr>,
               \<lparr>look_index = 2, look_name = ''Standard - Contrast'', look_ui_name = ''Contrast'',
                look_view = ''Standard'', look_process_space = ''Linear'',
                look_is_noop = False\<rparr>],
            global_tot_display = 1, global_tot_view = 2, global_tot_looks = 2,
            global_role_scene_linear = ''Linear''\<rparr>"
    unfolding colormanagement_init_def l
    by (simp add: example_startup_def example_fallback_def colormanage_free_config_def
          colormanage_load_config_def Let_def
          colormanage_role_color_space_name_get_def colormanage_colorspace_add_def
          colormanage_display_add_def colormanage_look_add_def colormanage_view_add_def
          colormanage_view_get_named_def BLI_strncpy_def MAX_COLORSPACE_NAME_def)
  have h4: "map display_name
       (global_displays (colormanagement_init_loaded (\<lambda>a b. 0) initial_globals example_startup))
     = [''Broken display'']"
    by (simp add: l)
  have fb: "map (\<lambda>d. BLI_strncpy (fst d) MAX_COLORSPACE_NAME) (cfg_displays example_fallback)
              = [''sRGB'']"
    "map int [1..<Suc (length (cfg_displays example_fallback))] = [1]"
    "int (length (cfg_displays example_fallback)) = 1"
    "(\<lambda>n. BLI_strncpy n MAX_COLORSPACE_NAME) ` (\<Union>d\<in>set (cfg_displays example_fallback). set (snd d))
       = {''Standard'', ''Raw''}"
    "''None'' # map (\<lambda>l. BLI_strncpy (fst l) MAX_COLORSPACE_NAME) (cfg_looks example_fallback)
       = [''None'', ''Standard - Contrast'']"
    "1 + int (length (cfg_looks example_fallback)) = 2"
    "(\<lambda>c. BLI_strncpy (fst c) MAX_COLORSPACE_NAME) ` set (cfg_colorspaces example_fallback)
       = {''Linear''}"
    by (simp_all add: example_fallback_def BLI_strncpy_def MAX_COLORSPACE_NAME_def)
  note t = colormanagement_init_has_displays [OF h1 h2, of "\<lambda>a b. 0" initial_globals,
               unfolded fb h3]
  from t
  have e: "\<exists>g'. colormanagement_init (\<lambda>a b. 0) initial_globals example_startup = Inr g'
           \<and> map display_name (global_displays g') = [''sRGB'']
           \<and> map display_index (global_displays g') = [1]
           \<and> global_tot_display g' = 1
           \<and> view_name ` set (global_views g') = {''Standard'', ''Raw''}
           \<and> global_tot_view g' = int (length (global_views g'))
           \<and> map look_name (global_looks g') = [''None'', ''Standard - Contrast'']
           \<and> global_tot_looks g' = 2
           \<and> colorspace_name ` set (global_colorspaces g') = {''Linear''}"
    apply (elim exE conjE)
    subgoal for g'
      apply (rule exI [of _ g'])
      apply (simp only: simp_thms)
      done
    done
  from h1 h2 h3 h4 r e show ?thesis by (simp only: simp_thms)
qed

subsection \<open>Scale and exponent of the display processor\<close>

text \<open>
  C7. For a look name that the catalog knows, \<open>create_display_buffer_processor\<close> hands the
  engine a request whose scale is exactly 1 when the exposure is 0, without a call of \<open>powf\<close>,
  and is otherwise what \<open>powf\<close> returns for the base 2 and the exposure; and whose exponent is
  exactly 1 when gamma is 1, without a division, and is otherwise what the float division
  returns for 1 over the larger of \<open>FLT_EPSILON\<close> (\<open>2\<^sup>-\<^sup>2\<^sup>3\<close>) and gamma: 1 over \<open>FLT_EPSILON\<close>
  for every gamma up to \<open>FLT_EPSILON\<close>, zero and negative ones included, and 1 over gamma
  above it. \<open>powf\<close> and the division are those of the platform, whatever they round to.
\<close>

theorem create_display_buffer_processor_scale_exponent:
  assumes "colormanage_look_get_named g look \<noteq> None"
  shows "\<exists>req p. create_display_buffer_processor E g look view_transform display exposure gamma
                   from_colorspace = Inr (req, p)
           \<and> (exposure = 0 \<longrightarrow> req_scale req = Finite 1)
           \<and> (exposure \<noteq> 0 \<longrightarrow> req_scale req = powf E 2 exposure)
           \<and> (gamma = 1 \<longrightarrow> req_exponent req = Finite 1)
           \<and> (gamma \<le> 1 / 2 ^ 23 \<longrightarrow> req_exponent req = float_div E 1 (1 / 2 ^ 23))
           \<and> (1 / 2 ^ 23 < gamma \<and> gamma \<noteq> 1 \<longrightarrow> req_exponent req = float_div E 1 gamma)"
proof -
  from assms obtain d where d: "colormanage_look_get_named g look = Some d" by auto
  have clamp: "max_ff a b = (if b \<le> a then a else b)" for a b
    by (auto simp: max_ff_def)
  have eps: "FLT_EPSILON = 1 / 2 ^ 23" "FLT_EPSILON < 1"
    by (simp_all add: FLT_EPSILON_def)
  show ?thesis
    unfolding eps(1) [symmetric] using d eps(2)
    by (auto simp: create_display_buffer_processor_def colormanage_use_look_def Let_def clamp)
qed

theorem create_display_buffer_processor_scale_exponent_witness:
  "colormanage_look_get_named example_globals ''None'' \<noteq> None
   \<and> (\<exists>req p. create_display_buffer_processor example_engine example_globals ''None''
                   ''Standard'' ''sRGB'' 0 1 ''Linear'' = Inr (req, p)
           \<and> req_scale req = Finite 1 \<and> req_exponent req = Finite 1)
   \<and> (\<exists>req p. create_display_buffer_processor example_engine example_globals ''None''
                   ''Standard'' ''sRGB'' 3 0 ''Linear'' = Inr (req, p)
           \<and> req_scale req = Finite 8 \<and> req_exponent req = Finite 8388608)
   \<and> (\<exists>req p. create_display_buffer_processor example_engine example_globals ''None''
                   ''Standard'' ''sRGB'' 200 2 ''Linear'' = Inr (req, p)
           \<and> req_scale req = PlusInfinity \<and> req_exponent req = Finite (1 / 2))"
proof -
  have h: "colormanage_look_get_named example_globals ''None'' \<noteq> None"
    by (simp add: colormanage_look_get_named_def example_globals_def example_look_def)
  have p3: "powf example_engine 2 3 = Finite 8"
    by (simp add: example_engine_def)
  have p200: "powf example_engine 2 200 = PlusInfinity"
    by (simp add: example_engine_def)
  have d0: "float_div example_engine 1 (1 / 2 ^ 23) = Finite 8388608"
    by (simp add: example_engine_def)
  have d2: "float_div example_engine 1 2 = Finite (1 / 2)"
    by (simp add: example_engine_def)
  show ?thesis
    using create_display_buffer_processor_scale_exponent
            [OF h, of example_engine "''Standard''" "''sRGB''" 0 1 "''Linear''"]
          create_display_buffer_processor_scale_exponent
            [OF h, of example_engine "''Standard''" "''sRGB''" 3 0 "''Linear''"]
          create_display_buffer_processor_scale_exponent
            [OF h, of example_engine "''Standard''" "''sRGB''" 200 2 "''Linear''"]
          h p3 p200 d0 d2
    by simp
qed

subsection \<open>The transform between equal color spaces\<close>

text \<open>
  C8. When the source color space name is the empty string, or source and destination are
  the same string, \<open>colormanagement_transform_ex\<close> returns both buffers as they were given,
  \<open>IMB_colormanagement_transform\<close> returns the float buffer as given and
  \<open>IMB_colormanagement_transform_v4\<close> returns the pixel as given, for every width, height,
  channel count, predivide flag and threading flag.
\<close>

theorem colormanagement_transform_noop:
  assumes "from_colorspace = Some [] \<or> (\<exists>n. from_colorspace = Some n \<and> to_colorspace = Some n)"
  shows "colormanagement_transform_ex E B g byte_buffer float_buffer width height channels
           from_colorspace to_colorspace predivide do_threaded = Inr (byte_buffer, float_buffer)
         \<and> IMB_colormanagement_transform E B g buffer width height channels
               from_colorspace to_colorspace predivide = Inr buffer
         \<and> IMB_colormanagement_transform_v4 E evalF g pixel from_colorspace to_colorspace
               = Inr pixel"
  using assms
  by (auto simp: colormanagement_transform_ex_def IMB_colormanagement_transform_def
        IMB_colormanagement_transform_v4_def)

theorem colormanagement_transform_noop_witness:
  "IMB_colormanagement_transform example_engine example_buffer_ops example_globals
     [1, 0.5, 0.25, 1] 1 1 4 (Some ''sRGB'') (Some ''sRGB'') True = Inr [1, 0.5, 0.25, 1]
   \<and> IMB_colormanagement_transform_v4 example_engine (\<lambda>(_::unit) pixel. pixel) example_globals
       (1, 0.5, 0.25, 1) (Some []) (Some ''sRGB'') = Inr (1, 0.5, 0.25, 1)"
  using colormanagement_transform_noop
          [of "Some ''sRGB''" "Some ''sRGB''" example_engine example_buffer_ops example_globals
              None None 1 1 4 True False "[1, 0.5, 0.25, 1]" "\<lambda>(_::unit) pixel. pixel"
              "(1, 0.5, 0.25, 1)"]
        colormanagement_transform_noop
          [of "Some []" "Some ''sRGB''" example_engine example_buffer_ops example_globals
              None None 1 1 4 True False "[1, 0.5, 0.25, 1]" "\<lambda>(_::unit) pixel. pixel"
              "(1, 0.5, 0.25, 1)"]
  by simp

subsection \<open>Lookups that miss\<close>

lemma named_lookup_miss:
  assumes "name \<notin> look_name ` set (global_looks g)"
      and "name \<notin> display_name ` set (global_displays g)"
  shows "colormanage_look_get_named g name = None"
    and "IMB_colormanagement_look_get_named_index g name = 0"
    and "colormanage_display_get_named g name = None"
    and "IMB_colormanagement_display_get_named_index g name = 0"
proof -
  show l: "colormanage_look_get_named g name = None"
    using assms(1) by (auto simp: colormanage_look_get_named_def find_None_iff)
  show d: "colormanage_display_get_named g name = None"
    using assms(2) by (auto simp: colormanage_display_get_named_def find_None_iff)
  show "IMB_colormanagement_look_get_named_index g name = 0"
    by (simp add: IMB_colormanagement_look_get_named_index_def l)
  show "IMB_colormanagement_display_get_named_index g name = 0"
    by (simp add: IMB_colormanagement_display_get_named_index_def d)
qed

text \<open>
  C9. A look name that is not in the catalog makes \<open>colormanage_look_get_named\<close> return \<open>NULL\<close>,
  and \<open>colormanage_use_look\<close> reads a field through that pointer: with only the look \<open>None\<close>
  loaded, the look name \<open>Filmic - High Contrast\<close> ends in a null dereference.
\<close>

theorem colormanage_use_look_unknown_look:
  "colormanage_look_get_named example_globals ''Filmic - High Contrast'' = None
   \<and> colormanage_use_look example_globals ''Filmic - High Contrast'' (Some ''Filmic'')
       = Inl NullDeref"
  by (simp add: colormanage_use_look_def colormanage_look_get_named_def example_globals_def
        example_look_def)

subsection \<open>The display-buffer cache\<close>

lemma cache_data_differs:
  "cd \<noteq> cache_data_of vs \<longleftrightarrow>
     (cd_look cd \<noteq> cvs_look vs \<or> cd_exposure cd \<noteq> cvs_exposure vs \<or>
      cd_gamma cd \<noteq> cvs_gamma vs \<or> cd_dither cd \<noteq> cvs_dither vs \<or>
      cd_flag cd \<noteq> cvs_flag vs \<or>
      cd_curve_mapping cd \<noteq> map_option cumap_address (cvs_curve_mapping vs) \<or>
      cd_curve_mapping_timestamp cd \<noteq>
        (case cvs_curve_mapping vs of Some c \<Rightarrow> changed_timestamp c | None \<Rightarrow> 0))"
  by (cases cd) (auto simp: cache_data_of_def)

lemma get_stale:
  assumes flags: "display_buffer_flags ibuf = Some flags"
    and d: "1 \<le> cds_display ds" "cds_display ds \<le> int (length flags)"
    and v: "1 \<le> cvs_view vs" "cvs_view vs \<le> 31"
    and bit: "bit (flags ! nat (cds_display ds - 1)) (nat (cvs_view vs - 1))"
    and mc: "colormanage_moviecache_get ibuf = Some mc"
    and found: "mc (colormanage_settings_to_key vs ds) = Some cache_ibuf"
    and data: "cache_data cache_ibuf = Some cd"
    and differs: "cd \<noteq> cache_data_of vs"
  shows "colormanage_cache_get ibuf vs ds handle =
           Inr (None, None, [Call_IMB_moviecache_get (colormanage_settings_to_key vs ds),
                             Call_IMB_freeImBuf cache_ibuf])"
proof -
  have vf: "view_flag_of (cvs_view vs) = Inr (push_bit (nat (cvs_view vs - 1)) 1)"
    using v by (simp add: view_flag_of_def)
  have nz: "(flags ! nat (cds_display ds - 1)) AND 2 ^ nat (cvs_view vs - 1) \<noteq> 0"
    using bit by (simp add: and_exp_eq_0_iff_not_bit)
  have rng: "0 \<le> cds_display ds - 1 \<and> cds_display ds - 1 < int (length flags)"
    using d by simp
  from differs have mismatch: "cd_look cd \<noteq> cvs_look vs \<or> cd_exposure cd \<noteq> cvs_exposure vs \<or>
      cd_gamma cd \<noteq> cvs_gamma vs \<or> cd_dither cd \<noteq> cvs_dither vs \<or>
      cd_flag cd \<noteq> cvs_flag vs \<or>
      cd_curve_mapping cd \<noteq> map_option cumap_address (cvs_curve_mapping vs) \<or>
      cd_curve_mapping_timestamp cd \<noteq>
        (case cvs_curve_mapping vs of Some c \<Rightarrow> changed_timestamp c | None \<Rightarrow> 0)"
    by (simp only: cache_data_differs)
  show ?thesis
    unfolding colormanage_cache_get_def
    using mismatch d
    by (simp add: vf flags rng nz mc found data IMB_moviecache_get_def Let_def)
qed

lemma get_fast_reject:
  assumes flags: "display_buffer_flags ibuf = Some flags"
    and d: "1 \<le> cds_display ds" "cds_display ds \<le> int (length flags)"
    and v: "1 \<le> cvs_view vs" "cvs_view vs \<le> 31"
    and bit: "\<not> bit (flags ! nat (cds_display ds - 1)) (nat (cvs_view vs - 1))"
  shows "colormanage_cache_get ibuf vs ds handle = Inr (None, handle, [])"
proof -
  have vf: "view_flag_of (cvs_view vs) = Inr (push_bit (nat (cvs_view vs - 1)) 1)"
    using v by (simp add: view_flag_of_def)
  have z: "(flags ! nat (cds_display ds - 1)) AND 2 ^ nat (cvs_view vs - 1) = 0"
    using bit by (simp add: and_exp_eq_0_iff_not_bit)
  show ?thesis
    unfolding colormanage_cache_get_def
    using d by (simp add: vf flags z Let_def)
qed

lemma put_result:
  assumes flags: "display_buffer_flags ibuf = Some flags"
    and d: "1 \<le> cds_display ds" "cds_display ds \<le> int (length flags)"
    and v: "1 \<le> cvs_view vs" "cvs_view vs \<le> 31"
  shows "\<exists>ibuf' mc'. colormanage_cache_put ibuf vs ds display_buffer =
           Inr (ibuf', \<lparr>cache_x = ibuf_x ibuf, cache_y = ibuf_y ibuf, cache_rect = display_buffer,
                         cache_data = Some (cache_data_of vs)\<rparr>,
                [Call_IMB_moviecache_put (colormanage_settings_to_key vs ds)])
         \<and> display_buffer_flags ibuf' =
               Some (flags[nat (cds_display ds - 1) :=
                       (flags ! nat (cds_display ds - 1)) OR push_bit (nat (cvs_view vs - 1)) 1])
         \<and> bit ((flags[nat (cds_display ds - 1) :=
                       (flags ! nat (cds_display ds - 1)) OR push_bit (nat (cvs_view vs - 1)) 1])
                 ! nat (cds_display ds - 1)) (nat (cvs_view vs - 1))
         \<and> colormanage_moviecache_get ibuf' = Some mc'
         \<and> mc' (colormanage_settings_to_key vs ds) =
               Some \<lparr>cache_x = ibuf_x ibuf, cache_y = ibuf_y ibuf, cache_rect = display_buffer,
                      cache_data = Some (cache_data_of vs)\<rparr>"
proof -
  have vf: "view_flag_of (cvs_view vs) = Inr (push_bit (nat (cvs_view vs - 1)) 1)"
    using v by (simp add: view_flag_of_def)
  have lt: "nat (cds_display ds - 1) < length flags" using d by simp
  have n32: "nat (cvs_view vs - 1) < 32" using v by simp
  show ?thesis
    unfolding colormanage_cache_put_def colormanage_moviecache_ensure_def
    using lt n32 d
    by (simp add: vf flags Let_def colormanage_moviecache_get_def IMB_moviecache_put_def
          bit_or_iff bit_exp_iff cache_data_of_def)
qed

text \<open>
  C1. In \<open>colormanage_cache_get\<close>, when the bit of the requested pair is set and the block
  cache holds an element under the (view, display) key whose stored snapshot differs from
  the snapshot of the requesting settings in any field, the function calls \<open>IMB_freeImBuf\<close> on
  that element, sets the handle to \<open>NULL\<close> and returns \<open>NULL\<close>. In particular, after
  \<open>colormanage_cache_put\<close> stored a buffer, a lookup with the same settings except for a
  different exposure returns \<open>NULL\<close> and not the stored buffer.
\<close>

theorem colormanage_cache_get_mismatch_is_miss:
  assumes flags: "display_buffer_flags ibuf = Some flags"
    and d: "1 \<le> cds_display ds" "cds_display ds \<le> int (length flags)"
    and v: "1 \<le> cvs_view vs" "cvs_view vs \<le> 31"
  shows "(bit (flags ! nat (cds_display ds - 1)) (nat (cvs_view vs - 1))
          \<and> colormanage_moviecache_get ibuf = Some mc
          \<and> mc (colormanage_settings_to_key vs ds) = Some cache_ibuf
          \<and> cache_data cache_ibuf = Some cd
          \<and> cd \<noteq> cache_data_of vs
          \<longrightarrow> colormanage_cache_get ibuf vs ds handle =
                Inr (None, None, [Call_IMB_moviecache_get (colormanage_settings_to_key vs ds),
                                  Call_IMB_freeImBuf cache_ibuf]))
       \<and> (exposure \<noteq> cvs_exposure vs
          \<longrightarrow> (\<exists>ibuf' cached calls.
                 colormanage_cache_put ibuf vs ds display_buffer = Inr (ibuf', cached, calls)
                 \<and> cache_rect cached = display_buffer
                 \<and> colormanage_cache_get ibuf' (vs\<lparr>cvs_exposure := exposure\<rparr>) ds handle =
                     Inr (None, None,
                          [Call_IMB_moviecache_get (colormanage_settings_to_key vs ds),
                           Call_IMB_freeImBuf cached])))"
proof (intro conjI impI)
  assume "bit (flags ! nat (cds_display ds - 1)) (nat (cvs_view vs - 1))
          \<and> colormanage_moviecache_get ibuf = Some mc
          \<and> mc (colormanage_settings_to_key vs ds) = Some cache_ibuf
          \<and> cache_data cache_ibuf = Some cd
          \<and> cd \<noteq> cache_data_of vs"
  then show "colormanage_cache_get ibuf vs ds handle =
                Inr (None, None, [Call_IMB_moviecache_get (colormanage_settings_to_key vs ds),
                                  Call_IMB_freeImBuf cache_ibuf])"
    using get_stale [OF flags d v] by blast
next
  assume ex: "exposure \<noteq> cvs_exposure vs"
  let ?cached = "\<lparr>cache_x = ibuf_x ibuf, cache_y = ibuf_y ibuf, cache_rect = display_buffer,
                   cache_data = Some (cache_data_of vs)\<rparr>"
  let ?i = "nat (cds_display ds - 1)"
  let ?flags' = "flags[?i := (flags ! ?i) OR push_bit (nat (cvs_view vs - 1)) 1]"
  let ?vs' = "vs\<lparr>cvs_exposure := exposure\<rparr>"
  from put_result [OF flags d v, of display_buffer]
  obtain ibuf' mc' where
    put: "colormanage_cache_put ibuf vs ds display_buffer =
            Inr (ibuf', ?cached, [Call_IMB_moviecache_put (colormanage_settings_to_key vs ds)])"
    and fl: "display_buffer_flags ibuf' = Some ?flags'"
    and bt: "bit (?flags' ! ?i) (nat (cvs_view vs - 1))"
    and mc': "colormanage_moviecache_get ibuf' = Some mc'"
    and ent: "mc' (colormanage_settings_to_key vs ds) = Some ?cached"
    by blast
  have key: "colormanage_settings_to_key ?vs' ds = colormanage_settings_to_key vs ds"
    by (simp add: colormanage_settings_to_key_def)
  have diff: "cache_data_of vs \<noteq> cache_data_of ?vs'"
    using ex by (auto simp: cache_data_of_def)
  have "colormanage_cache_get ibuf' ?vs' ds handle =
          Inr (None, None, [Call_IMB_moviecache_get (colormanage_settings_to_key ?vs' ds),
                            Call_IMB_freeImBuf ?cached])"
    by (rule get_stale [where flags = ?flags' and mc = mc' and cd = "cache_data_of vs"])
       (use fl d v bt mc' ent diff in \<open>simp_all add: key\<close>)
  with put show "\<exists>ibuf' cached calls.
                 colormanage_cache_put ibuf vs ds display_buffer = Inr (ibuf', cached, calls)
                 \<and> cache_rect cached = display_buffer
                 \<and> colormanage_cache_get ibuf' (vs\<lparr>cvs_exposure := exposure\<rparr>) ds handle =
                     Inr (None, None,
                          [Call_IMB_moviecache_get (colormanage_settings_to_key vs ds),
                           Call_IMB_freeImBuf cached])"
    by (simp add: key)
qed

theorem colormanage_cache_get_mismatch_is_miss_witness:
  "colormanage_cache_get example_cached_ImBuf (example_cache_view_settings\<lparr>cvs_gamma := 2\<rparr>)
     example_cache_display_settings None =
     Inr (None, None, [Call_IMB_moviecache_get example_key, Call_IMB_freeImBuf example_cache_ImBuf])
   \<and> (\<exists>ibuf' cached calls.
         colormanage_cache_put example_cached_ImBuf (example_cache_view_settings\<lparr>cvs_gamma := 2\<rparr>)
           example_cache_display_settings (replicate 32 7) = Inr (ibuf', cached, calls)
         \<and> cache_rect cached = replicate 32 7
         \<and> colormanage_cache_get ibuf' (example_cache_view_settings\<lparr>cvs_gamma := 2, cvs_exposure := 1\<rparr>)
             example_cache_display_settings None =
             Inr (None, None, [Call_IMB_moviecache_get example_key, Call_IMB_freeImBuf cached]))"
proof -
  let ?vs = "example_cache_view_settings\<lparr>cvs_gamma := 2\<rparr>"
  have h1: "display_buffer_flags example_cached_ImBuf = Some [7, 3]"
    by (simp add: example_cached_ImBuf_def)
  have h2: "1 \<le> cds_display example_cache_display_settings"
           "cds_display example_cache_display_settings \<le> int (length [7::32 word, 3])"
    by (simp_all add: example_cache_display_settings_def)
  have h3: "1 \<le> cvs_view ?vs" "cvs_view ?vs \<le> 31"
    by (simp_all add: example_cache_view_settings_def)
  have key: "colormanage_settings_to_key ?vs example_cache_display_settings = example_key"
    by (simp add: colormanage_settings_to_key_def example_key_def
          example_cache_view_settings_def example_cache_display_settings_def)
  have h4: "bit ([7::32 word, 3] ! nat (cds_display example_cache_display_settings - 1))
              (nat (cvs_view ?vs - 1))
          \<and> colormanage_moviecache_get example_cached_ImBuf = Some [example_key \<mapsto> example_cache_ImBuf]
          \<and> [example_key \<mapsto> example_cache_ImBuf] (colormanage_settings_to_key ?vs example_cache_display_settings)
              = Some example_cache_ImBuf
          \<and> cache_data example_cache_ImBuf = Some (cache_data_of example_cache_view_settings)
          \<and> cache_data_of example_cache_view_settings \<noteq> cache_data_of ?vs"
    by (simp add: colormanage_settings_to_key_def example_key_def colormanage_moviecache_get_def
          example_cached_ImBuf_def example_cache_ImBuf_def cache_data_of_def
          example_cache_view_settings_def example_cache_display_settings_def)
  have h5: "(1::real) \<noteq> cvs_exposure ?vs"
    by (simp add: example_cache_view_settings_def)
  show ?thesis
    using colormanage_cache_get_mismatch_is_miss [OF h1 h2 h3, of "[example_key \<mapsto> example_cache_ImBuf]" example_cache_ImBuf
                "cache_data_of example_cache_view_settings" None 1 "replicate 32 7"] h4 h5
    by (simp add: key)
qed

subsection \<open>Evaluations on the example data\<close>

lemma example_indices:
  "IMB_colormanagement_display_get_named_index example_globals ''sRGB'' = 1"
  "IMB_colormanagement_view_get_named_index example_globals ''Standard'' = 1"
  "IMB_colormanagement_look_get_named_index example_globals ''None'' = 1"
  by (simp_all add: IMB_colormanagement_display_get_named_index_def
        IMB_colormanagement_view_get_named_index_def IMB_colormanagement_look_get_named_index_def
        colormanage_display_get_named_def colormanage_view_get_named_def
        colormanage_look_get_named_def example_globals_def example_view_def example_look_def)

lemma example_to_cache:
  "colormanage_view_settings_to_cache example_globals example_ImBuf example_view_settings
     = example_cache_view_settings"
  "colormanage_view_settings_to_cache example_globals example_cached_ImBuf example_view_settings
     = example_cache_view_settings"
  "colormanage_view_settings_to_cache example_globals example_wide_ImBuf example_view_settings
     = example_cache_view_settings"
  "colormanage_display_settings_to_cache example_globals example_display_settings
     = example_cache_display_settings"
  by (simp_all add: colormanage_view_settings_to_cache_def colormanage_display_settings_to_cache_def
        example_view_settings_def example_display_settings_def example_indices
        example_cache_view_settings_def example_cache_display_settings_def example_ImBuf_def
        example_cached_ImBuf_def example_wide_ImBuf_def)

lemma example_get_miss:
  "colormanage_cache_get example_ImBuf example_cache_view_settings
     example_cache_display_settings None = Inr (None, None, [])"
  by (simp add: colormanage_cache_get_def view_flag_of_def example_cache_view_settings_def
        example_cache_display_settings_def example_ImBuf_def Let_def)


lemma example_wide_get_hit:
  "colormanage_cache_get example_wide_ImBuf example_cache_view_settings
     example_cache_display_settings None =
     Inr (Some (replicate 16384 0), Some example_wide_cache_ImBuf,
          [Call_IMB_moviecache_get example_key])"
  by (simp add: colormanage_cache_get_def view_flag_of_def example_cache_view_settings_def
        example_cache_display_settings_def example_wide_ImBuf_def Let_def
        colormanage_moviecache_get_def IMB_moviecache_get_def colormanage_settings_to_key_def
        example_key_def example_wide_cache_ImBuf_def)

lemma example_flags_rewritten:
  "(replicate (nat (global_tot_display example_globals)) 0 @
      drop (nat (global_tot_display example_globals)) [a, b :: 32 word])
     [nat (cds_display example_cache_display_settings - 1) :=
        (replicate (nat (global_tot_display example_globals)) 0 @
           drop (nat (global_tot_display example_globals)) [a, b])
        ! nat (cds_display example_cache_display_settings - 1) OR 1]
   = [1, 0]"
proof -
  have t: "nat (global_tot_display example_globals) = Suc (Suc 0)"
    by (simp add: example_globals_def)
  have d: "nat (cds_display example_cache_display_settings - 1) = 0"
    by (simp add: example_cache_display_settings_def)
  show ?thesis unfolding t d by simp
qed

lemma example_lookup_miss:
  "partial_display_buffer_lookup example_globals example_ImBuf example_view_settings
     example_display_settings
   = Inr (example_ImBuf\<lparr>display_buffer_flags := Some [1, 0]\<rparr>, None, None, [])"
proof -
  have f: "display_buffer_flags example_ImBuf = Some [6, 3]" "ibuf_userflags example_ImBuf = 0"
    by (simp_all add: example_ImBuf_def)
  have t: "0 \<le> global_tot_display example_globals"
          "nat (global_tot_display example_globals) \<le> length [6::32 word, 3]"
    by (simp_all add: example_globals_def)
  have v: "view_flag_of (cvs_view example_cache_view_settings) = Inr 1"
          "0 \<le> cds_display example_cache_display_settings - 1"
          "cds_display example_cache_display_settings - 1 < int (length [6::32 word, 3])"
    by (simp_all add: view_flag_of_def example_cache_view_settings_def
          example_cache_display_settings_def)
  show ?thesis
    using t v
    by (simp add: partial_display_buffer_lookup_def f example_to_cache example_get_miss seq_def Let_def
          example_flags_rewritten del: replicate.simps)
qed


lemma example_wide_lookup_hit:
  "partial_display_buffer_lookup example_globals example_wide_ImBuf example_view_settings
     example_display_settings
   = Inr (example_wide_ImBuf\<lparr>display_buffer_flags := Some [1, 0]\<rparr>, Some (replicate 16384 0),
          Some example_wide_cache_ImBuf, [Call_IMB_moviecache_get example_key])"
proof -
  have f: "display_buffer_flags example_wide_ImBuf = Some [7, 3]"
          "ibuf_userflags example_wide_ImBuf = 0"
    by (simp_all add: example_wide_ImBuf_def)
  have t: "0 \<le> global_tot_display example_globals"
          "nat (global_tot_display example_globals) \<le> length [7::32 word, 3]"
    by (simp_all add: example_globals_def)
  have v: "view_flag_of (cvs_view example_cache_view_settings) = Inr 1"
          "0 \<le> cds_display example_cache_display_settings - 1"
          "cds_display example_cache_display_settings - 1 < int (length [7::32 word, 3])"
    by (simp_all add: view_flag_of_def example_cache_view_settings_def
          example_cache_display_settings_def)
  show ?thesis
    using t v
    by (simp add: partial_display_buffer_lookup_def f example_to_cache example_wide_get_hit seq_def Let_def
          example_flags_rewritten del: replicate.simps)
qed

lemma put_stored:
  assumes flags: "display_buffer_flags ibuf = Some flags"
    and d: "1 \<le> cds_display ds" "cds_display ds \<le> int (length flags)"
    and v: "1 \<le> cvs_view vs" "cvs_view vs \<le> 31"
  shows "\<exists>ibuf' mc'. colormanage_cache_put ibuf vs ds display_buffer =
           Inr (ibuf',
                \<lparr>cache_x = ibuf_x ibuf, cache_y = ibuf_y ibuf, cache_rect = display_buffer,
                  cache_data =
                    Some \<lparr>cd_flag = cvs_flag vs, cd_look = cvs_look vs,
                          cd_exposure = cvs_exposure vs, cd_gamma = cvs_gamma vs,
                          cd_dither = cvs_dither vs,
                          cd_curve_mapping = map_option cumap_address (cvs_curve_mapping vs),
                          cd_curve_mapping_timestamp =
                            (case cvs_curve_mapping vs of
                               Some c \<Rightarrow> changed_timestamp c
                             | None \<Rightarrow> 0)\<rparr>\<rparr>,
                [Call_IMB_moviecache_put \<lparr>key_view = cvs_view vs, key_display = cds_display ds\<rparr>])
         \<and> display_buffer_flags ibuf' =
               Some (flags[nat (cds_display ds - 1) :=
                       (flags ! nat (cds_display ds - 1)) OR push_bit (nat (cvs_view vs - 1)) 1])
         \<and> colormanage_moviecache_get ibuf' = Some mc'
         \<and> mc' \<lparr>key_view = cvs_view vs, key_display = cds_display ds\<rparr> =
               Some \<lparr>cache_x = ibuf_x ibuf, cache_y = ibuf_y ibuf, cache_rect = display_buffer,
                      cache_data =
                        Some \<lparr>cd_flag = cvs_flag vs, cd_look = cvs_look vs,
                              cd_exposure = cvs_exposure vs, cd_gamma = cvs_gamma vs,
                              cd_dither = cvs_dither vs,
                              cd_curve_mapping = map_option cumap_address (cvs_curve_mapping vs),
                              cd_curve_mapping_timestamp =
                                (case cvs_curve_mapping vs of
                                   Some c \<Rightarrow> changed_timestamp c
                                 | None \<Rightarrow> 0)\<rparr>\<rparr>"
proof -
  have vf: "view_flag_of (cvs_view vs) = Inr (push_bit (nat (cvs_view vs - 1)) 1)"
    using v by (simp add: view_flag_of_def)
  show ?thesis
    unfolding colormanage_cache_put_def colormanage_moviecache_ensure_def
    using d
    by (simp add: vf flags Let_def colormanage_moviecache_get_def IMB_moviecache_put_def
          colormanage_settings_to_key_def)
qed

lemma bit_set_in_flags:
  fixes flags :: "32 word list"
  assumes "i < length flags" "vi < 32" "d < length flags"
  shows "bit ((flags[i := (flags ! i) OR push_bit vi 1]) ! d) n
         \<longleftrightarrow> bit (flags ! d) n \<or> (d = i \<and> n = vi)"
proof (cases "d = i")
  case True
  with assms show ?thesis by (auto simp: bit_or_iff bit_exp_iff)
next
  case False
  with assms show ?thesis by simp
qed

text \<open>
  C2. When the bit of the requested (display, view) pair is not set in
  \<open>display_buffer_flags\<close>, \<open>colormanage_cache_get\<close> returns \<open>NULL\<close>, leaves the handle as it was
  and makes no call to the block cache. \<open>colormanage_cache_put\<close> sets that bit and leaves every
  other bit of the field as it was, and it puts under the key (view, display) a cache element
  that holds the display buffer, the dimensions of the image buffer and the snapshot of the
  request: its flag, look, exposure, gamma and dither, the address of its curve mapping and
  that curve mapping's timestamp (no address and the timestamp 0 without a curve mapping).
\<close>

theorem colormanage_cache_fast_reject_and_put:
  assumes flags: "display_buffer_flags ibuf = Some flags"
    and d: "1 \<le> cds_display ds" "cds_display ds \<le> int (length flags)"
    and v: "1 \<le> cvs_view vs" "cvs_view vs \<le> 31"
  shows "(\<not> bit (flags ! nat (cds_display ds - 1)) (nat (cvs_view vs - 1))
          \<longrightarrow> colormanage_cache_get ibuf vs ds handle = Inr (None, handle, []))
       \<and> (\<exists>ibuf' cached flags' mc'.
            colormanage_cache_put ibuf vs ds display_buffer =
              Inr (ibuf', cached,
                   [Call_IMB_moviecache_put
                      \<lparr>key_view = cvs_view vs, key_display = cds_display ds\<rparr>])
            \<and> cache_rect cached = display_buffer
            \<and> cache_x cached = ibuf_x ibuf \<and> cache_y cached = ibuf_y ibuf
            \<and> cache_data cached =
                Some \<lparr>cd_flag = cvs_flag vs, cd_look = cvs_look vs,
                      cd_exposure = cvs_exposure vs, cd_gamma = cvs_gamma vs,
                      cd_dither = cvs_dither vs,
                      cd_curve_mapping = map_option cumap_address (cvs_curve_mapping vs),
                      cd_curve_mapping_timestamp =
                        (case cvs_curve_mapping vs of
                           Some c \<Rightarrow> changed_timestamp c
                         | None \<Rightarrow> 0)\<rparr>
            \<and> display_buffer_flags ibuf' = Some flags'
            \<and> length flags' = length flags
            \<and> (\<forall>i < length flags. \<forall>n.
                  bit (flags' ! i) n \<longleftrightarrow>
                    bit (flags ! i) n
                    \<or> (i = nat (cds_display ds - 1) \<and> n = nat (cvs_view vs - 1)))
            \<and> colormanage_moviecache_get ibuf' = Some mc'
            \<and> mc' \<lparr>key_view = cvs_view vs, key_display = cds_display ds\<rparr> = Some cached)"
proof (rule conjI)
  show "\<not> bit (flags ! nat (cds_display ds - 1)) (nat (cvs_view vs - 1))
          \<longrightarrow> colormanage_cache_get ibuf vs ds handle = Inr (None, handle, [])"
    using get_fast_reject [OF flags d v] by blast
next
  let ?i = "nat (cds_display ds - 1)"
  let ?vi = "nat (cvs_view vs - 1)"
  let ?flags' = "flags[?i := (flags ! ?i) OR push_bit ?vi 1]"
  let ?cached = "\<lparr>cache_x = ibuf_x ibuf, cache_y = ibuf_y ibuf, cache_rect = display_buffer,
                   cache_data =
                     Some \<lparr>cd_flag = cvs_flag vs, cd_look = cvs_look vs,
                           cd_exposure = cvs_exposure vs, cd_gamma = cvs_gamma vs,
                           cd_dither = cvs_dither vs,
                           cd_curve_mapping = map_option cumap_address (cvs_curve_mapping vs),
                           cd_curve_mapping_timestamp =
                             (case cvs_curve_mapping vs of
                                Some c \<Rightarrow> changed_timestamp c
                              | None \<Rightarrow> 0)\<rparr>\<rparr>"
  from put_stored [OF flags d v, of display_buffer] obtain ibuf' mc' where
    put: "colormanage_cache_put ibuf vs ds display_buffer =
            Inr (ibuf', ?cached,
                 [Call_IMB_moviecache_put \<lparr>key_view = cvs_view vs, key_display = cds_display ds\<rparr>])"
    and fl: "display_buffer_flags ibuf' = Some ?flags'"
    and mc: "colormanage_moviecache_get ibuf' = Some mc'"
    and ent: "mc' \<lparr>key_view = cvs_view vs, key_display = cds_display ds\<rparr> = Some ?cached"
    by blast
  have i: "?i < length flags" using d by simp
  have vi: "?vi < 32" using v by simp
  have bits: "\<forall>j < length flags. \<forall>n.
                bit (?flags' ! j) n \<longleftrightarrow> bit (flags ! j) n \<or> (j = ?i \<and> n = ?vi)"
    using bit_set_in_flags [OF i vi] by blast
  show "\<exists>ibuf' cached flags' mc'.
            colormanage_cache_put ibuf vs ds display_buffer =
              Inr (ibuf', cached,
                   [Call_IMB_moviecache_put
                      \<lparr>key_view = cvs_view vs, key_display = cds_display ds\<rparr>])
            \<and> cache_rect cached = display_buffer
            \<and> cache_x cached = ibuf_x ibuf \<and> cache_y cached = ibuf_y ibuf
            \<and> cache_data cached =
                Some \<lparr>cd_flag = cvs_flag vs, cd_look = cvs_look vs,
                      cd_exposure = cvs_exposure vs, cd_gamma = cvs_gamma vs,
                      cd_dither = cvs_dither vs,
                      cd_curve_mapping = map_option cumap_address (cvs_curve_mapping vs),
                      cd_curve_mapping_timestamp =
                        (case cvs_curve_mapping vs of
                           Some c \<Rightarrow> changed_timestamp c
                         | None \<Rightarrow> 0)\<rparr>
            \<and> display_buffer_flags ibuf' = Some flags'
            \<and> length flags' = length flags
            \<and> (\<forall>i < length flags. \<forall>n.
                  bit (flags' ! i) n \<longleftrightarrow>
                    bit (flags ! i) n
                    \<or> (i = nat (cds_display ds - 1) \<and> n = nat (cvs_view vs - 1)))
            \<and> colormanage_moviecache_get ibuf' = Some mc'
            \<and> mc' \<lparr>key_view = cvs_view vs, key_display = cds_display ds\<rparr> = Some cached"
    apply (rule exI [of _ ibuf'])
    apply (rule exI [of _ ?cached])
    apply (rule exI [of _ ?flags'])
    apply (rule exI [of _ mc'])
    using put fl mc ent bits
    apply simp
    done
qed

theorem colormanage_cache_fast_reject_and_put_witness:
  "display_buffer_flags example_ImBuf = Some [6, 3]
   \<and> \<not> bit ([6, 3 :: 32 word] ! nat (cds_display example_graded_display_settings - 1))
           (nat (cvs_view example_graded_view_settings - 1))
   \<and> colormanage_cache_get example_ImBuf example_graded_view_settings
       example_graded_display_settings (Some example_cache_ImBuf)
     = Inr (None, Some example_cache_ImBuf, [])
   \<and> colormanage_cache_put example_ImBuf example_graded_view_settings
       example_graded_display_settings (replicate 32 9)
     = Inr (example_ImBuf
              \<lparr>display_buffer_flags := Some [6, 7],
               colormanage_cache :=
                 Some \<lparr>moviecache =
                   Some [\<lparr>key_view = 3, key_display = 2\<rparr> \<mapsto>
                           \<lparr>cache_x = 4, cache_y = 2, cache_rect = replicate 32 9,
                            cache_data =
                              Some \<lparr>cd_flag = 1, cd_look = 1, cd_exposure = 3 / 2,
                                    cd_gamma = 11 / 5, cd_dither = 1 / 2,
                                    cd_curve_mapping = Some 7,
                                    cd_curve_mapping_timestamp = 5\<rparr>\<rparr>]\<rparr>\<rparr>,
            \<lparr>cache_x = 4, cache_y = 2, cache_rect = replicate 32 9,
             cache_data =
               Some \<lparr>cd_flag = 1, cd_look = 1, cd_exposure = 3 / 2, cd_gamma = 11 / 5,
                     cd_dither = 1 / 2, cd_curve_mapping = Some 7,
                     cd_curve_mapping_timestamp = 5\<rparr>\<rparr>,
            [Call_IMB_moviecache_put \<lparr>key_view = 3, key_display = 2\<rparr>])
   \<and> (\<exists>ibuf' cached flags' mc'.
        colormanage_cache_put example_ImBuf example_graded_view_settings
          example_graded_display_settings (replicate 32 9)
        = Inr (ibuf', cached, [Call_IMB_moviecache_put \<lparr>key_view = 3, key_display = 2\<rparr>])
        \<and> cache_rect cached = replicate 32 9
        \<and> cache_data cached =
            Some \<lparr>cd_flag = 1, cd_look = 1, cd_exposure = 3 / 2, cd_gamma = 11 / 5,
                  cd_dither = 1 / 2, cd_curve_mapping = Some 7,
                  cd_curve_mapping_timestamp = 5\<rparr>
        \<and> display_buffer_flags ibuf' = Some flags'
        \<and> (\<forall>i < 2. \<forall>n. bit (flags' ! i) n \<longleftrightarrow> bit ([6, 3 :: 32 word] ! i) n \<or> (i = 1 \<and> n = 2))
        \<and> colormanage_moviecache_get ibuf' = Some mc'
        \<and> mc' \<lparr>key_view = 3, key_display = 2\<rparr> = Some cached)"
proof -
  have h1: "display_buffer_flags example_ImBuf = Some [6, 3]"
    by (simp add: example_ImBuf_def)
  have h2: "1 \<le> cds_display example_graded_display_settings"
           "cds_display example_graded_display_settings \<le> int (length [6 :: 32 word, 3])"
    by (simp_all add: example_graded_display_settings_def)
  have h3: "1 \<le> cvs_view example_graded_view_settings"
           "cvs_view example_graded_view_settings \<le> 31"
    by (simp_all add: example_graded_view_settings_def)
  have i: "nat (cds_display example_graded_display_settings - 1) = 1"
          "nat (cvs_view example_graded_view_settings - 1) = 2"
    by (simp_all add: example_graded_display_settings_def example_graded_view_settings_def)
  have h4: "\<not> bit ([6, 3 :: 32 word] ! nat (cds_display example_graded_display_settings - 1))
                (nat (cvs_view example_graded_view_settings - 1))"
    unfolding i by (simp add: bit_numeral_word_iff)
  have s: "cds_display example_graded_display_settings = 2"
    "cvs_view example_graded_view_settings = 3"
    "cvs_flag example_graded_view_settings = 1"
    "cvs_look example_graded_view_settings = 1"
    "cvs_exposure example_graded_view_settings = 3 / 2"
    "cvs_gamma example_graded_view_settings = 11 / 5"
    "cvs_dither example_graded_view_settings = 1 / 2"
    "cvs_curve_mapping example_graded_view_settings
       = Some \<lparr>cumap_address = 7, changed_timestamp = 5\<rparr>"
    by (simp_all add: example_graded_display_settings_def example_graded_view_settings_def)
  have p: "colormanage_cache_put example_ImBuf example_graded_view_settings
       example_graded_display_settings (replicate 32 9)
     = Inr (example_ImBuf
              \<lparr>display_buffer_flags := Some [6, 7],
               colormanage_cache :=
                 Some \<lparr>moviecache =
                   Some [\<lparr>key_view = 3, key_display = 2\<rparr> \<mapsto>
                           \<lparr>cache_x = 4, cache_y = 2, cache_rect = replicate 32 9,
                            cache_data =
                              Some \<lparr>cd_flag = 1, cd_look = 1, cd_exposure = 3 / 2,
                                    cd_gamma = 11 / 5, cd_dither = 1 / 2,
                                    cd_curve_mapping = Some 7,
                                    cd_curve_mapping_timestamp = 5\<rparr>\<rparr>]\<rparr>\<rparr>,
            \<lparr>cache_x = 4, cache_y = 2, cache_rect = replicate 32 9,
             cache_data =
               Some \<lparr>cd_flag = 1, cd_look = 1, cd_exposure = 3 / 2, cd_gamma = 11 / 5,
                     cd_dither = 1 / 2, cd_curve_mapping = Some 7,
                     cd_curve_mapping_timestamp = 5\<rparr>\<rparr>,
            [Call_IMB_moviecache_put \<lparr>key_view = 3, key_display = 2\<rparr>])"
    by (simp add: colormanage_cache_put_def view_flag_of_def colormanage_moviecache_ensure_def
          example_ImBuf_def example_graded_display_settings_def example_graded_view_settings_def
          colormanage_settings_to_key_def IMB_moviecache_put_def Let_def)
  have x: "ibuf_x example_ImBuf = 4" "ibuf_y example_ImBuf = 2"
    by (simp_all add: example_ImBuf_def)
  note t = colormanage_cache_fast_reject_and_put
             [OF h1 h2 h3, of "Some example_cache_ImBuf" "replicate 32 9"]
  from t h4 have g: "colormanage_cache_get example_ImBuf example_graded_view_settings
       example_graded_display_settings (Some example_cache_ImBuf)
     = Inr (None, Some example_cache_ImBuf, [])"
    by blast
  from t have e: "\<exists>ibuf' cached flags' mc'.
        colormanage_cache_put example_ImBuf example_graded_view_settings
          example_graded_display_settings (replicate 32 9)
        = Inr (ibuf', cached, [Call_IMB_moviecache_put \<lparr>key_view = 3, key_display = 2\<rparr>])
        \<and> cache_rect cached = replicate 32 9
        \<and> cache_data cached =
            Some \<lparr>cd_flag = 1, cd_look = 1, cd_exposure = 3 / 2, cd_gamma = 11 / 5,
                  cd_dither = 1 / 2, cd_curve_mapping = Some 7,
                  cd_curve_mapping_timestamp = 5\<rparr>
        \<and> display_buffer_flags ibuf' = Some flags'
        \<and> (\<forall>i < 2. \<forall>n. bit (flags' ! i) n \<longleftrightarrow> bit ([6, 3 :: 32 word] ! i) n \<or> (i = 1 \<and> n = 2))
        \<and> colormanage_moviecache_get ibuf' = Some mc'
        \<and> mc' \<lparr>key_view = 3, key_display = 2\<rparr> = Some cached"
    unfolding i s x
    apply (elim conjE exE)
    subgoal for ibuf' cached flags' mc'
      apply (rule exI [of _ ibuf'])
      apply (rule exI [of _ cached])
      apply (rule exI [of _ flags'])
      apply (rule exI [of _ mc'])
      apply simp
      done
    done
  from h1 h4 g p e show ?thesis by (simp only: simp_thms)
qed

subsection \<open>Partial update: the bit field\<close>

lemma seq_Inr: "seq r f = Inr v \<Longrightarrow> \<exists>u. r = Inr u \<and> f u = Inr v"
  by (cases r) (simp_all add: seq_def)

lemma cache_get_calls:
  assumes "colormanage_cache_get ibuf vs ds h = Inr (r, h', calls)"
  shows "Call_IMB_processor_apply_threaded_scanlines n \<notin> set calls
         \<and> Call_IMB_moviecache_put k \<notin> set calls"
  using assms unfolding colormanage_cache_get_def Let_def
  by (auto split: sum.splits option.splits if_splits)

lemma lookup_noflags:
  "display_buffer_flags ibuf = None
     \<Longrightarrow> partial_display_buffer_lookup g ibuf vs ds = Inr (ibuf, None, None, [])"
  by (simp add: partial_display_buffer_lookup_def)

lemma lookup_flags:
  assumes "partial_display_buffer_lookup g ibuf vs ds = Inr (ibuf1, db, h, calls)"
    and "display_buffer_flags ibuf = Some flags"
  shows "0 \<le> global_tot_display g \<and> nat (global_tot_display g) \<le> length flags
       \<and> 1 \<le> cds_display (colormanage_display_settings_to_cache g ds)
       \<and> cds_display (colormanage_display_settings_to_cache g ds) \<le> int (length flags)
       \<and> 1 \<le> cvs_view (colormanage_view_settings_to_cache g ibuf vs)
       \<and> cvs_view (colormanage_view_settings_to_cache g ibuf vs) \<le> 31
       \<and> ibuf1 = ibuf\<lparr>display_buffer_flags :=
            Some ((replicate (nat (global_tot_display g)) 0 @ drop (nat (global_tot_display g)) flags)
                  [nat (cds_display (colormanage_display_settings_to_cache g ds) - 1) :=
                     ((replicate (nat (global_tot_display g)) 0
                         @ drop (nat (global_tot_display g)) flags)
                      ! nat (cds_display (colormanage_display_settings_to_cache g ds) - 1))
                     OR push_bit (nat (cvs_view (colormanage_view_settings_to_cache g ibuf vs) - 1)) 1])\<rparr>
       \<and> Call_IMB_processor_apply_threaded_scanlines n \<notin> set calls
       \<and> Call_IMB_moviecache_put k \<notin> set calls"
  using assms cache_get_calls [of ibuf "colormanage_view_settings_to_cache g ibuf vs"
                               "colormanage_display_settings_to_cache g ds" None _ _ calls n k]
  unfolding partial_display_buffer_lookup_def Let_def seq_def view_flag_of_def
  by (auto split: sum.splits if_splits)

text \<open>With the indices in range, the first block returns whenever the cache is not asked
  (the image buffer is marked \<open>IB_DISPLAY_BUFFER_INVALID\<close>) or the cache lookup misses.\<close>

lemma lookup_miss_returns:
  assumes flags: "display_buffer_flags ibuf = Some flags"
    and di: "1 \<le> IMB_colormanagement_display_get_named_index g (ds_display_device ds)"
            "IMB_colormanagement_display_get_named_index g (ds_display_device ds)
               \<le> int (length flags)"
    and vi: "1 \<le> IMB_colormanagement_view_get_named_index g (vs_view_transform vs)"
            "IMB_colormanagement_view_get_named_index g (vs_view_transform vs) \<le> 31"
    and tot: "0 \<le> global_tot_display g" "global_tot_display g \<le> int (length flags)"
    and miss: "ibuf_userflags ibuf AND IB_DISPLAY_BUFFER_INVALID = 0
               \<Longrightarrow> colormanage_cache_get ibuf (colormanage_view_settings_to_cache g ibuf vs)
                     (colormanage_display_settings_to_cache g ds) None = Inr (None, h, c)"
  shows "\<exists>ibuf1 h1 c1. partial_display_buffer_lookup g ibuf vs ds = Inr (ibuf1, None, h1, c1)"
proof -
  have cds: "cds_display (colormanage_display_settings_to_cache g ds)
               = IMB_colormanagement_display_get_named_index g (ds_display_device ds)"
    by (simp add: colormanage_display_settings_to_cache_def)
  have cvs: "cvs_view (colormanage_view_settings_to_cache g ibuf vs)
               = IMB_colormanagement_view_get_named_index g (vs_view_transform vs)"
    by (simp add: colormanage_view_settings_to_cache_def)
  have vf: "view_flag_of (IMB_colormanagement_view_get_named_index g (vs_view_transform vs))
            = Inr (push_bit (nat (IMB_colormanagement_view_get_named_index g
                                    (vs_view_transform vs) - 1)) 1)"
    using vi by (simp add: view_flag_of_def)
  have t: "nat (global_tot_display g) \<le> length flags" using tot by simp
  show ?thesis
  proof (cases "ibuf_userflags ibuf AND IB_DISPLAY_BUFFER_INVALID = 0")
    case True
    from miss [OF True] True show ?thesis
      unfolding partial_display_buffer_lookup_def flags
      using di tot(1) t by (simp add: seq_def Let_def cds cvs vf)
  next
    case False
    then show ?thesis
      unfolding partial_display_buffer_lookup_def flags
      using di tot(1) t by (simp add: seq_def Let_def cds cvs vf)
  qed
qed

lemma ex_miss:
  "partial_display_buffer_lookup g ibuf vs ds = Inr (ibuf1, None, h, calls)
   \<Longrightarrow> imb_partial_display_buffer_update_ex P E g ibuf lb bb stride ox oy vs ds
         xmin ymin xmax ymax do_threads = Inr (ibuf1, calls)"
  by (simp add: imb_partial_display_buffer_update_ex_def seq_def)

lemma threaded_miss:
  assumes "partial_display_buffer_lookup g ibuf vs ds = Inr (ibuf1, None, h, calls)"
    and "- (2 ^ 31) \<le> xmax - xmin" "xmax - xmin < 2 ^ 31"
        "- (2 ^ 31) \<le> ymax - ymin" "ymax - ymin < 2 ^ 31"
  shows "IMB_partial_display_buffer_update_threaded P E g ibuf lb bb stride ox oy vs ds
           xmin ymin xmax ymax = Inr (ibuf1, calls)"
  unfolding IMB_partial_display_buffer_update_threaded_def Let_def
  using assms(2-) by (simp add: ex_miss [OF assms(1)])

lemma store_flags:
  "display_buffer_flags (store_display_buffer ibuf key db) = display_buffer_flags ibuf"
  by (simp add: store_display_buffer_def split: option.splits)

lemma ex_hit:
  assumes "partial_display_buffer_lookup g ibuf vs ds = Inr (ibuf1, Some db, h, c)"
    and "imb_partial_display_buffer_update_ex P E g ibuf lb bb stride ox oy vs ds
           xmin ymin xmax ymax do_threads = Inr (ibuf', calls)"
  shows "\<exists>db' tail. ibuf' = store_display_buffer ibuf1
                       (colormanage_settings_to_key (colormanage_view_settings_to_cache g ibuf vs)
                          (colormanage_display_settings_to_cache g ds)) db'
           \<and> calls = c @ (if do_threads
                           then [Call_IMB_processor_apply_threaded_scanlines (ymax - ymin)]
                           else [])
                       @ tail
           \<and> (\<forall>n. Call_IMB_processor_apply_threaded_scanlines n \<notin> set tail)
           \<and> (\<forall>k. Call_IMB_moviecache_put k \<notin> set tail)"
  using assms(2) unfolding imb_partial_display_buffer_update_ex_def assms(1)
  by (auto simp: seq_def Let_def split: sum.splits option.splits if_splits)

lemma flags_bits:
  fixes flags :: "32 word list"
  assumes "tot \<le> length flags" "i < length flags" "vi < 32"
  defines "cleared \<equiv> replicate tot 0 @ drop tot flags"
  defines "flags' \<equiv> cleared[i := (cleared ! i) OR push_bit vi 1]"
  shows "length flags' = length flags"
    and "bit (flags' ! i) vi"
    and "d < tot \<Longrightarrow> bit (flags' ! d) v \<longleftrightarrow> (d = i \<and> v = vi)"
proof -
  have len: "length cleared = length flags"
    using assms(1) by (simp add: cleared_def)
  then show "length flags' = length flags" by (simp add: flags'_def)
  show "bit (flags' ! i) vi"
    using assms(2,3) len by (simp add: flags'_def bit_or_iff bit_exp_iff)
  assume d: "d < tot"
  then have z: "cleared ! d = 0" by (simp add: cleared_def nth_append)
  show "bit (flags' ! d) v \<longleftrightarrow> (d = i \<and> v = vi)"
  proof (cases "d = i")
    case True
    with z assms(2,3) len show ?thesis
      by (auto simp: flags'_def bit_or_iff bit_exp_iff)
  next
    case False
    with z show ?thesis by (simp add: flags'_def)
  qed
qed

lemma ex_lookup:
  assumes "imb_partial_display_buffer_update_ex P E g ibuf lb bb stride ox oy vs ds
             xmin ymin xmax ymax do_threads = Inr (ibuf', calls)"
  shows "\<exists>ibuf1 db h c. partial_display_buffer_lookup g ibuf vs ds = Inr (ibuf1, db, h, c)
           \<and> display_buffer_flags ibuf' = display_buffer_flags ibuf1"
proof -
  from assms obtain u where
    u: "partial_display_buffer_lookup g ibuf vs ds = Inr u"
    unfolding imb_partial_display_buffer_update_ex_def by (auto dest!: seq_Inr)
  obtain ibuf1 db h c where ue: "u = (ibuf1, db, h, c)" by (cases u) auto
  show ?thesis
  proof (cases db)
    case None
    with u ue have "partial_display_buffer_lookup g ibuf vs ds = Inr (ibuf1, None, h, c)" by simp
    from ex_miss [OF this] assms have "ibuf' = ibuf1" by simp
    with u ue show ?thesis by simp
  next
    case (Some b)
    with u ue have l: "partial_display_buffer_lookup g ibuf vs ds = Inr (ibuf1, Some b, h, c)"
      by simp
    from ex_hit [OF l assms] l show ?thesis by (auto simp: store_flags)
  qed
qed

lemma threaded_as_ex:
  assumes "IMB_partial_display_buffer_update_threaded P E g ibuf lb bb stride ox oy vs ds
             xmin ymin xmax ymax = Inr r"
  shows "\<exists>do_threads. imb_partial_display_buffer_update_ex P E g ibuf lb bb stride ox oy vs ds
             xmin ymin xmax ymax do_threads = Inr r"
  using assms unfolding IMB_partial_display_buffer_update_threaded_def Let_def
  by (auto split: if_splits)

lemma do_threads_area:
  assumes "0 \<le> w" "w < 2 ^ 31" "0 \<le> h" "h < 2 ^ 31"
  shows "((word_of_int w :: 64 word) * word_of_int h \<ge> 64 * 64) = (w * h \<ge> 64 * 64)"
proof -
  have "w * h \<le> 2 ^ 31 * 2 ^ 31"
    using assms by (intro mult_mono) auto
  then have lt: "w * h < 2 ^ 64" by simp
  have nn: "0 \<le> w * h" using assms by simp
  have uw: "uint (word_of_int w :: 64 word) = w"
    using assms(1,2) by (simp add: uint_word_of_int_eq take_bit_int_eq_self)
  have uh: "uint (word_of_int h :: 64 word) = h"
    using assms(3,4) by (simp add: uint_word_of_int_eq take_bit_int_eq_self)
  have "uint ((word_of_int w :: 64 word) * word_of_int h) = (w * h) mod 2 ^ 64"
    by (simp add: uint_word_ariths uw uh)
  also have "\<dots> = w * h" using lt nn by simp
  finally have u: "uint ((word_of_int w :: 64 word) * word_of_int h) = w * h" .
  have "((64 * 64 :: 64 word) \<le> word_of_int w * word_of_int h)
          = (uint (64 * 64 :: 64 word) \<le> uint ((word_of_int w :: 64 word) * word_of_int h))"
    by (rule word_le_def)
  also have "\<dots> = (64 * 64 \<le> w * h)"
    unfolding u by simp
  finally show ?thesis .
qed

text \<open>The update of the whole row of the wide example buffer, from a byte buffer that holds 7
  everywhere: the byte buffer is in display space, so the row is copied; the region has
  \<open>4096 = 64 * 64\<close> pixels.\<close>

lemma example_wide_rect:
  "partial_buffer_update_rect example_pixel_ops example_engine
     (example_wide_ImBuf\<lparr>display_buffer_flags := Some [1, 0]\<rparr>) (replicate 16384 0) None
     (Some (replicate 16384 7)) 4096 4096 0 0 None 0 0 4096 1
   = Inr (replicate 16384 7)"
  by (simp add: partial_buffer_update_rect_def example_wide_ImBuf_def Let_def seq_def upto_rec1
        peek_def poke_def del: replicate.simps)

lemma example_wide_ex:
  "imb_partial_display_buffer_update_ex example_pixel_ops example_engine example_globals
     example_wide_ImBuf None (Some (replicate 16384 7)) 4096 0 0 example_view_settings
     example_display_settings 0 0 4096 1 True
   = Inr (example_wide_ImBuf
            \<lparr>display_buffer_flags := Some [1, 0],
             colormanage_cache :=
               Some \<lparr>moviecache =
                 Some [example_key \<mapsto>
                         example_wide_cache_ImBuf\<lparr>cache_rect := replicate 16384 7\<rparr>]\<rparr>\<rparr>,
          [Call_IMB_moviecache_get example_key,
           Call_IMB_processor_apply_threaded_scanlines 1,
           Call_IMB_freeImBuf (example_wide_cache_ImBuf\<lparr>cache_rect := replicate 16384 7\<rparr>)])"
proof -
  have sp: "is_ibuf_rect_in_display_space example_engine example_globals
              (example_wide_ImBuf\<lparr>display_buffer_flags := Some [1, 0]\<rparr>)
              example_view_settings example_display_settings = Inr True"
    by (simp add: is_ibuf_rect_in_display_space_def example_view_settings_def
          example_wide_ImBuf_def example_engine_def colormanage_look_get_named_def
          example_globals_def example_look_def Let_def)
  have x: "ibuf_x (example_wide_ImBuf\<lparr>display_buffer_flags := Some [1, 0]\<rparr>) = 4096"
    by (simp add: example_wide_ImBuf_def)
  have k: "colormanage_settings_to_key example_cache_view_settings
             example_cache_display_settings = example_key"
    by (simp add: colormanage_settings_to_key_def example_key_def
          example_cache_view_settings_def example_cache_display_settings_def)
  have st: "store_display_buffer (example_wide_ImBuf\<lparr>display_buffer_flags := Some [1, 0]\<rparr>)
              example_key (replicate 16384 7)
            = example_wide_ImBuf
                \<lparr>display_buffer_flags := Some [1, 0],
                 colormanage_cache :=
                   Some \<lparr>moviecache =
                     Some [example_key \<mapsto>
                             example_wide_cache_ImBuf\<lparr>cache_rect := replicate 16384 7\<rparr>]\<rparr>\<rparr>"
    by (simp add: store_display_buffer_def colormanage_moviecache_get_def example_wide_ImBuf_def
          del: replicate.simps)
  show ?thesis
    unfolding imb_partial_display_buffer_update_ex_def example_wide_lookup_hit
    by (simp add: seq_def Let_def sp x upto_rec1 IMB_processor_apply_threaded_scanlines_def
          partial_buffer_update_rect_thread_do_def example_wide_rect example_to_cache k st
          del: replicate.simps)
qed

lemma example_wide_threaded:
  "IMB_partial_display_buffer_update_threaded example_pixel_ops example_engine example_globals
     example_wide_ImBuf None (Some (replicate 16384 7)) 4096 0 0 example_view_settings
     example_display_settings 0 0 4096 1
   = Inr (example_wide_ImBuf
            \<lparr>display_buffer_flags := Some [1, 0],
             colormanage_cache :=
               Some \<lparr>moviecache =
                 Some [example_key \<mapsto>
                         example_wide_cache_ImBuf\<lparr>cache_rect := replicate 16384 7\<rparr>]\<rparr>\<rparr>,
          [Call_IMB_moviecache_get example_key,
           Call_IMB_processor_apply_threaded_scanlines 1,
           Call_IMB_freeImBuf (example_wide_cache_ImBuf\<lparr>cache_rect := replicate 16384 7\<rparr>)])"
proof -
  have dt: "((word_of_int (4096 - 0) :: 64 word) * word_of_int (1 - 0) \<ge> 64 * 64) = True"
    using do_threads_area [of "4096 - 0" "1 - 0"] by simp
  show ?thesis
    unfolding IMB_partial_display_buffer_update_threaded_def Let_def dt
    by (simp add: example_wide_ex)
qed

text \<open>
  C3. For an image buffer whose \<open>display_buffer_flags\<close> exists: whenever
  \<open>IMB_partial_display_buffer_update\<close> or its threaded variant returns, the bit of the
  requested view in the element of the requested display is set, and among the elements of
  the displays \<open>0 \<le> d < global_tot_display\<close> no other bit is set. And both variants do return,
  with the same result, when the indices of the request are in range (display index from 1
  to the length of the bit field, view index from 1 to 31, \<open>global_tot_display\<close> at most the
  length of the bit field, the sides of the rectangle within the \<open>int\<close> range) and the cache
  is not asked or its lookup misses.
\<close>

theorem partial_update_invalidates_other_buffers:
  assumes flags: "display_buffer_flags ibuf = Some flags"
  shows "(IMB_partial_display_buffer_update P E g ibuf lb bb stride ox oy vs ds
            xmin ymin xmax ymax = Inr (ibuf', calls)
          \<or> IMB_partial_display_buffer_update_threaded P E g ibuf lb bb stride ox oy vs ds
            xmin ymin xmax ymax = Inr (ibuf', calls)
          \<longrightarrow> (\<exists>flags'. display_buffer_flags ibuf' = Some flags'
                 \<and> length flags' = length flags
                 \<and> bit (flags' ! nat (IMB_colormanagement_display_get_named_index g
                                         (ds_display_device ds) - 1))
                        (nat (IMB_colormanagement_view_get_named_index g
                                (vs_view_transform vs) - 1))
                 \<and> (\<forall>d < nat (global_tot_display g). \<forall>v.
                       bit (flags' ! d) v \<longleftrightarrow>
                         (d = nat (IMB_colormanagement_display_get_named_index g
                                     (ds_display_device ds) - 1)
                          \<and> v = nat (IMB_colormanagement_view_get_named_index g
                                       (vs_view_transform vs) - 1)))))
       \<and> (1 \<le> IMB_colormanagement_display_get_named_index g (ds_display_device ds)
          \<and> IMB_colormanagement_display_get_named_index g (ds_display_device ds)
              \<le> int (length flags)
          \<and> 1 \<le> IMB_colormanagement_view_get_named_index g (vs_view_transform vs)
          \<and> IMB_colormanagement_view_get_named_index g (vs_view_transform vs) \<le> 31
          \<and> 0 \<le> global_tot_display g \<and> global_tot_display g \<le> int (length flags)
          \<and> - (2 ^ 31) \<le> xmax - xmin \<and> xmax - xmin < 2 ^ 31
          \<and> - (2 ^ 31) \<le> ymax - ymin \<and> ymax - ymin < 2 ^ 31
          \<and> (ibuf_userflags ibuf AND IB_DISPLAY_BUFFER_INVALID = 0
             \<longrightarrow> colormanage_cache_get ibuf (colormanage_view_settings_to_cache g ibuf vs)
                   (colormanage_display_settings_to_cache g ds) None = Inr (None, h, c))
          \<longrightarrow> (\<exists>ibuf1 calls1.
                 IMB_partial_display_buffer_update P E g ibuf lb bb stride ox oy vs ds
                   xmin ymin xmax ymax = Inr (ibuf1, calls1)
                 \<and> IMB_partial_display_buffer_update_threaded P E g ibuf lb bb stride ox oy vs ds
                     xmin ymin xmax ymax = Inr (ibuf1, calls1)))"
proof (intro conjI impI)
  assume upd: "IMB_partial_display_buffer_update P E g ibuf lb bb stride ox oy vs ds
                  xmin ymin xmax ymax = Inr (ibuf', calls)
                \<or> IMB_partial_display_buffer_update_threaded P E g ibuf lb bb stride ox oy vs ds
                  xmin ymin xmax ymax = Inr (ibuf', calls)"
  from upd have "\<exists>do_threads. imb_partial_display_buffer_update_ex P E g ibuf lb bb stride ox oy
           vs ds xmin ymin xmax ymax do_threads = Inr (ibuf', calls)"
  proof
    assume "IMB_partial_display_buffer_update P E g ibuf lb bb stride ox oy vs ds
              xmin ymin xmax ymax = Inr (ibuf', calls)"
    then show ?thesis unfolding IMB_partial_display_buffer_update_def by blast
  next
    assume "IMB_partial_display_buffer_update_threaded P E g ibuf lb bb stride ox oy vs ds
              xmin ymin xmax ymax = Inr (ibuf', calls)"
    then show ?thesis by (rule threaded_as_ex)
  qed
  then obtain do_threads where
    ex: "imb_partial_display_buffer_update_ex P E g ibuf lb bb stride ox oy vs ds
           xmin ymin xmax ymax do_threads = Inr (ibuf', calls)"
    by blast
  from ex_lookup [OF ex] obtain ibuf1 db h c where
    l: "partial_display_buffer_lookup g ibuf vs ds = Inr (ibuf1, db, h, c)"
    and f: "display_buffer_flags ibuf' = display_buffer_flags ibuf1"
    by blast
  let ?di = "nat (IMB_colormanagement_display_get_named_index g (ds_display_device ds) - 1)"
  let ?vi = "nat (IMB_colormanagement_view_get_named_index g (vs_view_transform vs) - 1)"
  let ?tot = "nat (global_tot_display g)"
  let ?cleared = "replicate ?tot (0::32 word) @ drop ?tot flags"
  let ?flags' = "?cleared[?di := (?cleared ! ?di) OR push_bit ?vi 1]"
  have cds: "cds_display (colormanage_display_settings_to_cache g ds)
               = IMB_colormanagement_display_get_named_index g (ds_display_device ds)"
    by (simp add: colormanage_display_settings_to_cache_def)
  have cvs: "cvs_view (colormanage_view_settings_to_cache g ibuf vs)
               = IMB_colormanagement_view_get_named_index g (vs_view_transform vs)"
    by (simp add: colormanage_view_settings_to_cache_def)
  from lookup_flags [OF l flags, of 0 "\<lparr>key_view = 0, key_display = 0\<rparr>"]
  have tot: "?tot \<le> length flags" and di: "?di < length flags" and vi: "?vi < 32"
    and r: "display_buffer_flags ibuf1 = Some ?flags'"
    unfolding cds cvs by auto
  from flags_bits [OF tot di vi] f r
  show "\<exists>flags'. display_buffer_flags ibuf' = Some flags'
           \<and> length flags' = length flags
           \<and> bit (flags' ! ?di) ?vi
           \<and> (\<forall>d < ?tot. \<forall>v. bit (flags' ! d) v \<longleftrightarrow> (d = ?di \<and> v = ?vi))"
    by auto
next
  assume pre: "1 \<le> IMB_colormanagement_display_get_named_index g (ds_display_device ds)
          \<and> IMB_colormanagement_display_get_named_index g (ds_display_device ds)
              \<le> int (length flags)
          \<and> 1 \<le> IMB_colormanagement_view_get_named_index g (vs_view_transform vs)
          \<and> IMB_colormanagement_view_get_named_index g (vs_view_transform vs) \<le> 31
          \<and> 0 \<le> global_tot_display g \<and> global_tot_display g \<le> int (length flags)
          \<and> - (2 ^ 31) \<le> xmax - xmin \<and> xmax - xmin < 2 ^ 31
          \<and> - (2 ^ 31) \<le> ymax - ymin \<and> ymax - ymin < 2 ^ 31
          \<and> (ibuf_userflags ibuf AND IB_DISPLAY_BUFFER_INVALID = 0
             \<longrightarrow> colormanage_cache_get ibuf (colormanage_view_settings_to_cache g ibuf vs)
                   (colormanage_display_settings_to_cache g ds) None = Inr (None, h, c))"
  then have "\<exists>ibuf1 h1 c1. partial_display_buffer_lookup g ibuf vs ds = Inr (ibuf1, None, h1, c1)"
    by (intro lookup_miss_returns [OF flags, where h = h and c = c]) simp_all
  then obtain ibuf1 h1 c1 where
    l: "partial_display_buffer_lookup g ibuf vs ds = Inr (ibuf1, None, h1, c1)"
    by blast
  have a: "IMB_partial_display_buffer_update P E g ibuf lb bb stride ox oy vs ds
             xmin ymin xmax ymax = Inr (ibuf1, c1)"
    unfolding IMB_partial_display_buffer_update_def by (rule ex_miss [OF l])
  have b: "IMB_partial_display_buffer_update_threaded P E g ibuf lb bb stride ox oy vs ds
             xmin ymin xmax ymax = Inr (ibuf1, c1)"
    using pre by (intro threaded_miss [OF l]) simp_all
  from a b show "\<exists>ibuf1 calls1.
                 IMB_partial_display_buffer_update P E g ibuf lb bb stride ox oy vs ds
                   xmin ymin xmax ymax = Inr (ibuf1, calls1)
                 \<and> IMB_partial_display_buffer_update_threaded P E g ibuf lb bb stride ox oy vs ds
                     xmin ymin xmax ymax = Inr (ibuf1, calls1)"
    by blast
qed

theorem partial_update_invalidates_other_buffers_witness:
  "display_buffer_flags example_wide_ImBuf = Some [7, 3]
   \<and> IMB_partial_display_buffer_update_threaded example_pixel_ops example_engine example_globals
       example_wide_ImBuf None (Some (replicate 16384 7)) 4096 0 0 example_view_settings
       example_display_settings 0 0 4096 1
     = Inr (example_wide_ImBuf
              \<lparr>display_buffer_flags := Some [1, 0],
               colormanage_cache :=
                 Some \<lparr>moviecache =
                   Some [example_key \<mapsto>
                           example_wide_cache_ImBuf\<lparr>cache_rect := replicate 16384 7\<rparr>]\<rparr>\<rparr>,
            [Call_IMB_moviecache_get example_key,
             Call_IMB_processor_apply_threaded_scanlines 1,
             Call_IMB_freeImBuf (example_wide_cache_ImBuf\<lparr>cache_rect := replicate 16384 7\<rparr>)])
   \<and> bit ([7, 3 :: 32 word] ! 0) 1 \<and> \<not> bit ([1, 0 :: 32 word] ! 0) 1
   \<and> bit ([7, 3 :: 32 word] ! 0) 2 \<and> \<not> bit ([1, 0 :: 32 word] ! 0) 2
   \<and> bit ([7, 3 :: 32 word] ! 1) 0 \<and> \<not> bit ([1, 0 :: 32 word] ! 1) 0
   \<and> bit ([7, 3 :: 32 word] ! 1) 1 \<and> \<not> bit ([1, 0 :: 32 word] ! 1) 1
   \<and> bit ([1, 0 :: 32 word] ! 0) 0
   \<and> display_buffer_flags example_ImBuf = Some [6, 3]
   \<and> colormanage_cache_get example_ImBuf
       (colormanage_view_settings_to_cache example_globals example_ImBuf example_view_settings)
       (colormanage_display_settings_to_cache example_globals example_display_settings) None
     = Inr (None, None, [])
   \<and> (\<exists>ibuf1 calls1.
        IMB_partial_display_buffer_update example_pixel_ops example_engine example_globals
          example_ImBuf None None 4 0 0 example_view_settings example_display_settings 0 0 4 2
        = Inr (ibuf1, calls1)
        \<and> IMB_partial_display_buffer_update_threaded example_pixel_ops example_engine
            example_globals example_ImBuf None None 4 0 0 example_view_settings
            example_display_settings 0 0 4 2
          = Inr (ibuf1, calls1)
        \<and> (\<exists>flags'. display_buffer_flags ibuf1 = Some flags' \<and> length flags' = 2
              \<and> (\<forall>d < 2. \<forall>v. bit (flags' ! d) v \<longleftrightarrow> (d = 0 \<and> v = 0))))"
proof -
  let ?wide' = "example_wide_ImBuf
              \<lparr>display_buffer_flags := Some [1, 0],
               colormanage_cache :=
                 Some \<lparr>moviecache =
                   Some [example_key \<mapsto>
                           example_wide_cache_ImBuf\<lparr>cache_rect := replicate 16384 7\<rparr>]\<rparr>\<rparr>"
  have fw: "display_buffer_flags example_wide_ImBuf = Some [7, 3]"
    by (simp add: example_wide_ImBuf_def)
  have fm: "display_buffer_flags example_ImBuf = Some [6, 3]"
    by (simp add: example_ImBuf_def)
  have t: "nat (global_tot_display example_globals) = 2" "global_tot_display example_globals = 2"
    by (simp_all add: example_globals_def)
  have s: "ds_display_device example_display_settings = ''sRGB''"
          "vs_view_transform example_view_settings = ''Standard''"
    by (simp_all add: example_display_settings_def example_view_settings_def)
  have fw': "display_buffer_flags ?wide' = Some [1, 0]" by simp
  have b: "bit ([7, 3 :: 32 word] ! 0) 1" "bit ([7, 3 :: 32 word] ! 0) 2"
    "bit ([7, 3 :: 32 word] ! 1) 0" "bit ([7, 3 :: 32 word] ! 1) 1"
    by (simp_all add: bit_numeral_word_iff)
  have g: "colormanage_cache_get example_ImBuf
       (colormanage_view_settings_to_cache example_globals example_ImBuf example_view_settings)
       (colormanage_display_settings_to_cache example_globals example_display_settings) None
     = Inr (None, None, [])"
    by (simp add: example_to_cache example_get_miss)
  have w: "\<forall>d < 2. \<forall>v. bit ([1, 0 :: 32 word] ! d) v \<longleftrightarrow> (d = 0 \<and> v = 0)"
    using partial_update_invalidates_other_buffers
            [OF fw, THEN conjunct1, rule_format, OF disjI2, OF example_wide_threaded]
    unfolding t s example_indices fw' by simp
  have w0: "\<not> bit ([1, 0 :: 32 word] ! 0) 1" "\<not> bit ([1, 0 :: 32 word] ! 0) 2"
    "bit ([1, 0 :: 32 word] ! 0) 0"
    using w [rule_format, of 0 1] w [rule_format, of 0 2] w [rule_format, of 0 0] by simp_all
  have w1: "\<not> bit ([1, 0 :: 32 word] ! 1) 0" "\<not> bit ([1, 0 :: 32 word] ! 1) 1"
    using w [rule_format, of 1 0] w [rule_format, of 1 1] by simp_all
  note m0 = partial_update_invalidates_other_buffers
            [OF fm, where g = example_globals and ds = example_display_settings
               and vs = example_view_settings and xmin = 0 and xmax = 4 and ymin = 0
               and ymax = 2 and h = None and c = "[]" and P = example_pixel_ops
               and E = example_engine and lb = None and bb = None and stride = 4
               and ox = 0 and oy = 0]
  from m0 g have m: "\<exists>ibuf1 calls1.
        IMB_partial_display_buffer_update example_pixel_ops example_engine example_globals
          example_ImBuf None None 4 0 0 example_view_settings example_display_settings 0 0 4 2
        = Inr (ibuf1, calls1)
        \<and> IMB_partial_display_buffer_update_threaded example_pixel_ops example_engine
            example_globals example_ImBuf None None 4 0 0 example_view_settings
            example_display_settings 0 0 4 2
          = Inr (ibuf1, calls1)"
    unfolding t s example_indices by simp
  then obtain ibuf1 calls1 where
    u: "IMB_partial_display_buffer_update example_pixel_ops example_engine example_globals
          example_ImBuf None None 4 0 0 example_view_settings example_display_settings 0 0 4 2
        = Inr (ibuf1, calls1)"
    and ut: "IMB_partial_display_buffer_update_threaded example_pixel_ops example_engine
            example_globals example_ImBuf None None 4 0 0 example_view_settings
            example_display_settings 0 0 4 2
          = Inr (ibuf1, calls1)"
    by blast
  have "\<exists>flags'. display_buffer_flags ibuf1 = Some flags' \<and> length flags' = 2
              \<and> (\<forall>d < 2. \<forall>v. bit (flags' ! d) v \<longleftrightarrow> (d = 0 \<and> v = 0))"
    using partial_update_invalidates_other_buffers
            [OF fm, THEN conjunct1, rule_format, OF disjI1, OF u]
    unfolding t s example_indices by auto
  with u ut have e: "\<exists>ibuf1 calls1.
        IMB_partial_display_buffer_update example_pixel_ops example_engine example_globals
          example_ImBuf None None 4 0 0 example_view_settings example_display_settings 0 0 4 2
        = Inr (ibuf1, calls1)
        \<and> IMB_partial_display_buffer_update_threaded example_pixel_ops example_engine
            example_globals example_ImBuf None None 4 0 0 example_view_settings
            example_display_settings 0 0 4 2
          = Inr (ibuf1, calls1)
        \<and> (\<exists>flags'. display_buffer_flags ibuf1 = Some flags' \<and> length flags' = 2
              \<and> (\<forall>d < 2. \<forall>v. bit (flags' ! d) v \<longleftrightarrow> (d = 0 \<and> v = 0)))"
    by blast
  from fw example_wide_threaded w0 w1 b fm g e show ?thesis by (simp only: simp_thms)
qed

subsection \<open>Partial update: a lookup that misses\<close>

text \<open>
  C4 (as amended). When the lookup of the partial update finds no display buffer, the update
  returns at once, in both variants: no processor is created, no pixel is written, nothing is
  put into the block cache and nothing is handed to the thread pool, and every field of the
  image buffer other than \<open>display_buffer_flags\<close> is as it was. When the bit field does not
  exist the image buffer is unchanged altogether. When it exists, it keeps its length, the
  bits of every other (display, view) pair among the displays \<open>0 \<le> d < global_tot_display\<close>
  are cleared, and the elements from \<open>global_tot_display\<close> on, the requested display's
  apart, are as they were. Nothing is said of the bit of the requested pair.
\<close>

theorem partial_update_on_miss:
  assumes "partial_display_buffer_lookup g ibuf vs ds = Inr (ibuf1, None, h, calls)"
  shows "imb_partial_display_buffer_update_ex P E g ibuf lb bb stride ox oy vs ds
           xmin ymin xmax ymax do_threads = Inr (ibuf1, calls)
       \<and> IMB_partial_display_buffer_update P E g ibuf lb bb stride ox oy vs ds
           xmin ymin xmax ymax = Inr (ibuf1, calls)
       \<and> (- (2 ^ 31) \<le> xmax - xmin \<and> xmax - xmin < 2 ^ 31
          \<and> - (2 ^ 31) \<le> ymax - ymin \<and> ymax - ymin < 2 ^ 31
          \<longrightarrow> IMB_partial_display_buffer_update_threaded P E g ibuf lb bb stride ox oy vs ds
                xmin ymin xmax ymax = Inr (ibuf1, calls))
       \<and> ibuf1 = ibuf\<lparr>display_buffer_flags := display_buffer_flags ibuf1\<rparr>
       \<and> (display_buffer_flags ibuf = None \<longrightarrow> ibuf1 = ibuf \<and> calls = [])
       \<and> (display_buffer_flags ibuf = Some flags
          \<longrightarrow> (\<exists>flags'. display_buffer_flags ibuf1 = Some flags'
                 \<and> length flags' = length flags
                 \<and> (\<forall>d < nat (global_tot_display g). \<forall>v.
                       \<not> (d = nat (IMB_colormanagement_display_get_named_index g
                                      (ds_display_device ds) - 1)
                          \<and> v = nat (IMB_colormanagement_view_get_named_index g
                                       (vs_view_transform vs) - 1))
                       \<longrightarrow> \<not> bit (flags' ! d) v)
                 \<and> (\<forall>d < length flags.
                       nat (global_tot_display g) \<le> d
                       \<and> d \<noteq> nat (IMB_colormanagement_display_get_named_index g
                                     (ds_display_device ds) - 1)
                       \<longrightarrow> flags' ! d = flags ! d)))
       \<and> Call_IMB_moviecache_put k \<notin> set calls
       \<and> Call_IMB_processor_apply_threaded_scanlines n \<notin> set calls"
proof (cases "display_buffer_flags ibuf")
  case None
  from lookup_noflags [OF None, of g vs ds] assms
  have "ibuf1 = ibuf" "calls = []" by simp_all
  with ex_miss [OF assms] threaded_miss [OF assms] None show ?thesis
    by (simp add: IMB_partial_display_buffer_update_def)
next
  case (Some fl)
  let ?di = "nat (IMB_colormanagement_display_get_named_index g (ds_display_device ds) - 1)"
  let ?vi = "nat (IMB_colormanagement_view_get_named_index g (vs_view_transform vs) - 1)"
  let ?tot = "nat (global_tot_display g)"
  let ?cleared = "replicate ?tot (0::32 word) @ drop ?tot fl"
  let ?flags' = "?cleared[?di := (?cleared ! ?di) OR push_bit ?vi 1]"
  have cds: "cds_display (colormanage_display_settings_to_cache g ds)
               = IMB_colormanagement_display_get_named_index g (ds_display_device ds)"
    by (simp add: colormanage_display_settings_to_cache_def)
  have cvs: "cvs_view (colormanage_view_settings_to_cache g ibuf vs)
               = IMB_colormanagement_view_get_named_index g (vs_view_transform vs)"
    by (simp add: colormanage_view_settings_to_cache_def)
  note lf = lookup_flags [OF assms Some, of n k]
  from lf have tot: "?tot \<le> length fl" and di: "?di < length fl" and vi: "?vi < 32"
    and r: "ibuf1 = ibuf\<lparr>display_buffer_flags := Some ?flags'\<rparr>"
    and nc: "Call_IMB_moviecache_put k \<notin> set calls"
            "Call_IMB_processor_apply_threaded_scanlines n \<notin> set calls"
    unfolding cds cvs by auto
  have f1: "display_buffer_flags ibuf1 = Some ?flags'" by (subst r) simp
  have keep: "ibuf1 = ibuf\<lparr>display_buffer_flags := display_buffer_flags ibuf1\<rparr>"
    unfolding f1 by (rule r)
  note fb = flags_bits [OF tot di vi]
  have len: "length ?flags' = length fl" by (rule fb(1))
  have clr: "\<forall>d < ?tot. \<forall>v. \<not> (d = ?di \<and> v = ?vi) \<longrightarrow> \<not> bit (?flags' ! d) v"
    using fb(3) by blast
  have rest: "\<forall>d < length fl. ?tot \<le> d \<and> d \<noteq> ?di \<longrightarrow> ?flags' ! d = fl ! d"
    using tot by (auto simp: nth_append)
  have fl: "display_buffer_flags ibuf = Some flags \<longrightarrow>
              (\<exists>flags'. display_buffer_flags ibuf1 = Some flags'
                 \<and> length flags' = length flags
                 \<and> (\<forall>d < ?tot. \<forall>v. \<not> (d = ?di \<and> v = ?vi) \<longrightarrow> \<not> bit (flags' ! d) v)
                 \<and> (\<forall>d < length flags. ?tot \<le> d \<and> d \<noteq> ?di \<longrightarrow> flags' ! d = flags ! d))"
  proof
    assume "display_buffer_flags ibuf = Some flags"
    with Some have e: "flags = fl" by simp
    show "\<exists>flags'. display_buffer_flags ibuf1 = Some flags'
                 \<and> length flags' = length flags
                 \<and> (\<forall>d < ?tot. \<forall>v. \<not> (d = ?di \<and> v = ?vi) \<longrightarrow> \<not> bit (flags' ! d) v)
                 \<and> (\<forall>d < length flags. ?tot \<le> d \<and> d \<noteq> ?di \<longrightarrow> flags' ! d = flags ! d)"
      unfolding e
      apply (rule exI [of _ ?flags'])
      apply (intro conjI)
         apply (rule f1)
        apply (rule len)
       apply (rule clr)
      apply (rule rest)
      done
  qed
  have a: "imb_partial_display_buffer_update_ex P E g ibuf lb bb stride ox oy vs ds
           xmin ymin xmax ymax do_threads = Inr (ibuf1, calls)"
    by (rule ex_miss [OF assms])
  have b: "IMB_partial_display_buffer_update P E g ibuf lb bb stride ox oy vs ds
           xmin ymin xmax ymax = Inr (ibuf1, calls)"
    unfolding IMB_partial_display_buffer_update_def by (rule ex_miss [OF assms])
  have c: "- (2 ^ 31) \<le> xmax - xmin \<and> xmax - xmin < 2 ^ 31
          \<and> - (2 ^ 31) \<le> ymax - ymin \<and> ymax - ymin < 2 ^ 31
          \<longrightarrow> IMB_partial_display_buffer_update_threaded P E g ibuf lb bb stride ox oy vs ds
                xmin ymin xmax ymax = Inr (ibuf1, calls)"
    using threaded_miss [OF assms] by blast
  have d: "display_buffer_flags ibuf = None \<longrightarrow> ibuf1 = ibuf \<and> calls = []"
    using Some by simp
  from a b c keep d fl nc show ?thesis by (intro conjI)
qed

theorem partial_update_on_miss_witness:
  "partial_display_buffer_lookup example_globals example_ImBuf example_view_settings
     example_display_settings
     = Inr (example_ImBuf\<lparr>display_buffer_flags := Some [1, 0]\<rparr>, None, None, [])
   \<and> display_buffer_flags example_ImBuf = Some [6, 3]
   \<and> imb_partial_display_buffer_update_ex example_pixel_ops example_engine example_globals
       example_ImBuf None None 4 0 0 example_view_settings example_display_settings 0 0 4 2 True
     = Inr (example_ImBuf\<lparr>display_buffer_flags := Some [1, 0]\<rparr>, [])
   \<and> IMB_partial_display_buffer_update example_pixel_ops example_engine example_globals
       example_ImBuf None None 4 0 0 example_view_settings example_display_settings 0 0 4 2
     = Inr (example_ImBuf\<lparr>display_buffer_flags := Some [1, 0]\<rparr>, [])
   \<and> IMB_partial_display_buffer_update_threaded example_pixel_ops example_engine example_globals
       example_ImBuf None None 4 0 0 example_view_settings example_display_settings 0 0 4 2
     = Inr (example_ImBuf\<lparr>display_buffer_flags := Some [1, 0]\<rparr>, [])
   \<and> \<not> bit ([1, 0 :: 32 word] ! 0) 1 \<and> \<not> bit ([1, 0 :: 32 word] ! 0) 2
   \<and> \<not> bit ([1, 0 :: 32 word] ! 1) 0 \<and> \<not> bit ([1, 0 :: 32 word] ! 1) 1
   \<and> partial_display_buffer_lookup example_globals
       (example_ImBuf\<lparr>display_buffer_flags := None\<rparr>) example_view_settings
       example_display_settings
     = Inr (example_ImBuf\<lparr>display_buffer_flags := None\<rparr>, None, None, [])
   \<and> IMB_partial_display_buffer_update example_pixel_ops example_engine example_globals
       (example_ImBuf\<lparr>display_buffer_flags := None\<rparr>) None None 4 0 0 example_view_settings
       example_display_settings 0 0 4 2
     = Inr (example_ImBuf\<lparr>display_buffer_flags := None\<rparr>, [])"
proof -
  have f: "display_buffer_flags example_ImBuf = Some [6, 3]"
    by (simp add: example_ImBuf_def)
  have t: "nat (global_tot_display example_globals) = 2"
    by (simp add: example_globals_def)
  have s: "ds_display_device example_display_settings = ''sRGB''"
          "vs_view_transform example_view_settings = ''Standard''"
    by (simp_all add: example_display_settings_def example_view_settings_def)
  have n: "display_buffer_flags (example_ImBuf\<lparr>display_buffer_flags := None\<rparr>) = None"
    by simp
  note ln = lookup_noflags [OF n, of example_globals example_view_settings
                              example_display_settings]
  note m = partial_update_on_miss [OF example_lookup_miss, of example_pixel_ops example_engine
              None None 4 0 0 0 0 4 2 True "[6, 3]" example_key 0]
  note m' = partial_update_on_miss [OF ln, of example_pixel_ops example_engine
              None None 4 0 0 0 0 4 2 True "[]" example_key 0]
  from m f have c: "\<forall>d < 2. \<forall>v. \<not> (d = 0 \<and> v = 0) \<longrightarrow> \<not> bit ([1, 0 :: 32 word] ! d) v"
    unfolding t s example_indices by simp
  have c0: "\<not> bit ([1, 0 :: 32 word] ! 0) 1" "\<not> bit ([1, 0 :: 32 word] ! 0) 2"
    using c [rule_format, of 0 1] c [rule_format, of 0 2] by simp_all
  have c1: "\<not> bit ([1, 0 :: 32 word] ! 1) 0" "\<not> bit ([1, 0 :: 32 word] ! 1) 1"
    using c [rule_format, of 1 0] c [rule_format, of 1 1] by simp_all
  from m have a: "imb_partial_display_buffer_update_ex example_pixel_ops example_engine
       example_globals example_ImBuf None None 4 0 0 example_view_settings
       example_display_settings 0 0 4 2 True
     = Inr (example_ImBuf\<lparr>display_buffer_flags := Some [1, 0]\<rparr>, [])"
    and b: "IMB_partial_display_buffer_update example_pixel_ops example_engine example_globals
       example_ImBuf None None 4 0 0 example_view_settings example_display_settings 0 0 4 2
     = Inr (example_ImBuf\<lparr>display_buffer_flags := Some [1, 0]\<rparr>, [])"
    and d: "IMB_partial_display_buffer_update_threaded example_pixel_ops example_engine
       example_globals example_ImBuf None None 4 0 0 example_view_settings
       example_display_settings 0 0 4 2
     = Inr (example_ImBuf\<lparr>display_buffer_flags := Some [1, 0]\<rparr>, [])"
    by simp_all
  from m' have e: "IMB_partial_display_buffer_update example_pixel_ops example_engine
       example_globals (example_ImBuf\<lparr>display_buffer_flags := None\<rparr>) None None 4 0 0
       example_view_settings example_display_settings 0 0 4 2
     = Inr (example_ImBuf\<lparr>display_buffer_flags := None\<rparr>, [])"
    by simp
  from example_lookup_miss f a b d c0 c1 ln e show ?thesis by (simp only: simp_thms)
qed

text \<open>
  C4 (as stated) fails. The example buffer records display buffers for the views 2 and 3 on
  display 1 and for the views 1 and 2 on display 2 (the bit field is \<open>[6, 3]\<close>); the display
  buffer for view 1 on display 1 was never computed, so the lookup misses. The partial update
  for that pair returns an image buffer whose bit field is \<open>[1, 0]\<close>: the bits of the four
  other pairs, set before, are cleared (the update marks all other display buffers as
  invalid before it looks at what the lookup found).
\<close>

theorem partial_update_on_miss_changes_flags:
  "colormanage_cache_get example_ImBuf
     (colormanage_view_settings_to_cache example_globals example_ImBuf example_view_settings)
     (colormanage_display_settings_to_cache example_globals example_display_settings) None
     = Inr (None, None, [])
   \<and> display_buffer_flags example_ImBuf = Some [6, 3]
   \<and> IMB_partial_display_buffer_update example_pixel_ops example_engine example_globals
       example_ImBuf None None 4 0 0 example_view_settings example_display_settings 0 0 1 1
     = Inr (example_ImBuf\<lparr>display_buffer_flags := Some [1, 0]\<rparr>, [])
   \<and> bit ([6, 3 :: 32 word] ! 0) 1 \<and> \<not> bit ([1, 0 :: 32 word] ! 0) 1
   \<and> bit ([6, 3 :: 32 word] ! 0) 2 \<and> \<not> bit ([1, 0 :: 32 word] ! 0) 2
   \<and> bit ([6, 3 :: 32 word] ! 1) 0 \<and> \<not> bit ([1, 0 :: 32 word] ! 1) 0
   \<and> bit ([6, 3 :: 32 word] ! 1) 1 \<and> \<not> bit ([1, 0 :: 32 word] ! 1) 1
   \<and> example_ImBuf\<lparr>display_buffer_flags := Some [1, 0]\<rparr> \<noteq> example_ImBuf"
proof -
  have g: "colormanage_cache_get example_ImBuf
       (colormanage_view_settings_to_cache example_globals example_ImBuf example_view_settings)
       (colormanage_display_settings_to_cache example_globals example_display_settings) None
     = Inr (None, None, [])"
    by (simp add: example_to_cache example_get_miss)
  have u: "IMB_partial_display_buffer_update example_pixel_ops example_engine example_globals
             example_ImBuf None None 4 0 0 example_view_settings example_display_settings 0 0 1 1
           = Inr (example_ImBuf\<lparr>display_buffer_flags := Some [1, 0]\<rparr>, [])"
    unfolding IMB_partial_display_buffer_update_def
    by (rule ex_miss [OF example_lookup_miss])
  have f: "display_buffer_flags example_ImBuf = Some [6, 3]"
    by (simp add: example_ImBuf_def)
  have "display_buffer_flags (example_ImBuf\<lparr>display_buffer_flags := Some [1, 0]\<rparr>)
          \<noteq> display_buffer_flags example_ImBuf"
    by (simp add: f)
  then have ne: "example_ImBuf\<lparr>display_buffer_flags := Some [1, 0]\<rparr> \<noteq> example_ImBuf"
    by metis
  have b: "bit ([6, 3 :: 32 word] ! 0) 1" "\<not> bit ([1, 0 :: 32 word] ! 0) 1"
    "bit ([6, 3 :: 32 word] ! 0) 2" "\<not> bit ([1, 0 :: 32 word] ! 0) 2"
    "bit ([6, 3 :: 32 word] ! 1) 0" "\<not> bit ([1, 0 :: 32 word] ! 1) 0"
    "bit ([6, 3 :: 32 word] ! 1) 1" "\<not> bit ([1, 0 :: 32 word] ! 1) 1"
    by (simp_all add: bit_numeral_word_iff)
  from g f u b ne show ?thesis by (simp only: simp_thms)
qed

subsection \<open>Partial update: the region writer\<close>

text \<open>Without dither, every byte that \<open>partial_buffer_update_rect\<close> changes belongs to a
  pixel of the rectangle, with or without a processor and for every channel count: both
  branches address the display buffer with \<open>(y * display_stride + x) * 4\<close>.\<close>

lemma poke_outside:
  assumes "poke buf i vs = Inr buf'"
  shows "0 \<le> i" and "length buf' = length buf"
    and "j < nat i \<or> nat i + length vs \<le> j \<Longrightarrow> buf' ! j = buf ! j"
proof -
  from assms have i: "0 \<le> i" and b: "nat i + length vs \<le> length buf"
    and e: "buf' = take (nat i) buf @ vs @ drop (nat i + length vs) buf"
    by (auto simp: poke_def split: if_splits)
  show "0 \<le> i" by (rule i)
  show "length buf' = length buf" using b e by simp
  have la: "length (take (nat i) buf) = nat i" using b by simp
  assume "j < nat i \<or> nat i + length vs \<le> j"
  then show "buf' ! j = buf ! j"
  proof
    assume "j < nat i"
    with b e show ?thesis by (simp add: nth_append)
  next
    assume far: "nat i + length vs \<le> j"
    then have k: "j = nat i + (length vs + (j - nat i - length vs))" by simp
    have "buf' ! j = (take (nat i) buf @ vs @ drop (nat i + length vs) buf)
                       ! (length (take (nat i) buf) + (length vs + (j - nat i - length vs)))"
      using e k la by simp
    also have "\<dots> = (vs @ drop (nat i + length vs) buf) ! (length vs + (j - nat i - length vs))"
      by (rule nth_append_length_plus)
    also have "\<dots> = drop (nat i + length vs) buf ! (j - nat i - length vs)"
      by (rule nth_append_length_plus)
    also have "\<dots> = buf ! (nat i + length vs + (j - nat i - length vs))"
      using b by (intro nth_drop) simp
    also have "\<dots> = buf ! j" using far by simp
    finally show ?thesis .
  qed
qed

lemma for_each_invariant:
  assumes "for_each xs body s = Inr s'" and "I s"
    and "\<And>i t t'. i \<in> set xs \<Longrightarrow> I t \<Longrightarrow> body i t = Inr t' \<Longrightarrow> I t'"
  shows "I s'"
  using assms
proof (induction xs arbitrary: s)
  case Nil
  then show ?case by simp
next
  case (Cons x xs)
  from Cons.prems(1) obtain t where t: "body x s = Inr t" and r: "for_each xs body t = Inr s'"
    by (auto split: sum.splits)
  have it: "I t" by (rule Cons.prems(3) [of x s t]) (simp_all add: Cons.prems(2) t)
  show ?case
  proof (rule Cons.IH [OF r it])
    fix i u u'
    assume "i \<in> set xs" "I u" "body i u = Inr u'"
    then show "I u'" using Cons.prems(3) [of i u u'] by simp
  qed
qed

lemma in_rect_byteI:
  assumes "xmin \<le> x" "x < xmax" "ymin \<le> y" "y < ymax" "int j div 4 = y * display_stride + x"
  shows "in_rect_byte display_stride xmin ymin xmax ymax j"
  unfolding in_rect_byte_def
  by (rule bexI [of _ x], rule bexI [of _ y]) (use assms in auto)

lemma seq_poke_shape:
  assumes "seq r (\<lambda>v. case d of
                        Some dbf \<Rightarrow> F v dbf
                      | None \<Rightarrow> seq (poke buf i (B v)) (\<lambda>db'. Inr (db', None))) = Inr st'"
    and "d = None"
  shows "\<exists>v. poke buf i (B v) = Inr (fst st') \<and> snd st' = None"
  using assms by (auto simp: seq_def split: sum.splits)

lemma pixel_step_confined:
  assumes st: "snd st = None"
    and x: "xmin \<le> x" "x < xmax" and y: "ymin \<le> y" "y < ymax"
    and step: "partial_buffer_update_pixel P E ibuf lb bb display_stride linear_stride lox loy cm
                 channels is_data xmin ymin width y x st = Inr st'"
  shows "snd st' = None \<and> length (fst st') = length (fst st)
         \<and> (\<forall>j. \<not> in_rect_byte display_stride xmin ymin xmax ymax j \<longrightarrow> fst st' ! j = fst st ! j)"
proof -
  let ?B = "\<lambda>px0. let px = (if \<not> is_data
                               then IMB_colormanagement_processor_apply_pixel P E cm px0 channels
                               else px0)
                   in if channels = 4
                      then bytes4 (rgba_float_to_uchar P (premul_to_straight_v4_v4 P px))
                      else if channels = 3
                      then (case rgb_float_to_uchar P px of (r, g, b) \<Rightarrow> [r, g, b, 255])
                      else replicate 4 (unit_float_to_uchar_clamp P (fst px))"
  have lenB: "length (?B px) = 4" for px
    by (auto simp: bytes4_def Let_def split: prod.splits)
  have "\<exists>v. poke (fst st) ((y * display_stride + x) * 4) (?B v) = Inr (fst st') \<and> snd st' = None"
    by (rule seq_poke_shape [OF _ st])
       (use step in \<open>simp only: partial_buffer_update_pixel_def Let_def\<close>)
  then have "\<exists>bytes. length bytes = 4
                 \<and> poke (fst st) ((y * display_stride + x) * 4) bytes = Inr (fst st')
                 \<and> snd st' = None"
    using lenB by blast
  then obtain bytes where
    len: "length bytes = 4"
    and p: "poke (fst st) ((y * display_stride + x) * 4) bytes = Inr (fst st')"
    and n: "snd st' = None"
    by blast
  have "fst st' ! j = fst st ! j" if out: "\<not> in_rect_byte display_stride xmin ymin xmax ymax j" for j
  proof (rule poke_outside(3) [OF p])
    have nn: "0 \<le> (y * display_stride + x) * 4" by (rule poke_outside(1) [OF p])
    show "j < nat ((y * display_stride + x) * 4) \<or> nat ((y * display_stride + x) * 4) + length bytes \<le> j"
    proof (rule ccontr)
      assume "\<not> ?thesis"
      then have "(y * display_stride + x) * 4 \<le> int j" "int j < (y * display_stride + x) * 4 + 4"
        using nn len by auto
      then have "int j div 4 = y * display_stride + x" by auto
      with out x y show False by (auto dest: in_rect_byteI [rotated 4])
    qed
  qed
  with n poke_outside(2) [OF p] show ?thesis by simp
qed


lemma row_step_confined:
  assumes i: "ymin \<le> i" "i < ymax"
    and w: "0 \<le> xmax - xmin"
    and len: "length row = nat (4 * (xmax - xmin))"
    and p: "poke buf ((display_stride * i + xmin) * 4) row = Inr buf'"
  shows "length buf' = length buf
         \<and> (\<forall>j. \<not> in_rect_byte display_stride xmin ymin xmax ymax j \<longrightarrow> buf' ! j = buf ! j)"
proof -
  have "buf' ! j = buf ! j" if out: "\<not> in_rect_byte display_stride xmin ymin xmax ymax j" for j
  proof (rule poke_outside(3) [OF p])
    have nn: "0 \<le> (display_stride * i + xmin) * 4" by (rule poke_outside(1) [OF p])
    show "j < nat ((display_stride * i + xmin) * 4)
          \<or> nat ((display_stride * i + xmin) * 4) + length row \<le> j"
    proof (rule ccontr)
      assume "\<not> ?thesis"
      then have lo: "(display_stride * i + xmin) * 4 \<le> int j"
        and hi: "int j < (display_stride * i + xmin) * 4 + 4 * (xmax - xmin)"
        using nn len w by auto
      define x where "x = int j div 4 - display_stride * i"
      have "xmin \<le> x" "x < xmax" using lo hi unfolding x_def by auto
      moreover have "int j div 4 = i * display_stride + x" unfolding x_def by (simp add: mult.commute)
      ultimately show False using out i by (auto dest: in_rect_byteI [rotated 4])
    qed
  qed
  with poke_outside(2) [OF p] show ?thesis by simp
qed

lemma seq_final_shape:
  assumes "seq r (\<lambda>st. case snd st of Some dbf \<Rightarrow> G st dbf | None \<Rightarrow> Inr (fst st)) = Inr db'"
  shows "\<exists>st. r = Inr st \<and> (snd st = None \<longrightarrow> db' = fst st)"
  using assms by (auto simp: seq_def split: sum.splits option.splits)

lemma processor_loop_confined:
  assumes f: "for_each [ymin..ymax - 1]
                (\<lambda>y. for_each [xmin..xmax - 1]
                   (partial_buffer_update_pixel P E ibuf lb bb display_stride linear_stride lox loy c
                      channels is_data xmin ymin width y))
                (db, None) = Inr st"
  shows "snd st = None \<and> length (fst st) = length db
         \<and> (\<forall>j. \<not> in_rect_byte display_stride xmin ymin xmax ymax j \<longrightarrow> fst st ! j = db ! j)"
proof -
  let ?I = "\<lambda>st :: 8 word list \<times> real list option.
              snd st = None \<and> length (fst st) = length db
              \<and> (\<forall>j. \<not> in_rect_byte display_stride xmin ymin xmax ymax j \<longrightarrow> fst st ! j = db ! j)"
  have I0: "?I (db, None)" by simp
  show "?I st"
  proof (rule for_each_invariant [OF f, where I = ?I, OF I0])
    fix y t t'
    assume y: "y \<in> set [ymin..ymax - 1]" and t: "?I t"
      and b: "for_each [xmin..xmax - 1]
                (partial_buffer_update_pixel P E ibuf lb bb display_stride linear_stride lox loy c
                   channels is_data xmin ymin width y) t = Inr t'"
    show "?I t'"
    proof (rule for_each_invariant [OF b, where I = ?I, OF t])
      fix x u u'
      assume x: "x \<in> set [xmin..xmax - 1]" and u: "?I u"
        and s: "partial_buffer_update_pixel P E ibuf lb bb display_stride linear_stride lox loy c
                  channels is_data xmin ymin width y x u = Inr u'"
      from x y have xr: "xmin \<le> x" "x < xmax" and yr: "ymin \<le> y" "y < ymax" by auto
      from u have un: "snd u = None" by simp
      from pixel_step_confined [OF un xr yr s] u show "?I u'" by simp
    qed
  qed
qed

lemma copy_loop_confined:
  assumes f: "for_each [ymin..ymax - 1]
                (\<lambda>i st.
                   case bb of
                     None \<Rightarrow> Inl NullDeref
                   | Some bb \<Rightarrow>
                       if xmax - xmin < 0 then Inl OutOfBounds
                       else seq (peek bb ((linear_stride * i + xmin) * 4) (nat (4 * (xmax - xmin))))
                              (\<lambda>row. seq (poke (fst st) ((display_stride * i + xmin) * 4) row)
                                        (\<lambda>db'. Inr (db', snd st))))
                (db :: 8 word list, None :: real list option) = Inr st"
  shows "snd st = None \<and> length (fst st) = length db
         \<and> (\<forall>j. \<not> in_rect_byte display_stride xmin ymin xmax ymax j \<longrightarrow> fst st ! j = db ! j)"
proof -
  let ?I = "\<lambda>st :: 8 word list \<times> real list option.
              snd st = None \<and> length (fst st) = length db
              \<and> (\<forall>j. \<not> in_rect_byte display_stride xmin ymin xmax ymax j \<longrightarrow> fst st ! j = db ! j)"
  have I0: "?I (db, None)" by simp
  show "?I st"
  proof (rule for_each_invariant [OF f, where I = ?I, OF I0])
    fix i t t'
    assume i: "i \<in> set [ymin..ymax - 1]" and t: "?I t"
      and b: "(case bb of
                 None \<Rightarrow> Inl NullDeref
               | Some bb \<Rightarrow>
                   if xmax - xmin < 0 then Inl OutOfBounds
                   else seq (peek bb ((linear_stride * i + xmin) * 4) (nat (4 * (xmax - xmin))))
                          (\<lambda>row. seq (poke (fst t) ((display_stride * i + xmin) * 4) row)
                                    (\<lambda>db'. Inr (db', snd t)))) = Inr t'"
    from i have ir: "ymin \<le> i" "i < ymax" by auto
    from b obtain bb' where bb: "bb = Some bb'" and w: "0 \<le> xmax - xmin"
      and b2: "seq (peek bb' ((linear_stride * i + xmin) * 4) (nat (4 * (xmax - xmin))))
                 (\<lambda>row. seq (poke (fst t) ((display_stride * i + xmin) * 4) row)
                           (\<lambda>db'. Inr (db', snd t))) = Inr t'"
      by (cases bb) (auto split: if_splits)
    from seq_Inr [OF b2] obtain row where
      pk: "peek bb' ((linear_stride * i + xmin) * 4) (nat (4 * (xmax - xmin))) = Inr row"
      and b3: "seq (poke (fst t) ((display_stride * i + xmin) * 4) row) (\<lambda>db'. Inr (db', snd t))
                 = Inr t'"
      by blast
    from seq_Inr [OF b3] obtain buf' where
      p: "poke (fst t) ((display_stride * i + xmin) * 4) row = Inr buf'" and t': "t' = (buf', snd t)"
      by auto
    from pk have len: "length row = nat (4 * (xmax - xmin))"
      by (auto simp: peek_def split: if_splits)
    from row_step_confined [OF ir w len p] t t' show "?I t'" by simp
  qed
qed

lemma partial_buffer_update_rect_confined:
  assumes dz: "ibuf_dither ibuf = 0"
    and r: "partial_buffer_update_rect P E ibuf db lb bb display_stride linear_stride lox loy cm
              xmin ymin xmax ymax = Inr db'"
  shows "length db' = length db
         \<and> (\<forall>j. \<not> in_rect_byte display_stride xmin ymin xmax ymax j \<longrightarrow> db' ! j = db ! j)"
proof -
  note s = seq_final_shape [OF r [unfolded partial_buffer_update_rect_def Let_def]]
  have "\<exists>st :: 8 word list \<times> real list option.
          (snd st = None \<and> length (fst st) = length db
           \<and> (\<forall>j. \<not> in_rect_byte display_stride xmin ymin xmax ymax j \<longrightarrow> fst st ! j = db ! j))
          \<and> (snd st = None \<longrightarrow> db' = fst st)"
  proof (cases cm)
    case (Some c)
    from s [unfolded Some, simplified dz simp_thms if_False option.case]
    show ?thesis
      apply (elim exE conjE)
      apply (drule processor_loop_confined)
      apply (rule exI)
      apply (rule conjI)
       apply assumption
      apply assumption
      done
  next
    case None
    from s [unfolded None, simplified dz simp_thms if_False option.case]
    show ?thesis
      apply (elim exE conjE)
      apply (drule copy_loop_confined)
      apply (rule exI)
      apply (rule conjI)
       apply assumption
      apply assumption
      done
  qed
  then show ?thesis by auto
qed

text \<open>
  C5. With dither on, a processor and a 3-channel float source, \<open>partial_buffer_update_rect\<close>
  computes the destination of the quantisation as \<open>(ymin * display_stride + xmin) * channels\<close>,
  not \<open>* 4\<close>: for the rectangle that holds the single pixel (2, 0) of a 4 by 2 display buffer
  it writes bytes 6 to 9, so that the pixel (1, 0), outside the rectangle, changes from
  \<open>[0, 0, 0, 0]\<close> to \<open>[0, 0, 255, 255]\<close>. With 4 channels the same call writes bytes 8 to 11,
  the pixel (2, 0) alone.
\<close>

theorem partial_buffer_update_rect_dither_offset:
  "partial_buffer_update_rect example_pixel_ops example_engine
     (example_ImBuf\<lparr>ibuf_channels := 3, ibuf_dither := 1\<rparr>)
     (replicate 32 0) (Some (replicate 24 0)) None 4 4 0 0 (Some example_processor) 2 0 3 1
   = Inr (replicate 6 0 @ [255, 255, 255, 255] @ replicate 22 0)
   \<and> display_pixel (replicate 32 0) 4 1 0 = [0, 0, 0, 0]
   \<and> display_pixel (replicate 6 0 @ [255, 255, 255, 255] @ replicate 22 0) 4 1 0
       = [0, 0, 255, 255]
   \<and> partial_buffer_update_rect example_pixel_ops example_engine
       (example_ImBuf\<lparr>ibuf_channels := 4, ibuf_dither := 1\<rparr>)
       (replicate 32 0) (Some (replicate 32 0)) None 4 4 0 0 (Some example_processor) 2 0 3 1
     = Inr (replicate 8 0 @ [255, 255, 255, 255] @ replicate 20 0)"
proof -
  have a: "partial_buffer_update_rect example_pixel_ops example_engine
     (example_ImBuf\<lparr>ibuf_channels := 3, ibuf_dither := 1\<rparr>)
     (replicate 32 0) (Some (replicate 24 0)) None 4 4 0 0 (Some example_processor) 2 0 3 1
   = Inr (replicate 6 0 @ [255, 255, 255, 255] @ replicate 22 0)"
    by (simp add: partial_buffer_update_rect_def example_ImBuf_def Let_def
       IMB_COLORMANAGE_IS_DATA_def partial_buffer_update_pixel_def seq_def peek_def poke_def
       IMB_colormanagement_processor_apply_pixel_def example_processor_def floats4_def bytes4_def
       IMB_buffer_byte_from_float_def example_pixel_ops_def upto_rec1)
  have b: "partial_buffer_update_rect example_pixel_ops example_engine
       (example_ImBuf\<lparr>ibuf_channels := 4, ibuf_dither := 1\<rparr>)
       (replicate 32 0) (Some (replicate 32 0)) None 4 4 0 0 (Some example_processor) 2 0 3 1
     = Inr (replicate 8 0 @ [255, 255, 255, 255] @ replicate 20 0)"
    by (simp add: partial_buffer_update_rect_def example_ImBuf_def Let_def
       IMB_COLORMANAGE_IS_DATA_def partial_buffer_update_pixel_def seq_def peek_def poke_def
       read4_def
       IMB_colormanagement_processor_apply_pixel_def example_processor_def floats4_def bytes4_def
       IMB_buffer_byte_from_float_def example_pixel_ops_def upto_rec1)
  have c: "display_pixel (replicate 32 0) 4 1 0 = [0, 0, 0, 0]"
    "display_pixel (replicate 6 0 @ [255, 255, 255, 255] @ replicate 22 0) 4 1 0
       = [0, 0, 255, 255]"
    by (simp_all add: display_pixel_def numeral_eq_Suc)
  from a b c show ?thesis by simp
qed

subsection \<open>Partial update: the threading threshold\<close>




end
